theory Spec2Isabelle
  imports Complex_Main
begin

section \<open>Tensors over exact reals\<close>

text \<open>
  The program is \<^verbatim>\<open>src/onnx/export/export_nsf_hifigan.py\<close>: the NSF-HiFiGAN vocoder
  (sine generator, source module, generator) and its ONNX export script.

  A tensor is its shape together with the value at every index. Values are real numbers
  and the arithmetic of the layers is exact; the tensors of the program hold 32-bit
  floats, and the rounding to the nearest float is written out where a statement below
  depends on it, at the final \<^verbatim>\<open>torch.tanh\<close> of the generator. The values \<^verbatim>\<open>inf\<close> and
  \<^verbatim>\<open>nan\<close> of a float are not real numbers and have no counterpart here.
  A Python exception is a value of \<open>error\<close>; a fallible operation returns
  \<open>error + 'a\<close> with \<open>Inl\<close> for the exception.
\<close>

datatype error =
    IndexError
  | RuntimeError
  | TypeError
  | ValueError
  | KeyError
  | NotImplementedError
  | FileNotFoundError
  | AssertionError string

record tensor =
  shape :: "nat list"
  data :: "nat list \<Rightarrow> real"

definition tmap :: "(real \<Rightarrow> real) \<Rightarrow> tensor \<Rightarrow> tensor" where
  \<comment> \<open>an elementwise operation: the shape is kept\<close>
  "tmap f x = x\<lparr>data := (\<lambda>i. f (data x i))\<rparr>"

definition fmod :: "real \<Rightarrow> real \<Rightarrow> real" where
  \<comment> \<open>\<^verbatim>\<open>torch.fmod\<close>: the remainder of the division truncated towards zero\<close>
  "fmod x y = x - y * of_int (if 0 \<le> x / y then \<lfloor>x / y\<rfloor> else \<lceil>x / y\<rceil>)"

definition round_half_even :: "real \<Rightarrow> int" where
  \<comment> \<open>the nearest integer, a tie going to the even one\<close>
  "round_half_even x =
     (let n = \<lfloor>x\<rfloor>; r = x - of_int n
      in if r < 1 / 2 then n else if 1 / 2 < r then n + 1 else if even n then n else n + 1)"

definition round_float :: "nat \<Rightarrow> int \<Rightarrow> real \<Rightarrow> real" where
  \<comment> \<open>the binary floating-point number with \<open>p\<close> significant bits and least exponent
      \<open>emin\<close> that is nearest to \<open>x\<close> (IEEE 754: round to nearest, ties to even), for \<open>x\<close>
      below the overflow threshold\<close>
  "round_float p emin x =
     (if x = 0 then 0
      else (let e = max \<lfloor>log 2 \<bar>x\<bar>\<rfloor> emin;
                ulp = 2 powr (of_int e - (real p - 1))
            in of_int (round_half_even (x / ulp)) * ulp))"

definition float32 :: "real \<Rightarrow> real" where
  \<comment> \<open>the 32-bit float nearest to \<open>x\<close>: 24 significant bits, least exponent -126\<close>
  "float32 = round_float 24 (- 126)"

definition float64 :: "real \<Rightarrow> real" where
  \<comment> \<open>the 64-bit float nearest to \<open>x\<close>: 53 significant bits, least exponent -1022\<close>
  "float64 = round_float 53 (- 1022)"

definition zeros :: "nat list \<Rightarrow> tensor" where
  "zeros s = \<lparr>shape = s, data = (\<lambda>i. 0)\<rparr>"

fun bcast_rev :: "nat list \<Rightarrow> nat list \<Rightarrow> nat list option" where
  \<comment> \<open>broadcasting of two shapes, trailing dimension first\<close>
  "bcast_rev [] ys = Some ys"
| "bcast_rev (x # xs) [] = Some (x # xs)"
| "bcast_rev (x # xs) (y # ys) =
     (if x = y \<or> y = 1 then map_option ((#) x) (bcast_rev xs ys)
      else if x = 1 then map_option ((#) y) (bcast_rev xs ys)
      else None)"

definition broadcast_shapes :: "nat list \<Rightarrow> nat list \<Rightarrow> nat list option" where
  "broadcast_shapes s1 s2 = map_option rev (bcast_rev (rev s1) (rev s2))"

definition bidx :: "nat list \<Rightarrow> nat list \<Rightarrow> nat list" where
  \<comment> \<open>the index into an operand of shape \<open>s\<close> read for index \<open>i\<close> of the broadcast result\<close>
  "bidx s i = map2 (\<lambda>n k. if n = 1 then 0 else k) s (drop (length i - length s) i)"

definition tbinop :: "(real \<Rightarrow> real \<Rightarrow> real) \<Rightarrow> tensor \<Rightarrow> tensor \<Rightarrow> error + tensor" where
  \<comment> \<open>an elementwise binary operation with broadcasting\<close>
  "tbinop f x y =
     (case broadcast_shapes (shape x) (shape y) of
        None \<Rightarrow> Inl RuntimeError
      | Some s \<Rightarrow> Inr \<lparr>shape = s,
                      data = (\<lambda>i. f (data x (bidx (shape x) i)) (data y (bidx (shape y) i)))\<rparr>)"

definition cumsum1 :: "tensor \<Rightarrow> tensor" where
  \<comment> \<open>\<^verbatim>\<open>torch.cumsum(x, dim=1)\<close>, on a tensor with at least two dimensions\<close>
  "cumsum1 x = x\<lparr>data := (\<lambda>i. \<Sum>k\<leftarrow>[0..<Suc (i ! 1)]. data x (i[1 := k]))\<rparr>"

definition unsqueeze1 :: "tensor \<Rightarrow> tensor" where
  \<comment> \<open>\<^verbatim>\<open>x.unsqueeze(1)\<close>, on a tensor with at least one dimension\<close>
  "unsqueeze1 x = \<lparr>shape = take 1 (shape x) @ [1] @ drop 1 (shape x),
                   data = (\<lambda>i. data x (take 1 i @ drop 2 i))\<rparr>"

definition squeeze1 :: "tensor \<Rightarrow> tensor" where
  \<comment> \<open>\<^verbatim>\<open>x.squeeze(1)\<close>: dimension 1 is dropped when its size is 1, else nothing changes\<close>
  "squeeze1 x =
     (if 1 < length (shape x) \<and> shape x ! 1 = 1
      then \<lparr>shape = take 1 (shape x) @ drop 2 (shape x),
            data = (\<lambda>i. data x (take 1 i @ [0] @ drop 1 i))\<rparr>
      else x)"

definition cat1 :: "tensor \<Rightarrow> tensor \<Rightarrow> error + tensor" where
  \<comment> \<open>\<^verbatim>\<open>torch.cat((x, y), dim=1)\<close>: all sizes but that of dimension 1 must agree\<close>
  "cat1 x y =
     (if length (shape x) = length (shape y) \<and> 2 \<le> length (shape x)
         \<and> (shape x)[1 := 0] = (shape y)[1 := 0]
      then Inr \<lparr>shape = (shape x)[1 := shape x ! 1 + shape y ! 1],
                data = (\<lambda>i. if i ! 1 < shape x ! 1 then data x i
                            else data y (i[1 := i ! 1 - shape x ! 1]))\<rparr>
      else Inl RuntimeError)"

section \<open>Conv2d\<close>

record Conv2d =
  in_channels :: nat
  out_channels :: nat
  kernel_size :: "nat \<times> nat"
  stride :: "nat \<times> nat"
  padding :: "nat \<times> nat"
  dilation :: "nat \<times> nat"
  bias :: "tensor option"
  weight :: tensor

definition padded :: "tensor \<Rightarrow> nat \<Rightarrow> nat \<Rightarrow> nat list \<Rightarrow> real" where
  \<comment> \<open>the input of shape (N, C, H, W) with \<open>ph\<close> rows and \<open>pw\<close> columns of zeros on each side\<close>
  "padded x ph pw i =
     (if ph \<le> i ! 2 \<and> i ! 2 < shape x ! 2 + ph \<and> pw \<le> i ! 3 \<and> i ! 3 < shape x ! 3 + pw
      then data x [i ! 0, i ! 1, i ! 2 - ph, i ! 3 - pw] else 0)"

definition Conv2d_forward :: "Conv2d \<Rightarrow> tensor \<Rightarrow> error + tensor" where
  \<comment> \<open>\<^verbatim>\<open>torch.nn.Conv2d\<close> (groups = 1, zero padding) on a batched input (N, C, H, W):
      the cross-correlation of the input with the weight, plus the bias\<close>
  "Conv2d_forward m x =
     (case shape x of
        [N, C, H, W] \<Rightarrow>
          (case (kernel_size m, stride m, padding m, dilation m) of
             ((kh, kw), (sh, sw), (ph, pw), (dh, dw)) \<Rightarrow>
               if C \<noteq> in_channels m
                  \<or> shape (weight m) \<noteq> [out_channels m, in_channels m, kh, kw]
               then Inl RuntimeError
               else if H + 2 * ph < dh * (kh - 1) + 1 \<or> W + 2 * pw < dw * (kw - 1) + 1
               then Inl RuntimeError
               else Inr
                 \<lparr>shape = [N, out_channels m,
                           (H + 2 * ph - dh * (kh - 1) - 1) div sh + 1,
                           (W + 2 * pw - dw * (kw - 1) - 1) div sw + 1],
                  data = (\<lambda>i.
                    (case bias m of None \<Rightarrow> 0 | Some b \<Rightarrow> data b [i ! 1])
                    + (\<Sum>c\<leftarrow>[0..<C]. \<Sum>a\<leftarrow>[0..<kh]. \<Sum>b\<leftarrow>[0..<kw].
                         data (weight m) [i ! 1, c, a, b]
                         * padded x ph pw [i ! 0, c, i ! 2 * sh + a * dh, i ! 3 * sw + b * dw]))\<rparr>)
      | _ \<Rightarrow> Inl RuntimeError)"

section \<open>SineGen\<close>

record SineGen =
  sine_amp :: real
  noise_std :: real
  harmonic_num :: nat
  dim :: nat
  sampling_rate :: real
  voiced_threshold :: real
  diff :: Conv2d

definition diff_weight :: tensor where
  \<comment> \<open>\<^verbatim>\<open>torch.FloatTensor([[[[-1.], [1.]]]])\<close>\<close>
  "diff_weight = \<lparr>shape = [1, 1, 2, 1], data = (\<lambda>i. [-1, 1] ! (i ! 2))\<rparr>"

definition SineGen_init :: "real \<Rightarrow> nat \<Rightarrow> real \<Rightarrow> real \<Rightarrow> real \<Rightarrow> SineGen" where
  \<comment> \<open>\<^verbatim>\<open>SineGen.__init__(samp_rate, harmonic_num, sine_amp, noise_std, voiced_threshold)\<close>\<close>
  "SineGen_init samp_rate harmonic_num' sine_amp' noise_std' voiced_threshold' =
     \<lparr>sine_amp = sine_amp',
      noise_std = noise_std',
      harmonic_num = harmonic_num',
      dim = harmonic_num' + 1,
      sampling_rate = samp_rate,
      voiced_threshold = voiced_threshold',
      diff = \<lparr>in_channels = 1, out_channels = 1, kernel_size = (2, 1), stride = (1, 1),
              padding = (0, 0), dilation = (1, 1), bias = None, weight = diff_weight\<rparr>\<rparr>"

definition rand_ini_of :: "nat \<Rightarrow> (nat \<Rightarrow> real) \<Rightarrow> error + tensor" where
  \<comment> \<open>lines 68-69: \<^verbatim>\<open>rand_ini = torch.rand(1, dim); rand_ini[:, 0] = 0\<close>.
      The draw of \<^verbatim>\<open>torch.rand\<close> is the argument \<open>u\<close>, one value per column.\<close>
  "rand_ini_of n u =
     (if n = 0 then Inl IndexError
      else Inr \<lparr>shape = [1, n], data = (\<lambda>i. if i ! 1 = 0 then 0 else u (i ! 1))\<rparr>)"

definition iadd_select0 :: "tensor \<Rightarrow> tensor \<Rightarrow> error + tensor" where
  \<comment> \<open>line 70: \<^verbatim>\<open>x[:, 0, :] += r\<close> for \<open>x\<close> of shape (B, L, D) and \<open>r\<close> of shape (R0, R1):
      \<open>r\<close> is broadcast to the slice (B, D), which itself cannot grow\<close>
  "iadd_select0 x r =
     (case shape x of
        [B, L, D] \<Rightarrow>
          if L = 0 then Inl IndexError
          else (case shape r of
                  [R0, R1] \<Rightarrow>
                    if (R0 = B \<or> R0 = 1) \<and> (R1 = D \<or> R1 = 1)
                    then Inr (x\<lparr>data := (\<lambda>i.
                           if i ! 1 = 0
                           then data x i + data r [if R0 = 1 then 0 else i ! 0,
                                                   if R1 = 1 then 0 else i ! 2]
                           else data x i)\<rparr>)
                    else Inl RuntimeError
                | _ \<Rightarrow> Inl RuntimeError)
      | _ \<Rightarrow> if length (shape x) < 3 then Inl IndexError else Inl RuntimeError)"

definition rad_values_of :: "SineGen \<Rightarrow> (nat \<Rightarrow> real) \<Rightarrow> tensor \<Rightarrow> error + tensor" where
  \<comment> \<open>lines 65-70 of \<^verbatim>\<open>_f02sine\<close>: the value of \<^verbatim>\<open>rad_values\<close> after the initial phase
      has been added. An input that is not three-dimensional fails here or, at the
      latest, in the convolution of line 80.\<close>
  "rad_values_of self u f0_values =
     (let rad_values = tmap (\<lambda>v. fmod (v / sampling_rate self) 1) f0_values in
      case rand_ini_of (dim self) u of
        Inl e \<Rightarrow> Inl e
      | Inr rand_ini \<Rightarrow> iadd_select0 rad_values rand_ini)"

definition cumsum_shift_of :: "SineGen \<Rightarrow> tensor \<Rightarrow> error + tensor" where
  \<comment> \<open>lines 78-82 of \<^verbatim>\<open>_f02sine\<close>: the value of \<^verbatim>\<open>cumsum_shift\<close> after the concatenation\<close>
  "cumsum_shift_of self rad_values =
     (let tmp_over_one = tmap (\<lambda>v. fmod v 1) (cumsum1 rad_values) in
      case Conv2d_forward (diff self) (unsqueeze1 tmp_over_one) of
        Inl e \<Rightarrow> Inl e
      | Inr c \<Rightarrow>
          (let diff' = squeeze1 c;
               cumsum_shift = tmap (\<lambda>v. if v < 0 then 1 else 0) diff'
           in cat1 (zeros [1, 1, dim self]) cumsum_shift))"

definition f02sine :: "SineGen \<Rightarrow> (nat \<Rightarrow> real) \<Rightarrow> tensor \<Rightarrow> error + tensor" where
  \<comment> \<open>\<^verbatim>\<open>SineGen._f02sine\<close>\<close>
  "f02sine self u f0_values =
     (case rad_values_of self u f0_values of
        Inl e \<Rightarrow> Inl e
      | Inr rad_values \<Rightarrow>
          (case cumsum_shift_of self rad_values of
             Inl e \<Rightarrow> Inl e
           | Inr cumsum_shift \<Rightarrow>
               (case tbinop (-) rad_values cumsum_shift of
                  Inl e \<Rightarrow> Inl e
                | Inr d \<Rightarrow> Inr (tmap (\<lambda>v. sin (v * (2 * pi))) (cumsum1 d)))))"

definition phase_of :: "SineGen \<Rightarrow> (nat \<Rightarrow> real) \<Rightarrow> tensor \<Rightarrow> error + tensor" where
  \<comment> \<open>line 83 of \<^verbatim>\<open>_f02sine\<close>: the value of \<^verbatim>\<open>torch.cumsum(rad_values - cumsum_shift, dim=1)\<close>,
      the phase whose sine is returned\<close>
  "phase_of self u f0_values =
     (case rad_values_of self u f0_values of
        Inl e \<Rightarrow> Inl e
      | Inr rad_values \<Rightarrow>
          (case cumsum_shift_of self rad_values of
             Inl e \<Rightarrow> Inl e
           | Inr cumsum_shift \<Rightarrow>
               (case tbinop (-) rad_values cumsum_shift of
                  Inl e \<Rightarrow> Inl e
                | Inr d \<Rightarrow> Inr (cumsum1 d))))"

definition cumsum1_float32 :: "tensor \<Rightarrow> tensor" where
  \<comment> \<open>\<^verbatim>\<open>torch.cumsum(x, dim=1)\<close> on a tensor of 32-bit floats, as the CPU kernel computes it:
      the running sum is a 64-bit float, and an entry of the result is the running sum
      rounded to 32 bits\<close>
  "cumsum1_float32 x =
     x\<lparr>data := (\<lambda>i. float32 (foldl (\<lambda>acc k. float64 (acc + data x (i[1 := k]))) 0
                                    [0..<Suc (i ! 1)]))\<rparr>"

definition phase_of_float32 :: "SineGen \<Rightarrow> (nat \<Rightarrow> real) \<Rightarrow> tensor \<Rightarrow> error + tensor" where
  \<comment> \<open>lines 65-83 of \<^verbatim>\<open>_f02sine\<close> on tensors of 32-bit floats: the value of
      \<^verbatim>\<open>torch.cumsum(rad_values - cumsum_shift, dim=1)\<close> when the division, the addition of
      the initial phase, the subtraction and the cumulative sums return the float nearest
      to their result. The remainder \<^verbatim>\<open>fmod\<close> of a float is a float, and the sign of a
      difference of two floats, which is all that \<^verbatim>\<open>diff < 0\<close> reads, survives its rounding.\<close>
  "phase_of_float32 self u f0_values =
     (let rad = tmap (\<lambda>v. fmod (float32 (v / sampling_rate self)) 1) f0_values in
      case rand_ini_of (dim self) u of
        Inl e \<Rightarrow> Inl e
      | Inr rand_ini \<Rightarrow>
          (case iadd_select0 rad rand_ini of
             Inl e \<Rightarrow> Inl e
           | Inr rad' \<Rightarrow>
               (let rad_values = tmap float32 rad';
                    tmp_over_one = tmap (\<lambda>v. fmod v 1) (cumsum1_float32 rad_values)
                in case Conv2d_forward (diff self) (unsqueeze1 tmp_over_one) of
                     Inl e \<Rightarrow> Inl e
                   | Inr c \<Rightarrow>
                       (let diff' = squeeze1 c;
                            cumsum_shift = tmap (\<lambda>v. if v < 0 then 1 else 0) diff'
                        in case cat1 (zeros [1, 1, dim self]) cumsum_shift of
                             Inl e \<Rightarrow> Inl e
                           | Inr cumsum_shift' \<Rightarrow>
                               (case tbinop (\<lambda>a b. float32 (a - b)) rad_values cumsum_shift' of
                                  Inl e \<Rightarrow> Inl e
                                | Inr d \<Rightarrow> Inr (cumsum1_float32 d))))))"

definition harmonics :: "nat \<Rightarrow> tensor" where
  \<comment> \<open>\<^verbatim>\<open>torch.FloatTensor([[range(1, harmonic_num + 2)]])\<close>, of shape (1, 1, harmonic_num + 1)\<close>
  "harmonics hn = \<lparr>shape = [1, 1, hn + 1], data = (\<lambda>i. real (i ! 2) + 1)\<rparr>"

definition fn_of :: "SineGen \<Rightarrow> tensor \<Rightarrow> error + tensor" where
  \<comment> \<open>line 95: \<^verbatim>\<open>fn = torch.multiply(f0, [[1, ..., harmonic_num + 1]])\<close>\<close>
  "fn_of self f0 = tbinop (*) f0 (harmonics (harmonic_num self))"

definition randn_like :: "(nat list \<Rightarrow> real) \<Rightarrow> tensor \<Rightarrow> tensor" where
  \<comment> \<open>\<^verbatim>\<open>torch.randn_like(x)\<close>: the shape of \<open>x\<close>; the draw is the argument \<open>g\<close>\<close>
  "randn_like g x = \<lparr>shape = shape x, data = g\<rparr>"

definition SineGen_forward ::
  "SineGen \<Rightarrow> (nat \<Rightarrow> real) \<Rightarrow> (nat list \<Rightarrow> real) \<Rightarrow> tensor \<Rightarrow> error + tensor \<times> tensor \<times> tensor"
where
  \<comment> \<open>\<^verbatim>\<open>SineGen.forward\<close>; \<open>u\<close> is the draw of \<^verbatim>\<open>torch.rand\<close> in \<^verbatim>\<open>_f02sine\<close> and \<open>g\<close> that of
      \<^verbatim>\<open>torch.randn_like\<close>. The result is \<^verbatim>\<open>(sine_waves, uv, noise)\<close>.\<close>
  "SineGen_forward self u g f0 =
     (case fn_of self f0 of
        Inl e \<Rightarrow> Inl e
      | Inr fn \<Rightarrow>
          (case f02sine self u fn of
             Inl e \<Rightarrow> Inl e
           | Inr sines \<Rightarrow>
               (let sine_waves = tmap (\<lambda>v. v * sine_amp self) sines;
                    uv = tmap (\<lambda>v. if voiced_threshold self < v then 1 else 0) f0;
                    noise_amp =
                      tmap (\<lambda>v. v * noise_std self + (1 - v) * (sine_amp self / 3)) uv
                in case tbinop (*) noise_amp (randn_like g sine_waves) of
                     Inl e \<Rightarrow> Inl e
                   | Inr noise \<Rightarrow>
                       (case tbinop (*) sine_waves uv of
                          Inl e \<Rightarrow> Inl e
                        | Inr masked \<Rightarrow>
                            (case tbinop (+) masked noise of
                               Inl e \<Rightarrow> Inl e
                             | Inr sine_waves' \<Rightarrow> Inr (sine_waves', uv, noise))))))"

section \<open>SourceModuleHnNSF\<close>

record Linear =
  in_features :: nat
  out_features :: nat
  lin_weight :: tensor
  lin_bias :: tensor

definition Linear_init :: "nat \<Rightarrow> nat \<Rightarrow> (nat list \<Rightarrow> real) \<Rightarrow> (nat list \<Rightarrow> real) \<Rightarrow> Linear" where
  \<comment> \<open>\<^verbatim>\<open>torch.nn.Linear(n_in, n_out)\<close>; \<open>w0\<close> and \<open>b0\<close> are the initial values of the
      weight, of shape (n_out, n_in), and of the bias, of shape (n_out)\<close>
  "Linear_init n_in n_out w0 b0 =
     \<lparr>in_features = n_in, out_features = n_out,
      lin_weight = \<lparr>shape = [n_out, n_in], data = w0\<rparr>,
      lin_bias = \<lparr>shape = [n_out], data = b0\<rparr>\<rparr>"

definition Linear_forward :: "Linear \<Rightarrow> tensor \<Rightarrow> error + tensor" where
  \<comment> \<open>\<^verbatim>\<open>y = x W\<^sup>T + b\<close> on the last dimension\<close>
  "Linear_forward m x =
     (if shape x = [] \<or> last (shape x) \<noteq> in_features m
         \<or> shape (lin_weight m) \<noteq> [out_features m, in_features m]
         \<or> shape (lin_bias m) \<noteq> [out_features m]
      then Inl RuntimeError
      else Inr \<lparr>shape = butlast (shape x) @ [out_features m],
                data = (\<lambda>i. (\<Sum>k\<leftarrow>[0..<in_features m].
                                 data x (butlast i @ [k]) * data (lin_weight m) [last i, k])
                            + data (lin_bias m) [last i])\<rparr>)"

record SourceModuleHnNSF =
  sm_sine_amp :: real
  sm_noise_std :: real
  l_sin_gen :: SineGen
  l_linear :: Linear

definition SourceModuleHnNSF_init ::
  "real \<Rightarrow> nat \<Rightarrow> real \<Rightarrow> real \<Rightarrow> real \<Rightarrow> (nat list \<Rightarrow> real) \<Rightarrow> (nat list \<Rightarrow> real)
   \<Rightarrow> SourceModuleHnNSF"
where
  \<comment> \<open>\<^verbatim>\<open>SourceModuleHnNSF.__init__(sampling_rate, harmonic_num, sine_amp, add_noise_std,
      voiced_threshod)\<close>; \<open>w0\<close> and \<open>b0\<close> initialise \<^verbatim>\<open>l_linear\<close>; \<^verbatim>\<open>l_tanh\<close> has no state\<close>
  "SourceModuleHnNSF_init sampling_rate' harmonic_num' sine_amp' add_noise_std voiced_threshod
       w0 b0 =
     \<lparr>sm_sine_amp = sine_amp',
      sm_noise_std = add_noise_std,
      l_sin_gen = SineGen_init sampling_rate' harmonic_num' sine_amp' add_noise_std voiced_threshod,
      l_linear = Linear_init (harmonic_num' + 1) 1 w0 b0\<rparr>"

record draws =
  rand_ini_draw :: "nat \<Rightarrow> real"
  randn_sine :: "nat list \<Rightarrow> real"
  randn_noise :: "nat list \<Rightarrow> real"

definition SourceModuleHnNSF_forward ::
  "SourceModuleHnNSF \<Rightarrow> draws \<Rightarrow> tensor \<Rightarrow> error + tensor \<times> tensor \<times> tensor"
where
  \<comment> \<open>\<^verbatim>\<open>SourceModuleHnNSF.forward\<close>: the result is \<^verbatim>\<open>(sine_merge, noise, uv)\<close>; \<open>rng\<close> holds
      the three random draws of one pass\<close>
  "SourceModuleHnNSF_forward self rng x =
     (case SineGen_forward (l_sin_gen self) (rand_ini_draw rng) (randn_sine rng) x of
        Inl e \<Rightarrow> Inl e
      | Inr (sine_wavs, uv, _) \<Rightarrow>
          (case Linear_forward (l_linear self) sine_wavs of
             Inl e \<Rightarrow> Inl e
           | Inr y \<Rightarrow>
               (let sine_merge = tmap tanh y;
                    noise = tmap (\<lambda>v. v * (sm_sine_amp self / 3))
                              (randn_like (randn_noise rng) uv)
                in Inr (sine_merge, noise, uv))))"

section \<open>Generator\<close>

text \<open>
  The hyperparameters \<^verbatim>\<open>h\<close> are the fields of \<^verbatim>\<open>config.json\<close> that the generator reads.
  A convolution layer is described by its constructor arguments and by whether the
  weight-norm hook is registered on it; what the layer computes with its trained weights
  is the argument \<open>run\<close> of the forward pass.
\<close>

record hparams =
  resblock :: string
  resblock_kernel_sizes :: "int list"
  resblock_dilation_sizes :: "int list list"
  upsample_rates :: "int list"
  upsample_kernel_sizes :: "int list"
  upsample_initial_channel :: int
  num_mels :: int
  hp_sampling_rate :: real

datatype layer_class = Conv1d | ConvTranspose1d

record layer =
  layer_class :: layer_class
  l_in_channels :: int
  l_out_channels :: int
  l_kernel_size :: int
  l_stride :: int
  l_padding :: int
  weight_norm_hook :: bool

definition Conv1d_init :: "int \<Rightarrow> int \<Rightarrow> int \<Rightarrow> int \<Rightarrow> int \<Rightarrow> error + layer" where
  \<comment> \<open>\<^verbatim>\<open>Conv1d(in_channels, out_channels, kernel_size, stride, padding)\<close>: the constructor
      allocates the weight of shape (out_channels, in_channels, kernel_size), and
      \<^verbatim>\<open>torch.empty\<close> raises RuntimeError on a negative size\<close>
  "Conv1d_init i_c o_c k s p =
     (if i_c < 0 \<or> o_c < 0 \<or> k < 0 then Inl RuntimeError
      else Inr \<lparr>layer_class = Conv1d, l_in_channels = i_c, l_out_channels = o_c,
                l_kernel_size = k, l_stride = s, l_padding = p, weight_norm_hook = False\<rparr>)"

definition ConvTranspose1d_init :: "int \<Rightarrow> int \<Rightarrow> int \<Rightarrow> int \<Rightarrow> int \<Rightarrow> error + layer" where
  \<comment> \<open>\<^verbatim>\<open>ConvTranspose1d(in_channels, out_channels, kernel_size, stride, padding)\<close>: the
      weight has the shape (in_channels, out_channels, kernel_size)\<close>
  "ConvTranspose1d_init i_c o_c k s p =
     (if i_c < 0 \<or> o_c < 0 \<or> k < 0 then Inl RuntimeError
      else Inr \<lparr>layer_class = ConvTranspose1d, l_in_channels = i_c, l_out_channels = o_c,
                l_kernel_size = k, l_stride = s, l_padding = p, weight_norm_hook = False\<rparr>)"

definition wrap_int64 :: "int \<Rightarrow> int" where
  \<comment> \<open>the value that a signed 64-bit integer holds after an operation whose exact result
      is \<open>x\<close>\<close>
  "wrap_int64 x = (x + 2 ^ 63) mod 2 ^ 64 - 2 ^ 63"

definition np_prod :: "int list \<Rightarrow> int" where
  \<comment> \<open>\<^verbatim>\<open>np.prod\<close> of a list of Python integers in the range of \<^verbatim>\<open>int64\<close>: the product in
      64-bit integers, which wraps around\<close>
  "np_prod xs = wrap_int64 (prod_list xs)"

definition weight_norm :: "layer \<Rightarrow> layer" where
  \<comment> \<open>\<^verbatim>\<open>torch.nn.utils.weight_norm\<close>: registers the reparameterization on the layer\<close>
  "weight_norm m = m\<lparr>weight_norm_hook := True\<rparr>"

definition remove_weight_norm :: "layer \<Rightarrow> error + layer" where
  \<comment> \<open>\<^verbatim>\<open>torch.nn.utils.remove_weight_norm\<close>: removes the reparameterization, and raises
      ValueError when the layer has none\<close>
  "remove_weight_norm m =
     (if weight_norm_hook m then Inr (m\<lparr>weight_norm_hook := False\<rparr>) else Inl ValueError)"

datatype resblock_class = ResBlock1 | ResBlock2

record ResBlock =
  rb_class :: resblock_class
  rb_channels :: int
  rb_kernel_size :: int
  rb_dilation :: "int list"
  rb_weight_norm :: bool

definition ResBlock_init :: "resblock_class \<Rightarrow> hparams \<Rightarrow> int \<Rightarrow> int \<Rightarrow> int list \<Rightarrow> ResBlock" where
  \<comment> \<open>Modelled from the spec: \<^verbatim>\<open>ResBlock1\<close> and \<^verbatim>\<open>ResBlock2\<close> of
      \<^verbatim>\<open>modules.nsf_hifigan.models\<close> are not among the sources. A block is its constructor
      arguments \<^verbatim>\<open>(h, channels, kernel_size, dilation)\<close> and one flag for the weight
      normalization of its convolutions, which the glossary describes as a
      reparameterization of convolution weights that is removed before export.\<close>
  "ResBlock_init c hp ch k d =
     \<lparr>rb_class = c, rb_channels = ch, rb_kernel_size = k, rb_dilation = d,
      rb_weight_norm = True\<rparr>"

definition ResBlock_remove_weight_norm :: "ResBlock \<Rightarrow> ResBlock" where
  \<comment> \<open>Modelled from the spec: \<^verbatim>\<open>block.remove_weight_norm()\<close> of the absent residual block
      removes the reparameterization from the convolutions of the block.\<close>
  "ResBlock_remove_weight_norm b = b\<lparr>rb_weight_norm := False\<rparr>"

record Generator =
  gen_h :: hparams
  num_kernels :: nat
  num_upsamples :: nat
  f0_upsamp :: real
  m_source :: SourceModuleHnNSF
  noise_convs :: "layer list"
  conv_pre :: layer
  ups :: "layer list"
  resblocks :: "ResBlock list"
  conv_post :: layer
  training :: bool

definition LRELU_SLOPE :: real where
  "LRELU_SLOPE = 1 / 10"

fun upsampling_layers ::
  "hparams \<Rightarrow> nat \<Rightarrow> (int \<times> int) list \<Rightarrow> error + layer list \<times> layer list"
where
  \<comment> \<open>the loop of lines 178-188 from stage \<open>i\<close> on: the layers it appends to \<^verbatim>\<open>self.ups\<close> and to
      \<^verbatim>\<open>self.noise_convs\<close>; \<^verbatim>\<open>stride_f0\<close> is a NumPy \<^verbatim>\<open>int64\<close>\<close>
  "upsampling_layers hp i [] = Inr ([], [])"
| "upsampling_layers hp i ((u, k) # rest) =
     (let uic = upsample_initial_channel hp;
          c_cur = uic div 2 ^ (i + 1)
      in case ConvTranspose1d_init (uic div 2 ^ i) (uic div 2 ^ (i + 1)) k u ((k - u) div 2) of
           Inl e \<Rightarrow> Inl e
         | Inr up \<Rightarrow>
             (case (if i + 1 < length (upsample_rates hp)
                    then (let stride_f0 = np_prod (drop (i + 1) (upsample_rates hp))
                          in Conv1d_init 1 c_cur (wrap_int64 (stride_f0 * 2)) stride_f0
                               (stride_f0 div 2))
                    else Conv1d_init 1 c_cur 1 1 0) of
                Inl e \<Rightarrow> Inl e
              | Inr noise_conv \<Rightarrow>
                  (case upsampling_layers hp (i + 1) rest of
                     Inl e \<Rightarrow> Inl e
                   | Inr (ups', noise_convs') \<Rightarrow>
                       Inr (weight_norm up # ups', noise_conv # noise_convs'))))"

definition Generator_init ::
  "hparams \<Rightarrow> (nat list \<Rightarrow> real) \<Rightarrow> (nat list \<Rightarrow> real) \<Rightarrow> error + Generator"
where
  \<comment> \<open>\<^verbatim>\<open>Generator.__init__(h)\<close>; \<open>w0\<close> and \<open>b0\<close> initialise the linear layer of the source
      module. The layers are built in the order of the source: \<^verbatim>\<open>conv_pre\<close>, the upsampling
      stages, the residual blocks, \<^verbatim>\<open>conv_post\<close>, and the first constructor that raises
      ends the construction. With no upsampling stage \<^verbatim>\<open>ch\<close> is still \<^verbatim>\<open>None\<close> at line 196
      and \<^verbatim>\<open>Conv1d(None, 1, 7, 1, padding=3)\<close> raises TypeError.\<close>
  "Generator_init hp w0 b0 =
     (let uic = upsample_initial_channel hp in
      case Conv1d_init (num_mels hp) uic 7 1 3 of
        Inl e \<Rightarrow> Inl e
      | Inr conv_pre' \<Rightarrow>
          (case upsampling_layers hp 0 (zip (upsample_rates hp) (upsample_kernel_sizes hp)) of
             Inl e \<Rightarrow> Inl e
           | Inr (ups', noise_convs') \<Rightarrow>
               (let resblock' = (if resblock hp = ''1'' then ResBlock1 else ResBlock2);
                    resblocks' = concat (map (\<lambda>i.
                       map (\<lambda>(k, d). ResBlock_init resblock' hp (uic div 2 ^ (i + 1)) k d)
                         (zip (resblock_kernel_sizes hp) (resblock_dilation_sizes hp)))
                       [0..<length ups'])
                in if ups' = [] then Inl TypeError
                   else (case Conv1d_init (uic div 2 ^ length ups') 1 7 1 3 of
                           Inl e \<Rightarrow> Inl e
                         | Inr conv_post' \<Rightarrow>
                             Inr \<lparr>gen_h = hp,
                                  num_kernels = length (resblock_kernel_sizes hp),
                                  num_upsamples = length (upsample_rates hp),
                                  f0_upsamp = of_int (np_prod (upsample_rates hp)),
                                  m_source = SourceModuleHnNSF_init (hp_sampling_rate hp) 8
                                               (1 / 10) (3 / 1000) 0 w0 b0,
                                  noise_convs = noise_convs',
                                  conv_pre = weight_norm conv_pre',
                                  ups = ups',
                                  resblocks = resblocks',
                                  conv_post = weight_norm conv_post',
                                  training = True\<rparr>))))"

definition leaky_relu :: "real \<Rightarrow> tensor \<Rightarrow> tensor" where
  \<comment> \<open>\<^verbatim>\<open>functional.leaky_relu(x, negative_slope)\<close>\<close>
  "leaky_relu slope x = tmap (\<lambda>v. if 0 \<le> v then v else slope * v) x"

definition transpose12 :: "tensor \<Rightarrow> error + tensor" where
  \<comment> \<open>\<^verbatim>\<open>x.transpose(1, 2)\<close>, which is also \<^verbatim>\<open>x.transpose(2, 1)\<close>\<close>
  "transpose12 x =
     (case shape x of
        a # b # c # rest \<Rightarrow>
          Inr \<lparr>shape = a # c # b # rest, data = (\<lambda>i. data x (i[1 := i ! 2, 2 := i ! 1]))\<rparr>
      | _ \<Rightarrow> Inl IndexError)"

definition Upsample_forward :: "real \<Rightarrow> tensor \<Rightarrow> error + tensor" where
  \<comment> \<open>\<^verbatim>\<open>torch.nn.Upsample(scale_factor)\<close>, mode nearest, on an input (N, C, L); the
      generator calls it on three-dimensional inputs only\<close>
  "Upsample_forward scale_factor x =
     (case shape x of
        [N, C, L] \<Rightarrow>
          (let L_out = nat \<lfloor>real L * scale_factor\<rfloor> in
           if L = 0 \<or> L_out = 0 then Inl RuntimeError
           else Inr \<lparr>shape = [N, C, L_out],
                     data = (\<lambda>i. data x [i ! 0, i ! 1,
                                         min (nat \<lfloor>real (i ! 2) / scale_factor\<rfloor>) (L - 1)])\<rparr>)
      | _ \<Rightarrow> Inl NotImplementedError)"

definition iadd :: "tensor \<Rightarrow> tensor \<Rightarrow> error + tensor" where
  \<comment> \<open>\<^verbatim>\<open>x += y\<close>: \<open>y\<close> is broadcast to the shape of \<open>x\<close>, which cannot change\<close>
  "iadd x y =
     (case tbinop (+) x y of
        Inl e \<Rightarrow> Inl e
      | Inr z \<Rightarrow> if shape z = shape x then Inr z else Inl RuntimeError)"

fun resblocks_sum ::
  "(ResBlock \<Rightarrow> tensor \<Rightarrow> error + tensor) \<Rightarrow> Generator \<Rightarrow> nat \<Rightarrow> tensor \<Rightarrow> nat list
   \<Rightarrow> tensor option \<Rightarrow> error + tensor option"
where
  \<comment> \<open>lines 213-218: the loop over \<open>j\<close>; \<open>xs\<close> is \<^verbatim>\<open>None\<close> before the first block\<close>
  "resblocks_sum run_block self i x [] xs = Inr xs"
| "resblocks_sum run_block self i x (j # js) xs =
     (let k = i * num_kernels self + j in
      if length (resblocks self) \<le> k then Inl IndexError
      else (case run_block (resblocks self ! k) x of
              Inl e \<Rightarrow> Inl e
            | Inr y \<Rightarrow>
                (case xs of
                   None \<Rightarrow> resblocks_sum run_block self i x js (Some y)
                 | Some acc \<Rightarrow>
                     (case iadd acc y of
                        Inl e \<Rightarrow> Inl e
                      | Inr acc' \<Rightarrow> resblocks_sum run_block self i x js (Some acc')))))"

fun upsample_stages ::
  "(layer \<Rightarrow> tensor \<Rightarrow> error + tensor) \<Rightarrow> (ResBlock \<Rightarrow> tensor \<Rightarrow> error + tensor) \<Rightarrow> Generator
   \<Rightarrow> tensor \<Rightarrow> nat list \<Rightarrow> tensor \<Rightarrow> error + tensor"
where
  \<comment> \<open>lines 206-219: the loop over \<open>i\<close>; \<^verbatim>\<open>xs / self.num_kernels\<close> with \<^verbatim>\<open>xs\<close> still
      \<^verbatim>\<open>None\<close> raises TypeError\<close>
  "upsample_stages run run_block self har_source [] x = Inr x"
| "upsample_stages run run_block self har_source (i # rest) x =
     (if length (ups self) \<le> i then Inl IndexError
      else (case run (ups self ! i) (leaky_relu LRELU_SLOPE x) of
              Inl e \<Rightarrow> Inl e
            | Inr x1 \<Rightarrow>
                if length (noise_convs self) \<le> i then Inl IndexError
                else (case run (noise_convs self ! i) har_source of
                        Inl e \<Rightarrow> Inl e
                      | Inr x_source \<Rightarrow>
                          (case tbinop (+) x1 x_source of
                             Inl e \<Rightarrow> Inl e
                           | Inr x2 \<Rightarrow>
                               (case resblocks_sum run_block self i x2
                                       [0..<num_kernels self] None of
                                  Inl e \<Rightarrow> Inl e
                                | Inr None \<Rightarrow> Inl TypeError
                                | Inr (Some xs) \<Rightarrow>
                                    upsample_stages run run_block self har_source rest
                                      (tmap (\<lambda>v. v / real (num_kernels self)) xs))))))"

definition Generator_forward ::
  "(layer \<Rightarrow> tensor \<Rightarrow> error + tensor) \<Rightarrow> (ResBlock \<Rightarrow> tensor \<Rightarrow> error + tensor) \<Rightarrow> Generator
   \<Rightarrow> draws \<Rightarrow> tensor \<Rightarrow> tensor \<Rightarrow> error + tensor"
where
  \<comment> \<open>\<^verbatim>\<open>Generator.forward(x, f0)\<close>. \<open>run\<close> and \<open>run_block\<close> are what the convolution layers
      and the residual blocks compute. An \<^verbatim>\<open>f0\<close> that is not two-dimensional fails: in
      \<^verbatim>\<open>unsqueeze\<close> (no dimension), in \<^verbatim>\<open>Upsample\<close> (one, or five and more) or in
      \<^verbatim>\<open>_f02sine\<close> (three or four). The returned tensor holds the floats nearest to the
      hyperbolic tangents (line 222).\<close>
  "Generator_forward run run_block self rng x f0 =
     (case shape f0 of
        [B, T] \<Rightarrow>
          (case Upsample_forward (f0_upsamp self) (unsqueeze1 f0) of
             Inl e \<Rightarrow> Inl e
           | Inr f0_up \<Rightarrow>
               (case transpose12 f0_up of
                  Inl e \<Rightarrow> Inl e
                | Inr f0' \<Rightarrow>
                    (case SourceModuleHnNSF_forward (m_source self) rng f0' of
                       Inl e \<Rightarrow> Inl e
                     | Inr (har_source, noi_source, uv) \<Rightarrow>
                         (case transpose12 har_source of
                            Inl e \<Rightarrow> Inl e
                          | Inr har_source' \<Rightarrow>
                              (case run (conv_pre self) x of
                                 Inl e \<Rightarrow> Inl e
                               | Inr x1 \<Rightarrow>
                                   (case upsample_stages run run_block self har_source'
                                           [0..<num_upsamples self] x1 of
                                      Inl e \<Rightarrow> Inl e
                                    | Inr x2 \<Rightarrow>
                                        (case run (conv_post self) (leaky_relu (1 / 100) x2) of
                                           Inl e \<Rightarrow> Inl e
                                         | Inr x3 \<Rightarrow>
                                             Inr (squeeze1
                                               (tmap (\<lambda>v. float32 (tanh v)) x3)))))))))
      | s \<Rightarrow>
          Inl (if s = [] then IndexError
               else if length s = 1 \<or> 5 \<le> length s then NotImplementedError
               else RuntimeError))"

fun remove_weight_norm_all :: "layer list \<Rightarrow> error + layer list" where
  \<comment> \<open>lines 229-230: \<^verbatim>\<open>for up in self.ups: remove_weight_norm(up)\<close>\<close>
  "remove_weight_norm_all [] = Inr []"
| "remove_weight_norm_all (up # rest) =
     (case remove_weight_norm up of
        Inl e \<Rightarrow> Inl e
      | Inr up' \<Rightarrow>
          (case remove_weight_norm_all rest of
             Inl e \<Rightarrow> Inl e
           | Inr rest' \<Rightarrow> Inr (up' # rest')))"

definition Generator_remove_weight_norm :: "Generator \<Rightarrow> error + Generator" where
  \<comment> \<open>\<^verbatim>\<open>Generator.remove_weight_norm\<close>, in the order of the source: the upsampling layers,
      the residual blocks, \<^verbatim>\<open>conv_pre\<close>, \<^verbatim>\<open>conv_post\<close>\<close>
  "Generator_remove_weight_norm self =
     (case remove_weight_norm_all (ups self) of
        Inl e \<Rightarrow> Inl e
      | Inr ups' \<Rightarrow>
          (let resblocks' = map ResBlock_remove_weight_norm (resblocks self)
           in case remove_weight_norm (conv_pre self) of
                Inl e \<Rightarrow> Inl e
              | Inr conv_pre' \<Rightarrow>
                  (case remove_weight_norm (conv_post self) of
                     Inl e \<Rightarrow> Inl e
                   | Inr conv_post' \<Rightarrow>
                       Inr (self\<lparr>ups := ups', resblocks := resblocks',
                                 conv_pre := conv_pre', conv_post := conv_post'\<rparr>))))"

section \<open>The exported wrapper and the loading of the checkpoint\<close>

record NsfHiFiGAN =
  device :: string
  generator :: Generator
  nsf_hparams :: hparams

definition NsfHiFiGAN_forward ::
  "(layer \<Rightarrow> tensor \<Rightarrow> error + tensor) \<Rightarrow> (ResBlock \<Rightarrow> tensor \<Rightarrow> error + tensor) \<Rightarrow> NsfHiFiGAN
   \<Rightarrow> draws \<Rightarrow> tensor \<Rightarrow> tensor \<Rightarrow> error + tensor"
where
  \<comment> \<open>\<^verbatim>\<open>NsfHiFiGAN.forward(mel, f0)\<close>\<close>
  "NsfHiFiGAN_forward run run_block self rng mel f0 =
     (case transpose12 mel of
        Inl e \<Rightarrow> Inl e
      | Inr mel_t \<Rightarrow>
          (let mel' = tmap (\<lambda>v. v * (230259 / 100000)) mel_t
           in Generator_forward run run_block (generator self) rng mel' f0))"

record state_dict =
  sd_l_linear_weight :: "tensor option"
  sd_l_linear_bias :: "tensor option"

definition load_state_dict :: "Generator \<Rightarrow> state_dict \<Rightarrow> error + Generator" where
  \<comment> \<open>\<^verbatim>\<open>generator.load_state_dict(sd, strict=False)\<close>: copies the tensors of the entries
      that are present, raises RuntimeError on a tensor of another shape, and changes
      neither the layers nor their hooks. Of the parameters only those of the linear
      layer are part of this model.\<close>
  "load_state_dict self sd =
     (let lin = l_linear (m_source self);
          bad_w = (case sd_l_linear_weight sd of
                     None \<Rightarrow> False | Some w \<Rightarrow> shape w \<noteq> shape (lin_weight lin));
          bad_b = (case sd_l_linear_bias sd of
                     None \<Rightarrow> False | Some b \<Rightarrow> shape b \<noteq> shape (lin_bias lin))
      in if bad_w \<or> bad_b then Inl RuntimeError
         else Inr (self\<lparr>m_source := (m_source self)\<lparr>l_linear :=
                     lin\<lparr>lin_weight := (case sd_l_linear_weight sd of
                                           None \<Rightarrow> lin_weight lin | Some w \<Rightarrow> w),
                         lin_bias := (case sd_l_linear_bias sd of
                                         None \<Rightarrow> lin_bias lin | Some b \<Rightarrow> b)\<rparr>\<rparr>\<rparr>))"

definition eval_mode :: "Generator \<Rightarrow> Generator" where
  \<comment> \<open>\<^verbatim>\<open>generator.eval()\<close>\<close>
  "eval_mode self = self\<lparr>training := False\<rparr>"

definition path_split :: "string \<Rightarrow> string \<times> string" where
  \<comment> \<open>\<^verbatim>\<open>os.path.split\<close> (POSIX)\<close>
  "path_split p =
     (let i = length p - length (takeWhile (\<lambda>c. c \<noteq> CHR ''/'') (rev p));
          head = take i p;
          tail = drop i p
      in (if head \<noteq> [] \<and> head \<noteq> replicate (length head) (CHR ''/'')
          then rev (dropWhile (\<lambda>c. c = CHR ''/'') (rev head)) else head,
          tail))"

definition path_join :: "string \<Rightarrow> string \<Rightarrow> string" where
  \<comment> \<open>\<^verbatim>\<open>os.path.join\<close> (POSIX) of two components\<close>
  "path_join a b =
     (if b \<noteq> [] \<and> hd b = CHR ''/'' then b
      else if a = [] \<or> last a = CHR ''/'' then a @ b
      else a @ ''/'' @ b)"

section \<open>ONNX models, the file system and the external tools\<close>

datatype onnx_dim = Dim_value int | Dim_param string | Dim_unset

definition dim_value :: "onnx_dim \<Rightarrow> int" where
  \<comment> \<open>the protobuf accessor: 0 unless the dimension holds a value\<close>
  "dim_value d = (case d of Dim_value v \<Rightarrow> v | _ \<Rightarrow> 0)"

record value_info =
  vi_name :: string
  vi_elem_type :: nat
  vi_shape :: "onnx_dim list"

definition FLOAT :: nat where
  \<comment> \<open>\<^verbatim>\<open>onnx.TensorProto.FLOAT\<close>\<close>
  "FLOAT = 1"

record onnx_model =
  graph_input :: "value_info list"
  graph_output :: "value_info list"
  graph_node :: "string list"
  opset :: nat

record export_call =
  ex_model :: NsfHiFiGAN
  ex_args :: "tensor \<times> tensor"
  ex_f :: string
  ex_input_names :: "string list"
  ex_output_names :: "string list"
  ex_dynamic_axes :: "(string \<times> (nat \<times> string) list) list"
  ex_opset_version :: nat

datatype call =
    Torch_onnx_export export_call
  | Onnx_load string
  | Onnxsim_simplify onnx_model bool
  | Onnx_save onnx_model string

text \<open>
  The world of the script: the command line, the ONNX files by path, and the calls made
  so far to the exporter and to the ONNX tools, oldest first. Console output is not part
  of it. What is outside the script is a parameter \<open>env\<close>: the configuration and the
  checkpoint on disk, \<^verbatim>\<open>set_hparams\<close> of \<^verbatim>\<open>utils.hparams\<close>, the initial values and
  random draws, the exporter \<^verbatim>\<open>torch.onnx.export\<close>, \<^verbatim>\<open>onnxsim.simplify\<close>, and whether
  \<^verbatim>\<open>onnx.save\<close> can write to a path. The files that hold no ONNX graph are left out of
  the map: loading one raises, as loading a missing file does.
\<close>

record world =
  argv :: "string list"
  files :: "string \<rightharpoonup> onnx_model"
  calls :: "call list"

record env =
  cuda_is_available :: bool
  set_hparams :: "string list \<Rightarrow> error + (string \<rightharpoonup> string)"
  read_config :: "string \<Rightarrow> error + hparams"
  torch_load :: "string \<Rightarrow> error + (string \<rightharpoonup> state_dict)"
  init_weight :: "nat list \<Rightarrow> real"
  init_bias :: "nat list \<Rightarrow> real"
  rand_mel :: "nat list \<Rightarrow> real"
  rand_f0 :: "nat list \<Rightarrow> real"
  torch_onnx_export :: "export_call \<Rightarrow> error + onnx_model"
  onnxsim_simplify :: "onnx_model \<Rightarrow> bool \<Rightarrow> error + onnx_model \<times> bool"
  onnx_save :: "onnx_model \<Rightarrow> string \<Rightarrow> error + unit"

definition load_model :: "env \<Rightarrow> string \<Rightarrow> string \<Rightarrow> error + Generator \<times> hparams" where
  \<comment> \<open>\<^verbatim>\<open>load_model(model_path, device)\<close>: \<open>read_config\<close> stands for opening, reading and
      parsing \<^verbatim>\<open>config.json\<close>; a checkpoint without the key \<^verbatim>\<open>'generator'\<close> raises
      KeyError\<close>
  "load_model e model_path dev =
     (let config_file = path_join (fst (path_split model_path)) ''config.json'' in
      case read_config e config_file of
        Inl x \<Rightarrow> Inl x
      | Inr hp \<Rightarrow>
          (case Generator_init hp (init_weight e) (init_bias e) of
             Inl x \<Rightarrow> Inl x
           | Inr generator0 \<Rightarrow>
               (case torch_load e model_path of
                  Inl x \<Rightarrow> Inl x
                | Inr cp_dict \<Rightarrow>
                    (case cp_dict ''generator'' of
                       None \<Rightarrow> Inl KeyError
                     | Some sd \<Rightarrow>
                         (case load_state_dict generator0 sd of
                            Inl x \<Rightarrow> Inl x
                          | Inr generator1 \<Rightarrow>
                              (case Generator_remove_weight_norm (eval_mode generator1) of
                                 Inl x \<Rightarrow> Inl x
                               | Inr generator2 \<Rightarrow> Inr (generator2, hp)))))))"

definition NsfHiFiGAN_init ::
  "env \<Rightarrow> (string \<rightharpoonup> string) \<Rightarrow> string option \<Rightarrow> error + NsfHiFiGAN"
where
  \<comment> \<open>\<^verbatim>\<open>NsfHiFiGAN.__init__(device)\<close>; \<open>hps\<close> is the global \<^verbatim>\<open>hparams\<close> of
      \<^verbatim>\<open>utils.hparams\<close>\<close>
  "NsfHiFiGAN_init e hps dev =
     (let device' = (case dev of
                       None \<Rightarrow> if cuda_is_available e then ''cuda'' else ''cpu''
                     | Some d \<Rightarrow> d)
      in case hps ''vocoder_ckpt'' of
           None \<Rightarrow> Inl KeyError
         | Some ckpt \<Rightarrow>
             (case load_model e ckpt device' of
                Inl x \<Rightarrow> Inl x
              | Inr (g, hp) \<Rightarrow> Inr \<lparr>device = device', generator = g, nsf_hparams = hp\<rparr>))"

definition make_tensor_value_info :: "string \<Rightarrow> nat \<Rightarrow> onnx_dim list \<Rightarrow> value_info" where
  \<comment> \<open>\<^verbatim>\<open>onnx.helper.make_value_info(name, onnx.helper.make_tensor_type_proto(elem_type,
      shape))\<close>: an integer of the shape is a dimension value, a string a dimension
      parameter\<close>
  "make_tensor_value_info n t s = \<lparr>vi_name = n, vi_elem_type = t, vi_shape = s\<rparr>"

definition fix_output :: "onnx_model \<Rightarrow> error + onnx_model" where
  \<comment> \<open>lines 272-282 of \<^verbatim>\<open>simplify\<close>: the first output is replaced by a value info of the
      same name, of element type FLOAT and of shape (first input's first dimension value,
      \<^verbatim>\<open>'n_samples'\<close>). Indexing an empty list raises IndexError.\<close>
  "fix_output model =
     (case graph_input model of
        [] \<Rightarrow> Inl IndexError
      | input0 # _ \<Rightarrow>
          (let in_dims = vi_shape input0;
               outputs = graph_output model
           in case outputs of
                [] \<Rightarrow> Inl IndexError
              | output0 # _ \<Rightarrow>
                  (case in_dims of
                     [] \<Rightarrow> Inl IndexError
                   | d0 # _ \<Rightarrow>
                       (let new_output = make_tensor_value_info (vi_name output0) FLOAT
                                           [Dim_value (dim_value d0), Dim_param ''n_samples'']
                        in Inr (model\<lparr>graph_output :=
                                  new_output # remove1 output0 outputs\<rparr>)))))"

definition simplify :: "env \<Rightarrow> string \<Rightarrow> string \<Rightarrow> world \<Rightarrow> world \<times> (error + unit)" where
  \<comment> \<open>\<^verbatim>\<open>simplify(src, target)\<close>; \<^verbatim>\<open>onnx.save\<close> writes the file unless it raises\<close>
  "simplify e src target w =
     (let w1 = w\<lparr>calls := calls w @ [Onnx_load src]\<rparr> in
      case files w src of
        None \<Rightarrow> (w1, Inl FileNotFoundError)
      | Some model \<Rightarrow>
          (case fix_output model of
             Inl x \<Rightarrow> (w1, Inl x)
           | Inr model1 \<Rightarrow>
               (let w2 = w1\<lparr>calls := calls w1 @ [Onnxsim_simplify model1 True]\<rparr> in
                case onnxsim_simplify e model1 True of
                  Inl x \<Rightarrow> (w2, Inl x)
                | Inr (model2, check) \<Rightarrow>
                    if \<not> check
                    then (w2, Inl (AssertionError ''Simplified ONNX model could not be validated''))
                    else (let w3 = w2\<lparr>calls := calls w2 @ [Onnx_save model2 target]\<rparr> in
                          case onnx_save e model2 target of
                            Inl x \<Rightarrow> (w3, Inl x)
                          | Inr _ \<Rightarrow> (w3\<lparr>files := (files w3)(target \<mapsto> model2)\<rparr>, Inr ())))))"

definition export_args :: "NsfHiFiGAN \<Rightarrow> tensor \<Rightarrow> tensor \<Rightarrow> string \<Rightarrow> export_call" where
  \<comment> \<open>the arguments of \<^verbatim>\<open>torch.onnx.export\<close> at lines 300-323\<close>
  "export_args vocoder mel f0 path =
     \<lparr>ex_model = vocoder,
      ex_args = (mel, f0),
      ex_f = path,
      ex_input_names = [''mel'', ''f0''],
      ex_output_names = [''waveform''],
      ex_dynamic_axes = [(''mel'', [(1, ''n_frames'')]), (''f0'', [(1, ''n_frames'')])],
      ex_opset_version = 11\<rparr>"

definition export :: "env \<Rightarrow> string \<Rightarrow> world \<Rightarrow> world \<times> (error + unit)" where
  \<comment> \<open>\<^verbatim>\<open>export(path)\<close>: the exporter writes the traced graph to \<open>path\<close>\<close>
  "export e path w =
     (case set_hparams e (argv w) of
        Inl x \<Rightarrow> (w, Inl x)
      | Inr hps \<Rightarrow>
          (let device' = (if cuda_is_available e then ''cuda'' else ''cpu'') in
           case NsfHiFiGAN_init e hps (Some device') of
             Inl x \<Rightarrow> (w, Inl x)
           | Inr vocoder \<Rightarrow>
               (let n_frames = 10;
                    mel = \<lparr>shape = [1, n_frames, 128], data = rand_mel e\<rparr>;
                    f0 = \<lparr>shape = [1, n_frames], data = rand_f0 e\<rparr>;
                    c = export_args vocoder mel f0 path;
                    w1 = w\<lparr>calls := calls w @ [Torch_onnx_export c]\<rparr>
                in case torch_onnx_export e c of
                     Inl x \<Rightarrow> (w1, Inl x)
                   | Inr m \<Rightarrow> (w1\<lparr>files := (files w1)(path \<mapsto> m)\<rparr>, Inr ()))))"

definition main :: "env \<Rightarrow> world \<Rightarrow> world \<times> (error + unit)" where
  \<comment> \<open>the script entry point, lines 326-333\<close>
  "main e w =
     (let w0 = w\<lparr>argv := [''inference/svs/ds_e2e.py'', ''--config'',
                           ''configs/midi/cascade/opencs/test.yaml'']\<rparr>
      in case export e ''onnx/assets/nsf_hifigan.onnx'' w0 of
           (w1, Inl x) \<Rightarrow> (w1, Inl x)
         | (w1, Inr _) \<Rightarrow>
             simplify e ''onnx/assets/nsf_hifigan.onnx'' ''onnx/assets/nsf_hifigan.onnx'' w1)"

definition torch_diff1 :: "tensor \<Rightarrow> tensor" where
  \<comment> \<open>\<^verbatim>\<open>torch.diff(x, dim=1)\<close> as the comment of line 80 names it: the first differences
      along dimension 1, one entry fewer\<close>
  "torch_diff1 x = \<lparr>shape = (shape x)[1 := shape x ! 1 - 1],
                    data = (\<lambda>i. data x (i[1 := Suc (i ! 1)]) - data x i)\<rparr>"


section \<open>Facts about the tensor operations\<close>

lemma shape_tmap [simp]: "shape (tmap f x) = shape x"
  by (simp add: tmap_def)

lemma data_tmap [simp]: "data (tmap f x) i = f (data x i)"
  by (simp add: tmap_def)

lemma shape_cumsum1 [simp]: "shape (cumsum1 x) = shape x"
  by (simp add: cumsum1_def)


lemma data_cumsum1_3: "data (cumsum1 x) [b, t, d] = (\<Sum>k\<le>t. data x [b, k, d])"
proof -
  have "data (cumsum1 x) [b, t, d] = (\<Sum>k\<leftarrow>[0..<Suc t]. data x [b, k, d])"
    by (simp add: cumsum1_def)
  also have "\<dots> = (\<Sum>k\<in>set [0..<Suc t]. data x [b, k, d])"
    by (rule sum_list_distinct_conv_sum_set) simp
  also have "set [0..<Suc t] = {..t}" by auto
  finally show ?thesis .
qed

lemma rad_values_of_shape3:
  assumes "shape f0 = [B, L, D]" "0 < L" "0 < dim s" "dim s = D \<or> dim s = 1"
  shows "\<exists>rad. rad_values_of s u f0 = Inr rad \<and> shape rad = [B, L, D] \<and>
     (\<forall>b t d. data rad [b, t, d] = fmod (data f0 [b, t, d] / sampling_rate s) 1 + (if t = 0 then (if dim s = 1 \<or> d = 0 then 0 else u d) else 0))"
  using assms
  by (auto simp add: rad_values_of_def rand_ini_of_def iadd_select0_def tmap_def Let_def)

lemma rad_values_of_Inr_iff:
  "(\<exists>rad. rad_values_of s u f0 = Inr rad) \<longleftrightarrow> (\<exists>B L D. shape f0 = [B, L, D] \<and> 0 < L \<and> 0 < dim s \<and> (dim s = D \<or> dim s = 1))"
  by (auto simp add: rad_values_of_def rand_ini_of_def iadd_select0_def tmap_def Let_def split: list.splits if_splits)


lemma diff_SineGen_init:
  "diff (SineGen_init sr h a n v) = \<lparr>in_channels = 1, out_channels = 1, kernel_size = (2, 1), stride = (1, 1),
              padding = (0, 0), dilation = (1, 1), bias = None, weight = diff_weight\<rparr>"
  by (simp add: SineGen_init_def)

lemma SineGen_init_sel [simp]:
  "dim (SineGen_init sr h a n v) = Suc h"
  "sampling_rate (SineGen_init sr h a n v) = sr"
  "sine_amp (SineGen_init sr h a n v) = a"
  "noise_std (SineGen_init sr h a n v) = n"
  "harmonic_num (SineGen_init sr h a n v) = h"
  "voiced_threshold (SineGen_init sr h a n v) = v"
  by (simp_all add: SineGen_init_def)

lemma upt2: "[0..<2] = [0, Suc 0]"
  by (simp add: upt_rec)

lemma diff_conv:
  assumes "shape x = [B, L, D]" "2 \<le> L" "1 \<le> D"
  shows "\<exists>c. Conv2d_forward (diff (SineGen_init sr h a n v)) (unsqueeze1 x) = Inr c
      \<and> shape (squeeze1 c) = [B, L - 1, D]
      \<and> (\<forall>b t d. t < L - 1 \<longrightarrow> d < D \<longrightarrow> data (squeeze1 c) [b, t, d] = data x [b, Suc t, d] - data x [b, t, d])"
  using assms
  by (auto simp add: diff_SineGen_init Conv2d_forward_def unsqueeze1_def squeeze1_def diff_weight_def padded_def upt2)

lemma diff_conv_Inr_iff:
  assumes "shape x = [B, L, D]" 
  shows "(\<exists>c. Conv2d_forward (diff (SineGen_init sr h a n v)) (unsqueeze1 x) = Inr c) \<longleftrightarrow> 2 \<le> L \<and> 1 \<le> D"
  using assms
  by (auto simp add: diff_SineGen_init Conv2d_forward_def unsqueeze1_def squeeze1_def diff_weight_def padded_def upt2)


lemma cumsum_shift_of_shape3:
  assumes "shape rad = [1, L, D]" "2 \<le> L" "D = Suc h"
  shows "\<exists>cs. cumsum_shift_of (SineGen_init sr h a n v) rad = Inr cs \<and> shape cs = [1, L, D] \<and>
     (\<forall>b d. d < D \<longrightarrow> data cs [b, 0, d] = 0) \<and>
     (\<forall>b t d. Suc t < L \<longrightarrow> d < D \<longrightarrow> data cs [b, Suc t, d] =
         (if fmod (\<Sum>k\<le>Suc t. data rad [b, k, d]) 1 < fmod (\<Sum>k\<le>t. data rad [b, k, d]) 1 then 1 else 0))"
proof -
  let ?s = "SineGen_init sr h a n v"
  let ?tmp = "tmap (\<lambda>v. fmod v 1) (cumsum1 rad)"
  have sh: "shape ?tmp = [1, L, D]" using assms by simp
  have "1 \<le> D" using assms by simp
  from diff_conv[OF sh assms(2) this, of sr h a n v]
  obtain c where c: "Conv2d_forward (diff ?s) (unsqueeze1 ?tmp) = Inr c"
    "shape (squeeze1 c) = [1, L - 1, D]"
    "\<And>b t d. t < L - 1 \<Longrightarrow> d < D \<Longrightarrow> data (squeeze1 c) [b, t, d] = data ?tmp [b, Suc t, d] - data ?tmp [b, t, d]"
    by blast
  show ?thesis
    using assms c(2,3)
    by (simp add: cumsum_shift_of_def c(1) Let_def cat1_def zeros_def data_cumsum1_3 del: sum.atMost_Suc)
qed

lemma cumsum_shift_of_Inr_iff:
  assumes "shape rad = [B, L, D]"
  shows "(\<exists>cs. cumsum_shift_of (SineGen_init sr h a n v) rad = Inr cs) \<longleftrightarrow> B = 1 \<and> 2 \<le> L \<and> D = Suc h"
proof (cases "2 \<le> L \<and> 1 \<le> D")
  case True
  let ?s = "SineGen_init sr h a n v"
  let ?tmp = "tmap (\<lambda>v. fmod v 1) (cumsum1 rad)"
  have sh: "shape ?tmp = [B, L, D]" using assms by simp
  from True diff_conv[OF sh, of sr h a n v]
  obtain c where c: "Conv2d_forward (diff ?s) (unsqueeze1 ?tmp) = Inr c"
    "shape (squeeze1 c) = [B, L - 1, D]"
    by blast
  show ?thesis
    using True c(2)
    by (auto simp add: cumsum_shift_of_def c(1) Let_def cat1_def zeros_def)
next
  case False
  let ?tmp = "tmap (\<lambda>v. fmod v 1) (cumsum1 rad)"
  have sh: "shape ?tmp = [B, L, D]" using assms by simp
  from False diff_conv_Inr_iff[OF sh, of sr h a n v]
  have "\<not> (\<exists>c. Conv2d_forward (diff (SineGen_init sr h a n v)) (unsqueeze1 ?tmp) = Inr c)" by simp
  then obtain e where "Conv2d_forward (diff (SineGen_init sr h a n v)) (unsqueeze1 ?tmp) = Inl e"
    by (cases "Conv2d_forward (diff (SineGen_init sr h a n v)) (unsqueeze1 ?tmp)") auto
  then show ?thesis using False by (auto simp add: cumsum_shift_of_def Let_def)
qed


lemma broadcast_same3 [simp]: "broadcast_shapes [B, L, D] [B, L, D] = Some [B, L, D]"
  by (simp add: broadcast_shapes_def)

lemma bidx3: "t < L \<Longrightarrow> d < D \<Longrightarrow> bidx [Suc 0, L, D] [0, t, d] = [0, t, d]"
  by (auto simp add: bidx_def)

lemma tbinop_same3:
  assumes "shape x = [1, L, D]" "shape y = [1, L, D]"
  shows "\<exists>z. tbinop f x y = Inr z \<and> shape z = [1, L, D] \<and>
     (\<forall>t d. t < L \<longrightarrow> d < D \<longrightarrow> data z [0, t, d] = f (data x [0, t, d]) (data y [0, t, d]))"
  using assms by (simp add: tbinop_def bidx3)

section \<open>The phase of one channel\<close>

lemma fmod_1_nonneg: "0 \<le> x \<Longrightarrow> fmod x 1 = frac x"
  by (simp add: fmod_def frac_def)

lemma sin_shift_int: "sin ((x - of_int n) * (2 * pi)) = sin (x * (2 * pi))"
proof -
  have "(x - of_int n) * (2 * pi) = x * (2 * pi) - (2 * pi) * of_int n" by (simp add: algebra_simps)
  then show ?thesis by (simp add: sin_diff sin_int_2pin cos_int_2pin del: of_int_mult)
qed

lemma sum_shift_int:
  fixes r c :: "nat \<Rightarrow> real"
  assumes "\<And>k. k \<le> t \<Longrightarrow> c k = 0 \<or> c k = 1"
  shows "\<exists>n::int. (\<Sum>k\<le>t. r k - c k) = (\<Sum>k\<le>t. r k) - of_int n"
proof -
  have "\<forall>k\<in>{..t}. \<exists>m::int. c k = of_int m"
  proof
    fix k assume "k \<in> {..t}"
    then have "c k = 0 \<or> c k = 1" using assms by simp
    then show "\<exists>m::int. c k = of_int m"
      by (metis of_int_0 of_int_1)
  qed
  then obtain m :: "nat \<Rightarrow> int" where m: "\<And>k. k \<le> t \<Longrightarrow> c k = of_int (m k)"
    by (metis atMost_iff)
  have "(\<Sum>k\<le>t. c k) = (\<Sum>k\<le>t. of_int (m k))"
    by (rule sum.cong) (use m in auto)
  then have "(\<Sum>k\<le>t. r k - c k) = (\<Sum>k\<le>t. r k) - of_int (\<Sum>k\<le>t. m k)"
    by (simp add: sum_subtractf del: sum.atMost_Suc)
  then show ?thesis ..
qed

lemma floor_step:
  fixes x y :: real
  assumes "0 \<le> y" "y < 1"
  shows "(if frac (x + y) < frac x then 1 else 0) = of_int \<lfloor>x + y\<rfloor> - (of_int \<lfloor>x\<rfloor> :: real)"
proof -
  have fy: "frac y = y" "\<lfloor>y\<rfloor> = 0" using assms by (simp_all add: frac_eq floor_eq_iff)
  show ?thesis
  proof (cases "frac x + y < 1")
    case True
    then have "\<lfloor>x + y\<rfloor> = \<lfloor>x\<rfloor>" using floor_add[of x y] fy by simp
    moreover from this have "frac (x + y) = frac x + y" by (simp add: frac_def)
    ultimately show ?thesis using assms by simp
  next
    case False
    then have fl: "\<lfloor>x + y\<rfloor> = \<lfloor>x\<rfloor> + 1" using floor_add[of x y] fy by simp
    then have "frac (x + y) = frac x + y - 1" by (simp add: frac_def)
    with fl show ?thesis using assms by simp
  qed
qed

lemma phase_closed_form:
  fixes r c :: "nat \<Rightarrow> real"
  assumes r0: "0 \<le> r 0"
    and rt: "\<And>k. 0 < k \<Longrightarrow> k < L \<Longrightarrow> 0 \<le> r k \<and> r k < 1"
    and c0: "c 0 = 0"
    and cS: "\<And>t. Suc t < L \<Longrightarrow>
        c (Suc t) = (if fmod (\<Sum>k\<le>Suc t. r k) 1 < fmod (\<Sum>k\<le>t. r k) 1 then 1 else 0)"
  shows "t < L \<Longrightarrow> (\<Sum>k\<le>t. r k - c k) = frac (\<Sum>k\<le>t. r k) + of_int \<lfloor>r 0\<rfloor>"
proof (induction t)
  case 0
  then show ?case by (simp add: c0 frac_def)
next
  case (Suc t)
  have nonneg: "0 \<le> (\<Sum>k\<le>j. r k)" if "j < L" for j
  proof (rule sum_nonneg)
    fix k assume "k \<in> {..j}"
    with that rt[of k] r0 show "0 \<le> r k" by (cases "k = 0") auto
  qed
  let ?S = "\<Sum>k\<le>t. r k"
  have st: "0 \<le> r (Suc t)" "r (Suc t) < 1" using rt[of "Suc t"] Suc.prems by auto
  have "c (Suc t) = (if frac (?S + r (Suc t)) < frac ?S then 1 else 0)"
    using cS[OF Suc.prems] nonneg[of t] nonneg[of "Suc t"] Suc.prems
    by (simp add: fmod_1_nonneg)
  also have "\<dots> = of_int \<lfloor>?S + r (Suc t)\<rfloor> - of_int \<lfloor>?S\<rfloor>"
    by (rule floor_step[OF st])
  finally have c: "c (Suc t) = of_int \<lfloor>?S + r (Suc t)\<rfloor> - of_int \<lfloor>?S\<rfloor>" .
  have "(\<Sum>k\<le>Suc t. r k - c k) = (\<Sum>k\<le>t. r k - c k) + (r (Suc t) - c (Suc t))" by simp
  also have "\<dots> = frac ?S + of_int \<lfloor>r 0\<rfloor> + (r (Suc t) - c (Suc t))"
    using Suc by simp
  also have "\<dots> = frac (?S + r (Suc t)) + of_int \<lfloor>r 0\<rfloor>"
    by (simp add: c frac_def)
  finally show ?case by simp
qed

lemma phase_bounded:
  fixes r c :: "nat \<Rightarrow> real"
  assumes r0: "0 \<le> r 0" "r 0 < 2"
    and rt: "\<And>k. 0 < k \<Longrightarrow> k < L \<Longrightarrow> 0 \<le> r k \<and> r k < 1"
    and c0: "c 0 = 0"
    and cS: "\<And>t. Suc t < L \<Longrightarrow>
        c (Suc t) = (if fmod (\<Sum>k\<le>Suc t. r k) 1 < fmod (\<Sum>k\<le>t. r k) 1 then 1 else 0)"
    and t: "t < L"
  shows "0 \<le> (\<Sum>k\<le>t. r k - c k) \<and> (\<Sum>k\<le>t. r k - c k) < 2"
proof -
  have eq: "(\<Sum>k\<le>t. r k - c k) = frac (\<Sum>k\<le>t. r k) + of_int \<lfloor>r 0\<rfloor>"
    using phase_closed_form[of r L c t] r0(1) rt c0 cS t by blast
  have "0 \<le> \<lfloor>r 0\<rfloor>" "\<lfloor>r 0\<rfloor> \<le> 1" using r0 by (simp_all add: floor_le_iff)
  then have "0 \<le> (of_int \<lfloor>r 0\<rfloor> :: real)" "(of_int \<lfloor>r 0\<rfloor> :: real) \<le> 1"
    by simp_all
  moreover have "0 \<le> frac (\<Sum>k\<le>t. r k)" "frac (\<Sum>k\<le>t. r k) < 1"
    by (simp_all add: frac_lt_1)
  ultimately show ?thesis unfolding eq by linarith
qed

section \<open>The sine generator\<close>

lemma f02sine_unfold:
  assumes "shape f0 = [1, L, Suc h]" "2 \<le> L"
  shows "\<exists>rad cs dd.
      rad_values_of (SineGen_init sr h a n v) u f0 = Inr rad
    \<and> cumsum_shift_of (SineGen_init sr h a n v) rad = Inr cs
    \<and> tbinop (-) rad cs = Inr dd
    \<and> f02sine (SineGen_init sr h a n v) u f0 = Inr (tmap (\<lambda>v. sin (v * (2 * pi))) (cumsum1 dd))
    \<and> shape rad = [1, L, Suc h] \<and> shape cs = [1, L, Suc h] \<and> shape dd = [1, L, Suc h]
    \<and> (\<forall>t d. data rad [0, t, d] = fmod (data f0 [0, t, d] / sr) 1
         + (if t = 0 then (if h = 0 \<or> d = 0 then 0 else u d) else 0))
    \<and> (\<forall>d. d < Suc h \<longrightarrow> data cs [0, 0, d] = 0)
    \<and> (\<forall>t d. Suc t < L \<longrightarrow> d < Suc h \<longrightarrow> data cs [0, Suc t, d] =
         (if fmod (\<Sum>k\<le>Suc t. data rad [0, k, d]) 1 < fmod (\<Sum>k\<le>t. data rad [0, k, d]) 1
          then 1 else 0))
    \<and> (\<forall>t d. t < L \<longrightarrow> d < Suc h \<longrightarrow> data dd [0, t, d] = data rad [0, t, d] - data cs [0, t, d])"
proof -
  let ?s = "SineGen_init sr h a n v"
  from rad_values_of_shape3[of f0 1 L "Suc h" ?s u] assms
  obtain rad where rad: "rad_values_of ?s u f0 = Inr rad" "shape rad = [1, L, Suc h]"
    "\<forall>t d. data rad [0, t, d] = fmod (data f0 [0, t, d] / sr) 1
         + (if t = 0 then (if h = 0 \<or> d = 0 then 0 else u d) else 0)"
    by auto
  from cumsum_shift_of_shape3[OF rad(2) assms(2) refl, where sr=sr and a=a and n=n and v=v]
  obtain cs where cs: "cumsum_shift_of ?s rad = Inr cs" "shape cs = [1, L, Suc h]"
    "\<forall>d. d < Suc h \<longrightarrow> data cs [0, 0, d] = 0"
    "\<forall>t d. Suc t < L \<longrightarrow> d < Suc h \<longrightarrow> data cs [0, Suc t, d] =
         (if fmod (\<Sum>k\<le>Suc t. data rad [0, k, d]) 1 < fmod (\<Sum>k\<le>t. data rad [0, k, d]) 1
          then 1 else 0)"
    by blast
  from tbinop_same3[OF rad(2) cs(2), of "(-)"]
  obtain dd where dd: "tbinop (-) rad cs = Inr dd" "shape dd = [1, L, Suc h]"
    "\<forall>t d. t < L \<longrightarrow> d < Suc h \<longrightarrow> data dd [0, t, d] = data rad [0, t, d] - data cs [0, t, d]"
    by blast
  have y: "f02sine ?s u f0 = Inr (tmap (\<lambda>v. sin (v * (2 * pi))) (cumsum1 dd))"
    by (simp add: f02sine_def rad(1) cs(1) dd(1))
  show ?thesis
    apply (rule exI[of _ rad], rule exI[of _ cs], rule exI[of _ dd])
    apply (intro conjI)
    apply (rule rad(1) cs(1) dd(1) y rad(2) cs(2) dd(2) rad(3) cs(3) cs(4) dd(3))+
    done
qed

lemma f02sine_Inr_iff:
  "(\<exists>y. f02sine (SineGen_init sr h a n v) u f0 = Inr y) \<longleftrightarrow> (\<exists>L. shape f0 = [1, L, Suc h] \<and> 2 \<le> L)"
proof
  assume "\<exists>L. shape f0 = [1, L, Suc h] \<and> 2 \<le> L"
  then obtain L where L: "shape f0 = [1, L, Suc h]" "2 \<le> L"
    by blast
  from f02sine_unfold[OF L, of sr a n v u]
  show "\<exists>y. f02sine (SineGen_init sr h a n v) u f0 = Inr y"
    by (elim exE conjE) (erule exI)
next
  let ?s = "SineGen_init sr h a n v"
  assume "\<exists>y. f02sine ?s u f0 = Inr y"
  then obtain y where y: "f02sine ?s u f0 = Inr y" ..
  then obtain rad where rad: "rad_values_of ?s u f0 = Inr rad"
    by (auto simp add: f02sine_def split: sum.splits)
  with y obtain cs where cs: "cumsum_shift_of ?s rad = Inr cs"
    by (auto simp add: f02sine_def split: sum.splits)
  from rad rad_values_of_Inr_iff[of ?s u f0]
  obtain B L D where sh: "shape f0 = [B, L, D]" "0 < L" "Suc h = D \<or> h = 0" by auto
  with rad_values_of_shape3[of f0 B L D ?s u] rad have "shape rad = [B, L, D]" by auto
  from cumsum_shift_of_Inr_iff[OF this, of sr h a n v] cs
  have "B = 1 \<and> 2 \<le> L \<and> D = Suc h" by blast
  with sh show "\<exists>L. shape f0 = [1, L, Suc h] \<and> 2 \<le> L" by simp
qed


lemma fmod_3_4: "fmod (3 / 4) 1 = 3 / 4"
  by (simp add: fmod_1_nonneg frac_eq)

text \<open>
  Claim C1. In exact real arithmetic the overflow-corrected phase gives the same sine
  values as the naive phase. \<^verbatim>\<open>_f02sine\<close> returns on every input of shape
  (1, L, dim) with \<open>L \<ge> 2\<close>; whenever it returns, every entry of \<^verbatim>\<open>cumsum_shift\<close> is 0
  or 1, the returned sines are \<open>sin (2 \<pi> cumsum (rad_values - cumsum_shift))\<close>, and at every
  time step and every channel this equals \<open>sin (2 \<pi> cumsum rad_values)\<close>.
\<close>

theorem f02sine_shift_preserves_sine:
  "((\<exists>L. shape f0 = [1, L, Suc h] \<and> 2 \<le> L)
      \<longrightarrow> (\<exists>sines. f02sine (SineGen_init sr h a n v) u f0 = Inr sines))
   \<and> (\<forall>sines. f02sine (SineGen_init sr h a n v) u f0 = Inr sines \<longrightarrow>
        (\<exists>rad cs dd L.
            rad_values_of (SineGen_init sr h a n v) u f0 = Inr rad
          \<and> cumsum_shift_of (SineGen_init sr h a n v) rad = Inr cs
          \<and> tbinop (-) rad cs = Inr dd
          \<and> shape f0 = [1, L, Suc h] \<and> 2 \<le> L \<and> shape sines = [1, L, Suc h]
          \<and> (\<forall>t<L. \<forall>d<Suc h.
                (data cs [0, t, d] = 0 \<or> data cs [0, t, d] = 1)
              \<and> data sines [0, t, d] = sin (data (cumsum1 dd) [0, t, d] * (2 * pi))
              \<and> sin (data (cumsum1 dd) [0, t, d] * (2 * pi))
                  = sin (data (cumsum1 rad) [0, t, d] * (2 * pi)))))"
proof (intro conjI allI impI)
  assume "\<exists>L. shape f0 = [1, L, Suc h] \<and> 2 \<le> L"
  then show "\<exists>sines. f02sine (SineGen_init sr h a n v) u f0 = Inr sines"
    using f02sine_Inr_iff by blast
next
  fix sines
  assume ret: "f02sine (SineGen_init sr h a n v) u f0 = Inr sines"
  then obtain L where L: "shape f0 = [1, L, Suc h]" "2 \<le> L"
    using f02sine_Inr_iff by blast
  from f02sine_unfold[OF L, of sr a n v u]
  obtain rad cs dd where u:
    "rad_values_of (SineGen_init sr h a n v) u f0 = Inr rad"
    "cumsum_shift_of (SineGen_init sr h a n v) rad = Inr cs"
    "tbinop (-) rad cs = Inr dd"
    "f02sine (SineGen_init sr h a n v) u f0 = Inr (tmap (\<lambda>v. sin (v * (2 * pi))) (cumsum1 dd))"
    "shape dd = [1, L, Suc h]"
    "\<And>d. d < Suc h \<Longrightarrow> data cs [0, 0, d] = 0"
    "\<And>t d. Suc t < L \<Longrightarrow> d < Suc h \<Longrightarrow> data cs [0, Suc t, d] =
         (if fmod (\<Sum>k\<le>Suc t. data rad [0, k, d]) 1 < fmod (\<Sum>k\<le>t. data rad [0, k, d]) 1
          then 1 else 0)"
    "\<And>t d. t < L \<Longrightarrow> d < Suc h \<Longrightarrow> data dd [0, t, d] = data rad [0, t, d] - data cs [0, t, d]"
    by blast
  have sines: "sines = tmap (\<lambda>v. sin (v * (2 * pi))) (cumsum1 dd)"
    using ret u(4) by simp
  have c01: "data cs [0, k, d] = 0 \<or> data cs [0, k, d] = 1" if "k < L" "d < Suc h" for k d
  proof (cases k)
    case 0
    then show ?thesis using u(6)[OF that(2)] by simp
  next
    case (Suc j)
    then show ?thesis using u(7)[of j d] that by simp
  qed
  have main: "sin (data (cumsum1 dd) [0, t, d] * (2 * pi)) = sin (data (cumsum1 rad) [0, t, d] * (2 * pi))"
    if "t < L" "d < Suc h" for t d
  proof -
    have "(\<Sum>k\<le>t. data dd [0, k, d]) = (\<Sum>k\<le>t. data rad [0, k, d] - data cs [0, k, d])"
      by (rule sum.cong) (use that u(8) in auto)
    moreover have "\<And>k. k \<le> t \<Longrightarrow> data cs [0, k, d] = 0 \<or> data cs [0, k, d] = 1"
      using c01 that by simp
    from sum_shift_int[of t "\<lambda>k. data cs [0, k, d]" "\<lambda>k. data rad [0, k, d]", OF this]
    obtain m :: int where
      "(\<Sum>k\<le>t. data rad [0, k, d] - data cs [0, k, d]) = (\<Sum>k\<le>t. data rad [0, k, d]) - of_int m"
      by blast
    ultimately show ?thesis
      by (simp add: data_cumsum1_3 sin_shift_int del: sum.atMost_Suc)
  qed
  show "\<exists>rad cs dd L.
            rad_values_of (SineGen_init sr h a n v) u f0 = Inr rad
          \<and> cumsum_shift_of (SineGen_init sr h a n v) rad = Inr cs
          \<and> tbinop (-) rad cs = Inr dd
          \<and> shape f0 = [1, L, Suc h] \<and> 2 \<le> L \<and> shape sines = [1, L, Suc h]
          \<and> (\<forall>t<L. \<forall>d<Suc h.
                (data cs [0, t, d] = 0 \<or> data cs [0, t, d] = 1)
              \<and> data sines [0, t, d] = sin (data (cumsum1 dd) [0, t, d] * (2 * pi))
              \<and> sin (data (cumsum1 dd) [0, t, d] * (2 * pi))
                  = sin (data (cumsum1 rad) [0, t, d] * (2 * pi)))"
    apply (rule exI[of _ rad], rule exI[of _ cs], rule exI[of _ dd], rule exI[of _ L])
    apply (intro conjI allI impI)
    apply (rule u(1))
    apply (rule u(2))
    apply (rule u(3))
    apply (rule L(1))
    apply (rule L(2))
    apply (simp add: sines u(5))
    apply (erule (1) c01)
    apply (simp add: sines)
    apply (erule (1) main)
    done
qed

text \<open>
  The theorem at an input whose phase wraps: the constant 3 over three time steps, one
  channel, sampling rate 4. Every step advances the phase by 3/4, so \<open>cumsum_shift\<close> is 1
  at the second and the third step; the corrected phase of the third step is 1/4, the
  naive one 9/4, and the two sines agree.
\<close>

theorem f02sine_shift_preserves_sine_witness:
  "\<exists>sines rad cs dd.
      f02sine (SineGen_init 4 0 (1/10) (3/1000) 0) (\<lambda>d. 0) \<lparr>shape = [1, 3, 1], data = (\<lambda>i. 3)\<rparr>
        = Inr sines
    \<and> rad_values_of (SineGen_init 4 0 (1/10) (3/1000) 0) (\<lambda>d. 0)
          \<lparr>shape = [1, 3, 1], data = (\<lambda>i. 3)\<rparr> = Inr rad
    \<and> cumsum_shift_of (SineGen_init 4 0 (1/10) (3/1000) 0) rad = Inr cs
    \<and> tbinop (-) rad cs = Inr dd
    \<and> data cs [0, 1, 0] = 1 \<and> data cs [0, 2, 0] = 1
    \<and> data (cumsum1 dd) [0, 2, 0] = 1 / 4
    \<and> data (cumsum1 rad) [0, 2, 0] = 9 / 4
    \<and> data sines [0, 2, 0] = sin (data (cumsum1 dd) [0, 2, 0] * (2 * pi))
    \<and> sin (data (cumsum1 dd) [0, 2, 0] * (2 * pi)) = sin (data (cumsum1 rad) [0, 2, 0] * (2 * pi))"
proof -
  let ?s = "SineGen_init 4 0 (1/10) (3/1000) 0"
  let ?u = "\<lambda>d::nat. 0::real"
  let ?f = "\<lparr>shape = [1, 3, 1], data = (\<lambda>i. 3)\<rparr>"
  note inst = f02sine_shift_preserves_sine[of ?f 0 4 "1/10" "3/1000" 0 ?u]
  have "\<exists>L. shape ?f = [1, L, Suc 0] \<and> 2 \<le> L" by simp
  with inst[THEN conjunct1] obtain sines where s: "f02sine ?s ?u ?f = Inr sines" by blast
  from inst[THEN conjunct2, rule_format, OF s] obtain rad cs dd L where r:
    "rad_values_of ?s ?u ?f = Inr rad
     \<and> cumsum_shift_of ?s rad = Inr cs
     \<and> tbinop (-) rad cs = Inr dd
     \<and> shape ?f = [1, L, Suc 0] \<and> 2 \<le> L \<and> shape sines = [1, L, Suc 0]
     \<and> (\<forall>t<L. \<forall>d<Suc 0.
           (data cs [0, t, d] = 0 \<or> data cs [0, t, d] = 1)
         \<and> data sines [0, t, d] = sin (data (cumsum1 dd) [0, t, d] * (2 * pi))
         \<and> sin (data (cumsum1 dd) [0, t, d] * (2 * pi))
             = sin (data (cumsum1 rad) [0, t, d] * (2 * pi)))"
    by (elim exE) (rule that)
  note r1 = r[THEN conjunct1]
  note r2 = r[THEN conjunct2, THEN conjunct1]
  note r3 = r[THEN conjunct2, THEN conjunct2, THEN conjunct1]
  note r4 = r[THEN conjunct2, THEN conjunct2, THEN conjunct2, THEN conjunct1]
  note r7 = r[THEN conjunct2, THEN conjunct2, THEN conjunct2, THEN conjunct2, THEN conjunct2,
      THEN conjunct2]
  from r4 have L: "L = 3" by simp
  have sh: "shape ?f = [1, 3, Suc 0]" "(2::nat) \<le> 3" by simp_all
  from f02sine_unfold[OF sh, of 4 "1/10" "3/1000" 0 ?u] r1 r2 r3
  have rad: "\<And>t. data rad [0, t, 0] = 3 / 4"
    and c0: "data cs [0, 0, 0] = 0"
    and cS: "\<And>t. Suc t < 3 \<Longrightarrow> data cs [0, Suc t, 0] =
         (if fmod (\<Sum>k\<le>Suc t. data rad [0, k, 0]) 1 < fmod (\<Sum>k\<le>t. data rad [0, k, 0]) 1
          then 1 else 0)"
    and dd: "\<And>t. t < 3 \<Longrightarrow> data dd [0, t, 0] = data rad [0, t, 0] - data cs [0, t, 0]"
    by (auto simp add: fmod_3_4)
  have f1: "fmod (3 / 2) 1 = 1 / 2" "fmod (9 / 4) 1 = 1 / 4"
    by (simp_all add: fmod_def)
  have c1: "data cs [0, 1, 0] = 1"
    using cS[of 0] by (simp add: rad fmod_3_4 f1)
  have c2: "data cs [0, 2, 0] = 1"
    using cS[of 1] by (simp add: rad f1 eval_nat_numeral)
  have p: "data (cumsum1 dd) [0, 2, 0] = 1 / 4"
    using dd[of 0] dd[of 1] dd[of 2] c0 c1 c2
    by (simp add: data_cumsum1_3 rad eval_nat_numeral)
  have q: "data (cumsum1 rad) [0, 2, 0] = 9 / 4"
    by (simp add: data_cumsum1_3 rad eval_nat_numeral)
  from r7[rule_format, of 2 0] L
  have e: "data sines [0, 2, 0] = sin (data (cumsum1 dd) [0, 2, 0] * (2 * pi))"
    "sin (data (cumsum1 dd) [0, 2, 0] * (2 * pi)) = sin (data (cumsum1 rad) [0, 2, 0] * (2 * pi))"
    by simp_all
  show ?thesis
    apply (rule exI[of _ sines], rule exI[of _ rad], rule exI[of _ cs], rule exI[of _ dd])
    apply (intro conjI)
    apply (rule s r1 r2 r3 c1 c2 p q e)+
    done
qed

lemma fmod_1_range: "0 \<le> x \<Longrightarrow> 0 \<le> fmod x 1 \<and> fmod x 1 < 1"
  by (simp add: fmod_1_nonneg frac_lt_1)

lemma cumsum_half:
  "(\<Sum>k\<le>t. (1/2::real)) = (real t + 1) / 2"
  by simp

lemma f02sine_phase_of:
  "f02sine self u f0 =
     (case phase_of self u f0 of Inl e \<Rightarrow> Inl e
      | Inr p \<Rightarrow> Inr (tmap (\<lambda>v. sin (v * (2 * pi))) p))"
  unfolding f02sine_def phase_of_def by (simp split: sum.splits)

section \<open>The phase in 32-bit floats\<close>

lemma round_half_even_int [simp]: "round_half_even (of_int n) = n"
  by (simp add: round_half_even_def)

lemma floor_log2_eq:
  assumes "2 powr of_int e \<le> x" "x < 2 powr (of_int e + 1)"
  shows "\<lfloor>log 2 x\<rfloor> = e"
proof -
  have x: "0 < x" using assms(1) by (smt (verit) powr_gt_zero)
  have "of_int e \<le> log 2 x" using assms(1) x by (simp add: le_log_iff)
  moreover have "log 2 x < of_int e + 1" using assms(2) x by (simp add: log_less_iff)
  ultimately show ?thesis by linarith
qed

lemma round_float_eval:
  assumes lo: "2 powr of_int e \<le> \<bar>x\<bar>" and hi: "\<bar>x\<bar> < 2 powr (of_int e + 1)"
    and emin: "emin \<le> e" and n: "int n = int p - 1 - e"
  shows "round_float p emin x = of_int (round_half_even (x * 2 ^ n)) / 2 ^ n"
proof -
  have x: "x \<noteq> 0" using lo by (smt (verit) powr_gt_zero)
  have e: "max \<lfloor>log 2 \<bar>x\<bar>\<rfloor> emin = e"
    using floor_log2_eq[OF lo hi] emin by simp
  have "real_of_int e - (real p - 1) = - real n"
    using n by linarith
  then have "(2::real) powr (of_int e - (real p - 1)) = 2 powr (- real n)" by simp
  also have "\<dots> = 1 / 2 ^ n" by (simp add: powr_minus powr_realpow field_simps)
  finally have ulp: "(2::real) powr (of_int e - (real p - 1)) = 1 / 2 ^ n" .
  show ?thesis
    unfolding round_float_def Let_def e ulp using x by simp
qed

lemma round_float_exact:
  assumes xm: "x = of_int m / 2 ^ k" and m: "\<bar>m\<bar> < 2 ^ p" and k: "int k \<le> int p - 1 - emin"
  shows "round_float p emin x = x"
proof (cases "m = 0")
  case True
  then show ?thesis by (simp add: xm round_float_def)
next
  case False
  then have x: "x \<noteq> 0" by (simp add: xm)
  define e where "e = max \<lfloor>log 2 \<bar>x\<bar>\<rfloor> emin"
  have ax: "\<bar>x\<bar> < 2 powr (real p - real k)"
  proof -
    have "\<bar>x\<bar> = real_of_int \<bar>m\<bar> / 2 ^ k" by (simp add: xm)
    also have "\<dots> < 2 ^ p / 2 ^ k"
      using m by (intro divide_strict_right_mono) (simp_all add: of_int_less_iff[symmetric, where 'a = real] del: of_int_less_iff)
    also have "\<dots> = 2 powr (real p - real k)"
      by (simp add: powr_diff powr_realpow)
    finally show ?thesis .
  qed
  have "log 2 \<bar>x\<bar> < real p - real k"
    using ax x by (simp add: log_less_iff)
  then have "\<lfloor>log 2 \<bar>x\<bar>\<rfloor> \<le> int p - 1 - int k" by linarith
  with k have ek: "e \<le> int p - 1 - int k" by (simp add: e_def)
  define j where "j = nat (int p - 1 - int k - e)"
  have j: "int j = int p - 1 - int k - e" using ek by (simp add: j_def)
  have "real_of_int e - (real p - 1) = - (real j + real k)" using j by linarith
  then have "(2::real) powr (of_int e - (real p - 1)) = 2 powr (- real (j + k))" by simp
  also have "\<dots> = 1 / 2 ^ (j + k)"
    unfolding powr_minus powr_realpow[OF zero_less_numeral] by (simp add: field_simps)
  also have "\<dots> = 1 / (2 ^ j * 2 ^ k)" by (simp add: power_add)
  finally have ulp: "(2::real) powr (of_int e - (real p - 1)) = 1 / (2 ^ j * 2 ^ k)" .
  have "x / (1 / (2 ^ j * 2 ^ k)) = of_int (m * 2 ^ j)"
    by (simp add: xm)
  then have "round_half_even (x / (1 / (2 ^ j * 2 ^ k))) = m * 2 ^ j"
    by (simp only: round_half_even_int)
  then have "round_float p emin x = of_int (m * 2 ^ j) * (1 / (2 ^ j * 2 ^ k))"
    unfolding round_float_def Let_def e_def[symmetric] ulp using x by simp
  also have "\<dots> = x" by (simp add: xm)
  finally show ?thesis .
qed

lemma float32_exact:
  "x = of_int m / 2 ^ k \<Longrightarrow> \<bar>m\<bar> < 2 ^ 24 \<Longrightarrow> k \<le> 149 \<Longrightarrow> float32 x = x"
  unfolding float32_def by (rule round_float_exact[of x m k 24 "- 126"]) simp_all

lemma float64_exact:
  "x = of_int m / 2 ^ k \<Longrightarrow> \<bar>m\<bar> < 2 ^ 53 \<Longrightarrow> k \<le> 1074 \<Longrightarrow> float64 x = x"
  unfolding float64_def by (rule round_float_exact[of x m k 53 "- 1022"]) simp_all

lemma float32_eval:
  assumes "2 powr of_int e \<le> \<bar>x\<bar>" "\<bar>x\<bar> < 2 powr (of_int e + 1)" "- 126 \<le> e" "int n = 23 - e"
  shows "float32 x = of_int (round_half_even (x * 2 ^ n)) / 2 ^ n"
  unfolding float32_def using assms by (intro round_float_eval[of e x "- 126" n 24]) simp_all

lemma f32_two_fifths: "float32 (2 / 5) = 13421773 / 33554432"
proof -
  have "float32 (2 / 5) = of_int (round_half_even (2 / 5 * 2 ^ 25)) / 2 ^ 25"
    by (rule float32_eval[of "- 2"]) (simp_all add: powr_minus)
  also have "round_half_even (2 / 5 * 2 ^ 25) = 13421773"
    by (simp add: round_half_even_def Let_def)
  finally show ?thesis by simp
qed

lemma f32_3r: "float32 (40265319 / 33554432) = 5033165 / 4194304"
proof -
  have "float32 (40265319 / 33554432)
      = of_int (round_half_even (40265319 / 33554432 * 2 ^ 23)) / 2 ^ 23"
    by (rule float32_eval[of 0]) simp_all
  also have "round_half_even (40265319 / 33554432 * 2 ^ 23) = 10066330"
    by (simp add: round_half_even_def Let_def)
  finally show ?thesis by simp
qed

lemma f32_5r: "float32 (67108865 / 33554432) = 2"
proof -
  have "float32 (67108865 / 33554432)
      = of_int (round_half_even (67108865 / 33554432 * 2 ^ 22)) / 2 ^ 22"
    by (rule float32_eval[of 1]) simp_all
  also have "round_half_even (67108865 / 33554432 * 2 ^ 22) = 8388608"
    by (simp add: round_half_even_def Let_def)
  finally show ?thesis by simp
qed

lemma f32_r_minus_1: "float32 (- (20132659 / 33554432)) = - (5033165 / 8388608)"
proof -
  have "float32 (- (20132659 / 33554432))
      = of_int (round_half_even (- (20132659 / 33554432) * 2 ^ 24)) / 2 ^ 24"
    by (rule float32_eval[of "- 1"]) (simp_all add: powr_minus)
  also have "round_half_even (- (20132659 / 33554432) * 2 ^ 24) = - 10066330"
    by (simp add: round_half_even_def Let_def)
  finally show ?thesis by simp
qed

lemma shape_cumsum1_float32 [simp]: "shape (cumsum1_float32 x) = shape x"
  by (simp add: cumsum1_float32_def)

lemma data_cumsum1_float32_3:
  "data (cumsum1_float32 x) [b, t, d]
     = float32 (foldl (\<lambda>acc k. float64 (acc + data x [b, k, d])) 0 [0..<Suc t])"
  by (simp add: cumsum1_float32_def)

lemma phase_of_float32_unfold:
  assumes sh: "shape f0 = [1, L, Suc h]" and L: "2 \<le> L"
  shows "\<exists>(rad :: tensor) (cs :: tensor) (d :: tensor).
      phase_of_float32 (SineGen_init sr h a n v) u f0 = Inr (cumsum1_float32 d)
    \<and> shape rad = [1, L, Suc h] \<and> shape d = [1, L, Suc h]
    \<and> (\<forall>t k. data rad [0, t, k]
          = float32 (fmod (float32 (data f0 [0, t, k] / sr)) 1
                     + (if t = 0 then (if h = 0 \<or> k = 0 then 0 else u k) else 0)))
    \<and> (\<forall>k. k < Suc h \<longrightarrow> data cs [0, 0, k] = 0)
    \<and> (\<forall>t k. Suc t < L \<longrightarrow> k < Suc h \<longrightarrow> data cs [0, Suc t, k] =
          (if fmod (data (cumsum1_float32 rad) [0, Suc t, k]) 1
                < fmod (data (cumsum1_float32 rad) [0, t, k]) 1 then 1 else 0))
    \<and> (\<forall>t k. t < L \<longrightarrow> k < Suc h \<longrightarrow>
          data d [0, t, k] = float32 (data rad [0, t, k] - data cs [0, t, k]))"
proof -
  let ?s = "SineGen_init sr h a n v"
  let ?rad0 = "tmap (\<lambda>v. fmod (float32 (v / sampling_rate ?s)) 1) f0"
  have "0 < L" using L by simp
  then obtain rad' where rad': "rand_ini_of (dim ?s) u = Inr \<lparr>shape = [1, Suc h],
         data = (\<lambda>i. if i ! 1 = 0 then 0 else u (i ! 1))\<rparr>"
    "iadd_select0 ?rad0 \<lparr>shape = [1, Suc h],
         data = (\<lambda>i. if i ! 1 = 0 then 0 else u (i ! 1))\<rparr> = Inr rad'"
    "shape rad' = [1, L, Suc h]"
    "\<forall>t k. data rad' [0, t, k] = fmod (float32 (data f0 [0, t, k] / sr)) 1
                     + (if t = 0 then (if h = 0 \<or> k = 0 then 0 else u k) else 0)"
    using sh by (auto simp add: rand_ini_of_def iadd_select0_def tmap_def Let_def)
  let ?rad = "tmap float32 rad'"
  let ?tmp = "tmap (\<lambda>v. fmod v 1) (cumsum1_float32 ?rad)"
  have shr: "shape ?rad = [1, L, Suc h]" using rad'(3) by simp
  have sht: "shape ?tmp = [1, L, Suc h]" using rad'(3) by simp
  have "1 \<le> Suc h" by simp
  from diff_conv[OF sht L this, of sr h a n v]
  obtain c where c: "Conv2d_forward (diff ?s) (unsqueeze1 ?tmp) = Inr c"
    "shape (squeeze1 c) = [1, L - 1, Suc h]"
    "\<And>b t d. t < L - 1 \<Longrightarrow> d < Suc h \<Longrightarrow>
        data (squeeze1 c) [b, t, d] = data ?tmp [b, Suc t, d] - data ?tmp [b, t, d]"
    by blast
  let ?shift = "tmap (\<lambda>v. if v < 0 then 1 else 0) (squeeze1 c)"
  obtain cs where cs: "cat1 (zeros [1, 1, dim ?s]) ?shift = Inr cs" "shape cs = [1, L, Suc h]"
    "\<forall>k. k < Suc h \<longrightarrow> data cs [0, 0, k] = 0"
    "\<forall>t k. Suc t < L \<longrightarrow> k < Suc h \<longrightarrow> data cs [0, Suc t, k] =
          (if fmod (data (cumsum1_float32 ?rad) [0, Suc t, k]) 1
                < fmod (data (cumsum1_float32 ?rad) [0, t, k]) 1 then 1 else 0)"
    using L c(2,3) by (simp add: cat1_def zeros_def)
  from tbinop_same3[OF shr cs(2), of "\<lambda>a b. float32 (a - b)"]
  obtain d where d: "tbinop (\<lambda>a b. float32 (a - b)) ?rad cs = Inr d" "shape d = [1, L, Suc h]"
    "\<forall>t k. t < L \<longrightarrow> k < Suc h \<longrightarrow>
          data d [0, t, k] = float32 (data ?rad [0, t, k] - data cs [0, t, k])"
    by blast
  have ph: "phase_of_float32 ?s u f0 = Inr (cumsum1_float32 d)"
    unfolding phase_of_float32_def Let_def rad'(1) rad'(2) c(1) cs(1) d(1) sum.case ..
  have "phase_of_float32 (SineGen_init sr h a n v) u f0 = Inr (cumsum1_float32 d)
    \<and> shape ?rad = [1, L, Suc h] \<and> shape d = [1, L, Suc h]
    \<and> (\<forall>t k. data ?rad [0, t, k]
          = float32 (fmod (float32 (data f0 [0, t, k] / sr)) 1
                     + (if t = 0 then (if h = 0 \<or> k = 0 then 0 else u k) else 0)))
    \<and> (\<forall>k. k < Suc h \<longrightarrow> data cs [0, 0, k] = 0)
    \<and> (\<forall>t k. Suc t < L \<longrightarrow> k < Suc h \<longrightarrow> data cs [0, Suc t, k] =
          (if fmod (data (cumsum1_float32 ?rad) [0, Suc t, k]) 1
                < fmod (data (cumsum1_float32 ?rad) [0, t, k]) 1 then 1 else 0))
    \<and> (\<forall>t k. t < L \<longrightarrow> k < Suc h \<longrightarrow>
          data d [0, t, k] = float32 (data ?rad [0, t, k] - data cs [0, t, k]))"
    using ph shr d(2,3) cs(3,4) rad'(4) by simp
  then show ?thesis
    apply -
    apply (rule exI, rule exI, rule exI)
    apply assumption
    done
qed

lemma upt_small:
  "[0..<Suc 0] = [0]" "[0..<Suc (Suc 0)] = [0, 1]" "[0..<2] = [0, 1]" "[0..<3] = [0, 1, 2]"
  "[0..<4] = [0, 1, 2, 3]" "[0..<5] = [0, 1, 2, 3, 4]"
  by (simp_all add: upt_rec)

lemma phase_of_float32_below_zero:
  "\<not> isl (phase_of_float32 (SineGen_init 5 0 (1/10) (3/1000) 0) (\<lambda>d. 0)
            \<lparr>shape = [1, 5, 1], data = (\<lambda>i. 2)\<rparr>)
   \<and> data (projr (phase_of_float32 (SineGen_init 5 0 (1/10) (3/1000) 0) (\<lambda>d. 0)
            \<lparr>shape = [1, 5, 1], data = (\<lambda>i. 2)\<rparr>)) [0, 4, 0] = - (1 / 2 ^ 25)"
proof -
  let ?s = "SineGen_init 5 0 (1/10) (3/1000) 0"
  let ?u = "\<lambda>d::nat. 0::real"
  let ?f = "\<lparr>shape = [1, 5, 1], data = (\<lambda>i. 2)\<rparr>"
  let ?r = "13421773 / 33554432 :: real"
  let ?q = "- (5033165 / 8388608) :: real"
  have sh: "shape ?f = [1, 5, Suc 0]" "(2::nat) \<le> 5" by simp_all
  from phase_of_float32_unfold[OF sh, of 5 "1/10" "3/1000" 0 ?u]
  obtain rad cs d :: tensor where all:
    "phase_of_float32 ?s ?u ?f = Inr (cumsum1_float32 d)
    \<and> shape rad = [1, 5, Suc 0] \<and> shape d = [1, 5, Suc 0]
    \<and> (\<forall>t k. data rad [0, t, k]
          = float32 (fmod (float32 (data ?f [0, t, k] / 5)) 1
                     + (if t = 0 then (if (0::nat) = 0 \<or> k = 0 then 0 else ?u k) else 0)))
    \<and> (\<forall>k. k < Suc 0 \<longrightarrow> data cs [0, 0, k] = 0)
    \<and> (\<forall>t k. Suc t < 5 \<longrightarrow> k < Suc 0 \<longrightarrow> data cs [0, Suc t, k] =
          (if fmod (data (cumsum1_float32 rad) [0, Suc t, k]) 1
                < fmod (data (cumsum1_float32 rad) [0, t, k]) 1 then 1 else 0))
    \<and> (\<forall>t k. t < 5 \<longrightarrow> k < Suc 0 \<longrightarrow>
          data d [0, t, k] = float32 (data rad [0, t, k] - data cs [0, t, k]))"
    by (elim exE) (rule that)
  note ph = all[THEN conjunct1]
  have rad0: "data rad [0, t, 0] = float32 (fmod (float32 (2 / 5)) 1)" for t
    using all[THEN conjunct2, THEN conjunct2, THEN conjunct2, THEN conjunct1, rule_format,
        of t 0] by simp
  have c0: "data cs [0, 0, 0] = 0"
    using all[THEN conjunct2, THEN conjunct2, THEN conjunct2, THEN conjunct2, THEN conjunct1]
    by simp
  have cS: "data cs [0, Suc t, 0] =
          (if fmod (data (cumsum1_float32 rad) [0, Suc t, 0]) 1
                < fmod (data (cumsum1_float32 rad) [0, t, 0]) 1 then 1 else 0)"
    if "Suc t < 5" for t
    using all[THEN conjunct2, THEN conjunct2, THEN conjunct2, THEN conjunct2, THEN conjunct2,
        THEN conjunct1, rule_format, of t 0] that by simp
  have dd: "data d [0, t, 0] = float32 (data rad [0, t, 0] - data cs [0, t, 0])"
    if "t < 5" for t
    using all[THEN conjunct2, THEN conjunct2, THEN conjunct2, THEN conjunct2, THEN conjunct2,
        THEN conjunct2, rule_format, of t 0] that by simp
  have x32: "float32 ?r = ?r" "float32 (13421773 / 16777216) = 13421773 / 16777216"
    "float32 (13421773 / 8388608) = 13421773 / 8388608"
    "float32 (- (1 / 33554432)) = - (1 / 33554432)"
    by (rule float32_exact[of _ 13421773 25], simp, simp, simp)
       (rule float32_exact[of _ 13421773 24], simp, simp, simp,
        rule float32_exact[of _ 13421773 23], simp, simp, simp,
        rule float32_exact[of _ "- 1" 25], simp, simp, simp)
  have x64: "float64 ?r = ?r" "float64 (13421773 / 16777216) = 13421773 / 16777216"
    "float64 (40265319 / 33554432) = 40265319 / 33554432"
    "float64 (13421773 / 8388608) = 13421773 / 8388608"
    "float64 (67108865 / 33554432) = 67108865 / 33554432"
    "float64 (3355443 / 16777216) = 3355443 / 16777216"
    "float64 (20132659 / 33554432) = 20132659 / 33554432"
    "float64 (- (1 / 33554432)) = - (1 / 33554432)"
    by (rule float64_exact[of _ 13421773 25], simp, simp, simp)
       (rule float64_exact[of _ 13421773 24], simp, simp, simp,
        rule float64_exact[of _ 40265319 25], simp, simp, simp,
        rule float64_exact[of _ 13421773 23], simp, simp, simp,
        rule float64_exact[of _ 67108865 25], simp, simp, simp,
        rule float64_exact[of _ 3355443 24], simp, simp, simp,
        rule float64_exact[of _ 20132659 25], simp, simp, simp,
        rule float64_exact[of _ "- 1" 25], simp, simp, simp)
  have fm: "fmod ?r 1 = ?r" by (simp add: fmod_def)
  have rad: "data rad [0, t, 0] = ?r" for t
    by (simp add: rad0 f32_two_fifths fm x32)
  have C: "data (cumsum1_float32 rad) [0, 0, 0] = ?r"
    "data (cumsum1_float32 rad) [0, Suc 0, 0] = 13421773 / 16777216"
    "data (cumsum1_float32 rad) [0, Suc (Suc 0), 0] = 5033165 / 4194304"
    "data (cumsum1_float32 rad) [0, Suc (Suc (Suc 0)), 0] = 13421773 / 8388608"
    "data (cumsum1_float32 rad) [0, Suc (Suc (Suc (Suc 0))), 0] = 2"
    by (simp_all add: data_cumsum1_float32_3 upt_rec rad x64 x32 f32_3r f32_5r)
  have F: "fmod ?r 1 = ?r" "fmod (13421773 / 16777216) 1 = 13421773 / 16777216"
    "fmod (5033165 / 4194304) 1 = 838861 / 4194304"
    "fmod (13421773 / 8388608) 1 = 5033165 / 8388608" "fmod 2 1 = 0"
    by (simp_all add: fmod_def)
  have cs: "data cs [0, Suc 0, 0] = 0" "data cs [0, Suc (Suc 0), 0] = 1"
    "data cs [0, Suc (Suc (Suc 0)), 0] = 0" "data cs [0, Suc (Suc (Suc (Suc 0))), 0] = 1"
    by (simp_all add: cS C F)
  have d: "data d [0, 0, 0] = ?r" "data d [0, Suc 0, 0] = ?r" "data d [0, Suc (Suc 0), 0] = ?q"
    "data d [0, Suc (Suc (Suc 0)), 0] = ?r" "data d [0, Suc (Suc (Suc (Suc 0))), 0] = ?q"
    by (simp_all add: dd rad c0 cs x32 f32_r_minus_1)
  have last: "data (cumsum1_float32 d) [0, Suc (Suc (Suc (Suc 0))), 0] = - (1 / 2 ^ 25)"
    by (simp add: data_cumsum1_float32_3 upt_rec d x64 x32)
  have four: "(4::nat) = Suc (Suc (Suc (Suc 0)))" by simp
  have "data (cumsum1_float32 d) [0, 4, 0] = - (1 / 2 ^ 25)"
    unfolding four by (rule last)
  then show ?thesis unfolding ph by simp
qed

lemma phase_of_negative_rate:
  "\<not> isl (phase_of (SineGen_init (- 5) 0 (1/10) (3/1000) 0) (\<lambda>d. 0)
            \<lparr>shape = [1, 2, 1], data = (\<lambda>i. 2)\<rparr>)
   \<and> \<not> isl (f02sine (SineGen_init (- 5) 0 (1/10) (3/1000) 0) (\<lambda>d. 0)
            \<lparr>shape = [1, 2, 1], data = (\<lambda>i. 2)\<rparr>)
   \<and> data (projr (phase_of (SineGen_init (- 5) 0 (1/10) (3/1000) 0) (\<lambda>d. 0)
            \<lparr>shape = [1, 2, 1], data = (\<lambda>i. 2)\<rparr>)) [0, 1, 0] = - (9 / 5)
   \<and> data (projr (f02sine (SineGen_init (- 5) 0 (1/10) (3/1000) 0) (\<lambda>d. 0)
            \<lparr>shape = [1, 2, 1], data = (\<lambda>i. 2)\<rparr>)) [0, 1, 0] = sin (- (9 / 5) * (2 * pi))"
proof -
  let ?s = "SineGen_init (- 5) 0 (1/10) (3/1000) 0"
  let ?u = "\<lambda>d::nat. 0::real"
  let ?f = "\<lparr>shape = [1, 2, 1], data = (\<lambda>i. 2)\<rparr>"
  have sh: "shape ?f = [1, 2, Suc 0]" "(2::nat) \<le> 2" by simp_all
  from f02sine_unfold[OF sh, of "- 5" "1/10" "3/1000" 0 ?u]
  obtain rad cs dd where r1: "rad_values_of ?s ?u ?f = Inr rad"
    and r2: "cumsum_shift_of ?s rad = Inr cs"
    and r3: "tbinop (-) rad cs = Inr dd"
    and sdd: "shape dd = [1, 2, Suc 0]"
    and rad: "\<And>t. data rad [0, t, 0] = fmod (- (2 / 5)) 1"
    and c0: "data cs [0, 0, 0] = 0"
    and cS: "\<And>t. Suc t < 2 \<Longrightarrow> data cs [0, Suc t, 0] =
         (if fmod (\<Sum>k\<le>Suc t. data rad [0, k, 0]) 1 < fmod (\<Sum>k\<le>t. data rad [0, k, 0]) 1
          then 1 else 0)"
    and dd: "\<And>t. t < 2 \<Longrightarrow> data dd [0, t, 0] = data rad [0, t, 0] - data cs [0, t, 0]"
    by auto
  have f1: "fmod (- (2 / 5)) 1 = - (2 / 5)" "fmod (- (4 / 5)) 1 = - (4 / 5)"
    by (simp_all add: fmod_def)
  have c1: "data cs [0, 1, 0] = 1"
    using cS[of 0] by (simp add: rad f1)
  have p: "data (cumsum1 dd) [0, 1, 0] = - (9 / 5)"
    using dd[of 0] dd[of 1] c0 c1
    by (simp add: data_cumsum1_3 rad f1)
  have ph: "phase_of ?s ?u ?f = Inr (cumsum1 dd)"
    using r1 r2 r3 unfolding phase_of_def by simp
  show ?thesis
    unfolding f02sine_phase_of ph using p by simp
qed

text \<open>
  Claim C2 as stated, for every nonnegative input, fails in two ways. In 32-bit floats the
  shifted phase leaves the interval by a rounding error: at sampling rate 5 and the
  constant input 2 over five time steps the phase of the last step is \<open>- 1 / 2 ^ 25\<close>, below 0.
  And where the sampling rate is negative the phase decreases: at sampling rate -5 and the
  constant input 2 over two time steps each step advances the phase by -2/5, the
  remainders decrease, \<open>cumsum_shift\<close> is 1 at the second step and the shifted phase there
  is -9/5.
\<close>

theorem f02sine_phase_leaves_interval:
  "(\<not> isl (phase_of_float32 (SineGen_init 5 0 (1/10) (3/1000) 0) (\<lambda>d. 0)
              \<lparr>shape = [1, 5, 1], data = (\<lambda>i. 2)\<rparr>)
     \<and> data (projr (phase_of_float32 (SineGen_init 5 0 (1/10) (3/1000) 0) (\<lambda>d. 0)
              \<lparr>shape = [1, 5, 1], data = (\<lambda>i. 2)\<rparr>)) [0, 4, 0] = - (1 / 2 ^ 25))
   \<and> (\<not> isl (phase_of (SineGen_init (- 5) 0 (1/10) (3/1000) 0) (\<lambda>d. 0)
              \<lparr>shape = [1, 2, 1], data = (\<lambda>i. 2)\<rparr>)
     \<and> \<not> isl (f02sine (SineGen_init (- 5) 0 (1/10) (3/1000) 0) (\<lambda>d. 0)
              \<lparr>shape = [1, 2, 1], data = (\<lambda>i. 2)\<rparr>)
     \<and> data (projr (phase_of (SineGen_init (- 5) 0 (1/10) (3/1000) 0) (\<lambda>d. 0)
              \<lparr>shape = [1, 2, 1], data = (\<lambda>i. 2)\<rparr>)) [0, 1, 0] = - (9 / 5)
     \<and> data (projr (f02sine (SineGen_init (- 5) 0 (1/10) (3/1000) 0) (\<lambda>d. 0)
              \<lparr>shape = [1, 2, 1], data = (\<lambda>i. 2)\<rparr>)) [0, 1, 0] = sin (- (9 / 5) * (2 * pi)))"
  by (rule conjI) (rule phase_of_float32_below_zero, rule phase_of_negative_rate)

text \<open>
  Claim C2, as it holds: over the reals, for a positive sampling rate, an initial phase
  drawn from \<open>[0, 1)\<close> (the range of \<^verbatim>\<open>torch.rand\<close>) and an input of shape (1, L, dim),
  \<open>L \<ge> 2\<close>, whose entries are all nonnegative, the shifted cumulative phase
  \<open>cumsum (rad_values - cumsum_shift)\<close> lies in \<open>[0, 2)\<close> at every time step and every
  channel, whatever the length. The uncorrected \<open>cumsum rad_values\<close> exceeds every bound on
  some nonnegative input.
\<close>

theorem f02sine_phase_bounded:
  assumes sr: "0 < sr" and u: "\<forall>d. 0 \<le> u d \<and> u d < 1"
  shows "(\<forall>f0 L. shape f0 = [1, L, Suc h] \<and> 2 \<le> L
              \<and> (\<forall>t<L. \<forall>d<Suc h. 0 \<le> data f0 [0, t, d]) \<longrightarrow>
            (\<exists>rad cs dd.
                rad_values_of (SineGen_init sr h a n v) u f0 = Inr rad
              \<and> cumsum_shift_of (SineGen_init sr h a n v) rad = Inr cs
              \<and> tbinop (-) rad cs = Inr dd
              \<and> f02sine (SineGen_init sr h a n v) u f0
                   = Inr (tmap (\<lambda>v. sin (v * (2 * pi))) (cumsum1 dd))
              \<and> (\<forall>t<L. \<forall>d<Suc h.
                    0 \<le> data (cumsum1 dd) [0, t, d] \<and> data (cumsum1 dd) [0, t, d] < 2)))
       \<and> (\<forall>M. \<exists>f0 L rad t.
              shape f0 = [1, L, Suc h] \<and> 2 \<le> L
            \<and> (\<forall>t<L. \<forall>d<Suc h. 0 \<le> data f0 [0, t, d])
            \<and> rad_values_of (SineGen_init sr h a n v) u f0 = Inr rad
            \<and> t < L \<and> M < data (cumsum1 rad) [0, t, 0])"
proof (intro conjI allI impI)
  fix f0 :: tensor and L :: nat
  assume "shape f0 = [1, L, Suc h] \<and> 2 \<le> L \<and> (\<forall>t<L. \<forall>d<Suc h. 0 \<le> data f0 [0, t, d])"
  then have L: "shape f0 = [1, L, Suc h]" "2 \<le> L"
    and nn: "\<And>t d. t < L \<Longrightarrow> d < Suc h \<Longrightarrow> 0 \<le> data f0 [0, t, d]" by auto
  from f02sine_unfold[OF L, of sr a n v u]
  obtain rad cs dd where f:
    "rad_values_of (SineGen_init sr h a n v) u f0 = Inr rad"
    "cumsum_shift_of (SineGen_init sr h a n v) rad = Inr cs"
    "tbinop (-) rad cs = Inr dd"
    "f02sine (SineGen_init sr h a n v) u f0 = Inr (tmap (\<lambda>v. sin (v * (2 * pi))) (cumsum1 dd))"
    "\<And>t d. data rad [0, t, d] = fmod (data f0 [0, t, d] / sr) 1
         + (if t = 0 then (if h = 0 \<or> d = 0 then 0 else u d) else 0)"
    "\<And>d. d < Suc h \<Longrightarrow> data cs [0, 0, d] = 0"
    "\<And>t d. Suc t < L \<Longrightarrow> d < Suc h \<Longrightarrow> data cs [0, Suc t, d] =
         (if fmod (\<Sum>k\<le>Suc t. data rad [0, k, d]) 1 < fmod (\<Sum>k\<le>t. data rad [0, k, d]) 1
          then 1 else 0)"
    "\<And>t d. t < L \<Longrightarrow> d < Suc h \<Longrightarrow> data dd [0, t, d] = data rad [0, t, d] - data cs [0, t, d]"
    by blast
  have bound: "0 \<le> data (cumsum1 dd) [0, t, d] \<and> data (cumsum1 dd) [0, t, d] < 2"
    if td: "t < L" "d < Suc h" for t d
  proof -
    let ?r = "\<lambda>k. data rad [0, k, d]" and ?c = "\<lambda>k. data cs [0, k, d]"
    have q: "0 \<le> fmod (data f0 [0, k, d] / sr) 1 \<and> fmod (data f0 [0, k, d] / sr) 1 < 1"
      if "k < L" for k
      using nn[OF that td(2)] sr by (intro fmod_1_range) simp
    have "0 < L" using L(2) by simp
    from q[OF this] u[rule_format, of d] have r0: "0 \<le> ?r 0" "?r 0 < 2"
      by (simp_all add: f(5))
    have rt: "0 \<le> ?r k \<and> ?r k < 1" if "0 < k" "k < L" for k
      using q[OF that(2)] that(1) by (simp add: f(5))
    have c0: "?c 0 = 0" using f(6)[OF td(2)] .
    have cS: "?c (Suc j) = (if fmod (\<Sum>k\<le>Suc j. ?r k) 1 < fmod (\<Sum>k\<le>j. ?r k) 1 then 1 else 0)"
      if "Suc j < L" for j
      using f(7)[OF that td(2)] .
    have "(\<Sum>k\<le>t. data dd [0, k, d]) = (\<Sum>k\<le>t. ?r k - ?c k)"
      by (rule sum.cong) (use td f(8) in auto)
    moreover have "0 \<le> (\<Sum>k\<le>t. ?r k - ?c k) \<and> (\<Sum>k\<le>t. ?r k - ?c k) < 2"
      by (rule phase_bounded[of ?r L ?c t, OF r0 rt c0 cS td(1)])
    ultimately show ?thesis
      by (simp add: data_cumsum1_3 del: sum.atMost_Suc)
  qed
  show "\<exists>rad cs dd.
                rad_values_of (SineGen_init sr h a n v) u f0 = Inr rad
              \<and> cumsum_shift_of (SineGen_init sr h a n v) rad = Inr cs
              \<and> tbinop (-) rad cs = Inr dd
              \<and> f02sine (SineGen_init sr h a n v) u f0
                   = Inr (tmap (\<lambda>v. sin (v * (2 * pi))) (cumsum1 dd))
              \<and> (\<forall>t<L. \<forall>d<Suc h.
                    0 \<le> data (cumsum1 dd) [0, t, d] \<and> data (cumsum1 dd) [0, t, d] < 2)"
    apply (rule exI[of _ rad], rule exI[of _ cs], rule exI[of _ dd])
    apply (intro conjI allI impI)
    apply (rule f(1))
    apply (rule f(2))
    apply (rule f(3))
    apply (rule f(4))
    apply (erule (1) bound[THEN conjunct1])
    apply (erule (1) bound[THEN conjunct2])
    done
next
  fix M :: real
  define t where "t = nat \<lceil>2 * M\<rceil>"
  define L where "L = t + 2"
  define f0 where "f0 = \<lparr>shape = [1, L, Suc h], data = (\<lambda>i. sr / 2)\<rparr>"
  have L: "shape f0 = [1, L, Suc h]" "2 \<le> L" by (simp_all add: f0_def L_def)
  from f02sine_unfold[OF L, of sr a n v u]
  obtain rad where f:
    "rad_values_of (SineGen_init sr h a n v) u f0 = Inr rad"
    "\<And>t d. data rad [0, t, d] = fmod (data f0 [0, t, d] / sr) 1
         + (if t = 0 then (if h = 0 \<or> d = 0 then 0 else u d) else 0)"
    by blast
  have half: "fmod (1 / 2) 1 = 1 / 2"
    by (simp add: fmod_1_nonneg frac_eq)
  have r: "data rad [0, k, 0] = 1 / 2" for k
    using sr by (simp add: f(2) f0_def half)
  have "data (cumsum1 rad) [0, t, 0] = (\<Sum>k\<le>t. (1 / 2 :: real))"
    unfolding data_cumsum1_3 by (rule sum.cong) (simp_all only: r)
  then have "data (cumsum1 rad) [0, t, 0] = (real t + 1) / 2"
    by (simp only: cumsum_half)
  moreover have "2 * M \<le> real t" unfolding t_def
    by (metis le_of_int_ceiling of_int_0_le_iff of_nat_nat order.trans nat_le_iff zero_le linear of_nat_0_le_iff)
  ultimately have big: "M < data (cumsum1 rad) [0, t, 0]" by simp
  have nn: "\<forall>t<L. \<forall>d<Suc h. 0 \<le> data f0 [0, t, d]"
    using sr by (simp add: f0_def)
  have tL: "t < L" by (simp add: L_def)
  show "\<exists>f0 L rad t.
              shape f0 = [1, L, Suc h] \<and> 2 \<le> L
            \<and> (\<forall>t<L. \<forall>d<Suc h. 0 \<le> data f0 [0, t, d])
            \<and> rad_values_of (SineGen_init sr h a n v) u f0 = Inr rad
            \<and> t < L \<and> M < data (cumsum1 rad) [0, t, 0]"
    apply (rule exI[of _ f0], rule exI[of _ L], rule exI[of _ rad], rule exI[of _ t])
    using L nn f(1) tL big by blast
qed

text \<open>
  The theorem at sampling rate 4, two channels, three time steps of value 3 and initial
  phase one half.
\<close>

theorem f02sine_phase_bounded_witness:
  "(0::real) < 4 \<and> (\<forall>d::nat. (0::real) \<le> 1/2 \<and> (1/2::real) < 1) \<and>
   (\<exists>rad cs dd.
      rad_values_of (SineGen_init 4 1 (1/10) (3/1000) 0) (\<lambda>d. 1/2)
          \<lparr>shape = [1, 3, 2], data = (\<lambda>i. 3)\<rparr> = Inr rad
    \<and> cumsum_shift_of (SineGen_init 4 1 (1/10) (3/1000) 0) rad = Inr cs
    \<and> tbinop (-) rad cs = Inr dd
    \<and> f02sine (SineGen_init 4 1 (1/10) (3/1000) 0) (\<lambda>d. 1/2)
          \<lparr>shape = [1, 3, 2], data = (\<lambda>i. 3)\<rparr>
         = Inr (tmap (\<lambda>v. sin (v * (2 * pi))) (cumsum1 dd))
    \<and> 0 \<le> data (cumsum1 dd) [0, 2, 1] \<and> data (cumsum1 dd) [0, 2, 1] < 2)"
proof -
  let ?f = "\<lparr>shape = [1, 3, 2], data = (\<lambda>i. 3)\<rparr>"
  have h: "(0::real) < 4" "\<forall>d::nat. (0::real) \<le> 1/2 \<and> (1/2::real) < 1" by simp_all
  note inst = f02sine_phase_bounded[OF h, of 1 "1/10" "3/1000" 0, THEN conjunct1, rule_format, of ?f 3]
  have "shape ?f = [1, 3, Suc 1] \<and> 2 \<le> (3::nat) \<and> (\<forall>t<3. \<forall>d<Suc 1. 0 \<le> data ?f [0, t, d])"
    by simp
  from inst[OF this] obtain rad cs dd where x:
    "rad_values_of (SineGen_init 4 1 (1/10) (3/1000) 0) (\<lambda>d. 1/2) ?f = Inr rad"
    "cumsum_shift_of (SineGen_init 4 1 (1/10) (3/1000) 0) rad = Inr cs"
    "tbinop (-) rad cs = Inr dd"
    "f02sine (SineGen_init 4 1 (1/10) (3/1000) 0) (\<lambda>d. 1/2) ?f
         = Inr (tmap (\<lambda>v. sin (v * (2 * pi))) (cumsum1 dd))"
    "\<forall>t<3. \<forall>d<Suc 1. 0 \<le> data (cumsum1 dd) [0, t, d] \<and> data (cumsum1 dd) [0, t, d] < 2"
    by blast
  from x(5) have b: "0 \<le> data (cumsum1 dd) [0, 2, 1]" "data (cumsum1 dd) [0, 2, 1] < 2"
    by simp_all
  have "\<exists>rad cs dd.
      rad_values_of (SineGen_init 4 1 (1/10) (3/1000) 0) (\<lambda>d. 1/2) ?f = Inr rad
    \<and> cumsum_shift_of (SineGen_init 4 1 (1/10) (3/1000) 0) rad = Inr cs
    \<and> tbinop (-) rad cs = Inr dd
    \<and> f02sine (SineGen_init 4 1 (1/10) (3/1000) 0) (\<lambda>d. 1/2) ?f
         = Inr (tmap (\<lambda>v. sin (v * (2 * pi))) (cumsum1 dd))
    \<and> 0 \<le> data (cumsum1 dd) [0, 2, 1] \<and> data (cumsum1 dd) [0, 2, 1] < 2"
    apply (rule exI[of _ rad], rule exI[of _ cs], rule exI[of _ dd])
    apply (intro conjI)
    apply (rule x(1) x(2) x(3) x(4) b)+
    done
  with h show ?thesis by (intro conjI)
qed

text \<open>
  Claim C3. The bias-free Conv2d stored in \<^verbatim>\<open>SineGen.diff\<close>, with kernel size (2, 1) and
  weight \<open>[[-1], [1]]\<close>, applied to the unsqueezed form of a tensor of shape (B, L, D) with
  \<open>L \<ge> 2\<close> and \<open>D \<ge> 1\<close> and squeezed again, has shape (B, L - 1, D); its entry at
  \<open>(t, d)\<close> is \<open>input[t + 1, d] - input[t, d]\<close>, which is \<^verbatim>\<open>torch.diff\<close> along
  dimension 1.
\<close>

theorem diff_conv_first_differences:
  "shape x = [B, L, D] \<Longrightarrow> 2 \<le> L \<Longrightarrow> 1 \<le> D \<Longrightarrow>
   \<exists>c. Conv2d_forward (diff (SineGen_init sr h a n v)) (unsqueeze1 x) = Inr c
     \<and> shape (squeeze1 c) = [B, L - 1, D]
     \<and> shape (squeeze1 c) = shape (torch_diff1 x)
     \<and> (\<forall>b<B. \<forall>t<L - 1. \<forall>d<D.
           data (squeeze1 c) [b, t, d] = data x [b, t + 1, d] - data x [b, t, d]
         \<and> data (squeeze1 c) [b, t, d] = data (torch_diff1 x) [b, t, d])"
proof -
  assume a: "shape x = [B, L, D]" "2 \<le> L" "1 \<le> D"
  from diff_conv[OF a, of sr h a n v]
  obtain c where c: "Conv2d_forward (diff (SineGen_init sr h a n v)) (unsqueeze1 x) = Inr c"
    "shape (squeeze1 c) = [B, L - 1, D]"
    "\<And>b t d. t < L - 1 \<Longrightarrow> d < D \<Longrightarrow>
       data (squeeze1 c) [b, t, d] = data x [b, Suc t, d] - data x [b, t, d]"
    by blast
  have "shape (torch_diff1 x) = [B, L - 1, D]"
    using a by (simp add: torch_diff1_def)
  moreover have "data (torch_diff1 x) [b, t, d] = data x [b, Suc t, d] - data x [b, t, d]" for b t d
    by (simp add: torch_diff1_def)
  ultimately show ?thesis using c by auto
qed

text \<open>
  The theorem at the column 5, 7, 4: the differences are 2 and -3.
\<close>

theorem diff_conv_first_differences_witness:
  "shape \<lparr>shape = [1, 3, 1], data = (\<lambda>i. [5, 7, 4] ! (i ! 1))\<rparr> = [1, 3, 1] \<and> (2::nat) \<le> 3 \<and> (1::nat) \<le> 1 \<and>
   (\<exists>c. Conv2d_forward (diff (SineGen_init 44100 8 (1/10) (3/1000) 0))
           (unsqueeze1 \<lparr>shape = [1, 3, 1], data = (\<lambda>i. [5, 7, 4] ! (i ! 1))\<rparr>) = Inr c
     \<and> shape (squeeze1 c) = [1, 2, 1]
     \<and> data (squeeze1 c) [0, 0, 0] = 2 \<and> data (squeeze1 c) [0, 1, 0] = - 3)"
  using diff_conv_first_differences
    [of "\<lparr>shape = [1, 3, 1], data = (\<lambda>i. [5, 7, 4] ! (i ! 1))\<rparr>" 1 3 1 44100 8 "1/10" "3/1000" 0]
  by (auto simp add: numeral_2_eq_2)

section \<open>Broadcasting\<close>











section \<open>The forward pass of the sine generator\<close>







section \<open>The source module\<close>

lemmas Generator_init_eval =
  Generator_init_def Let_def Conv1d_init_def ConvTranspose1d_init_def np_prod_def
  wrap_int64_def


lemma SourceModuleHnNSF_init_sel [simp]:
  "l_sin_gen (SourceModuleHnNSF_init sr hn a n v w0 b0) = SineGen_init sr hn a n v"
  "l_linear (SourceModuleHnNSF_init sr hn a n v w0 b0) = Linear_init (hn + 1) 1 w0 b0"
  "sm_sine_amp (SourceModuleHnNSF_init sr hn a n v w0 b0) = a"
  "sm_noise_std (SourceModuleHnNSF_init sr hn a n v w0 b0) = n"
  by (simp_all add: SourceModuleHnNSF_init_def)







section \<open>The forward pass of the generator and of the wrapper\<close>
















text \<open>
  Claim C10. \<^verbatim>\<open>NsfHiFiGAN.forward\<close> on a mel input of shape (B, T, M) calls the generator on
  the tensor of shape (B, M, T) whose entry at \<open>(b, m, t)\<close> is \<open>2.30259 * mel[b, t, m]\<close>, and
  on the same \<^verbatim>\<open>f0\<close>. A mel input of fewer than three dimensions raises IndexError in
  \<^verbatim>\<open>transpose\<close>.
\<close>

theorem NsfHiFiGAN_forward_mel:
  "(shape mel = [B, T, M] \<longrightarrow>
      (\<exists>mel'. shape mel' = [B, M, T]
         \<and> (\<forall>b t m. data mel' [b, m, t] = data mel [b, t, m] * (230259 / 100000))
         \<and> NsfHiFiGAN_forward run run_block V rng mel f0
             = Generator_forward run run_block (generator V) rng mel' f0))
   \<and> (length (shape mel) < 3 \<longrightarrow>
        NsfHiFiGAN_forward run run_block V rng mel f0 = Inl IndexError)"
proof (intro conjI impI)
  assume sh: "shape mel = [B, T, M]"
  let ?t = "\<lparr>shape = [B, M, T], data = (\<lambda>i. data mel (i[1 := i ! 2, 2 := i ! 1]))\<rparr>"
  let ?m = "tmap (\<lambda>v. v * (230259 / 100000)) ?t"
  have tr: "transpose12 mel = Inr ?t"
    by (simp add: transpose12_def sh)
  have "NsfHiFiGAN_forward run run_block V rng mel f0
      = Generator_forward run run_block (generator V) rng ?m f0"
    by (simp add: NsfHiFiGAN_forward_def tr)
  moreover have "shape ?m = [B, M, T]" by simp
  moreover have "\<forall>b t m. data ?m [b, m, t] = data mel [b, t, m] * (230259 / 100000)"
    by simp
  ultimately show "\<exists>mel'. shape mel' = [B, M, T]
         \<and> (\<forall>b t m. data mel' [b, m, t] = data mel [b, t, m] * (230259 / 100000))
         \<and> NsfHiFiGAN_forward run run_block V rng mel f0
             = Generator_forward run run_block (generator V) rng mel' f0"
    by blast
next
  assume "length (shape mel) < 3"
  then have "transpose12 mel = Inl IndexError"
    by (auto simp add: transpose12_def split: list.splits)
  then show "NsfHiFiGAN_forward run run_block V rng mel f0 = Inl IndexError"
    by (simp add: NsfHiFiGAN_forward_def)
qed

text \<open>
  The theorem at a mel input of two frames and three bins, for any generator and \<^verbatim>\<open>f0\<close>.
\<close>

theorem NsfHiFiGAN_forward_mel_witness:
  "\<forall>run run_block V rng f0.
     shape \<lparr>shape = [1, 2, 3], data = (\<lambda>i. real (i ! 1) + 10 * real (i ! 2))\<rparr> = [1, 2, 3]
   \<and> (\<exists>mel'. shape mel' = [1, 3, 2]
         \<and> data mel' [0, 2, 1] = 21 * (230259 / 100000)
         \<and> NsfHiFiGAN_forward run run_block V rng
              \<lparr>shape = [1, 2, 3], data = (\<lambda>i. real (i ! 1) + 10 * real (i ! 2))\<rparr> f0
             = Generator_forward run run_block (generator V) rng mel' f0)"
proof (intro allI)
  fix run run_block V rng f0
  let ?mel = "\<lparr>shape = [1, 2, 3], data = (\<lambda>i. real (i ! 1) + 10 * real (i ! 2))\<rparr>"
  have sh: "shape ?mel = [1, 2, 3]" by simp
  from NsfHiFiGAN_forward_mel[of ?mel 1 2 3 run run_block V rng f0, THEN conjunct1, rule_format, OF sh]
  obtain mel' where m: "shape mel' = [1, 3, 2]
         \<and> (\<forall>b t m. data mel' [b, m, t] = data ?mel [b, t, m] * (230259 / 100000))
         \<and> NsfHiFiGAN_forward run run_block V rng ?mel f0
             = Generator_forward run run_block (generator V) rng mel' f0"
    by (elim exE) (rule that)
  then have "data mel' [0, 2, 1] = 21 * (230259 / 100000)" by simp
  with sh m show "shape ?mel = [1, 2, 3]
   \<and> (\<exists>mel'. shape mel' = [1, 3, 2]
         \<and> data mel' [0, 2, 1] = 21 * (230259 / 100000)
         \<and> NsfHiFiGAN_forward run run_block V rng ?mel f0
             = Generator_forward run run_block (generator V) rng mel' f0)"
    by blast
qed

section \<open>Weight normalization and the loading of the model\<close>

lemma remove_weight_norm_Inr:
  "remove_weight_norm m = Inr m' \<longleftrightarrow> weight_norm_hook m \<and> m' = m\<lparr>weight_norm_hook := False\<rparr>"
  by (auto simp add: remove_weight_norm_def)

lemma remove_weight_norm_all_Inr:
  "remove_weight_norm_all xs = Inr ys \<Longrightarrow>
     length ys = length xs \<and> (\<forall>l\<in>set xs. weight_norm_hook l)
     \<and> (\<forall>l\<in>set ys. \<not> weight_norm_hook l)"
proof (induction xs arbitrary: ys)
  case Nil
  then show ?case by simp
next
  case (Cons x xs)
  from Cons.prems obtain x' where x: "remove_weight_norm x = Inr x'"
    by (cases "remove_weight_norm x") simp_all
  from Cons.prems x obtain r where r: "remove_weight_norm_all xs = Inr r"
    by (cases "remove_weight_norm_all xs") simp_all
  from Cons.prems x r have ys: "ys = x' # r" by simp
  from x have "weight_norm_hook x" "\<not> weight_norm_hook x'"
    by (auto simp add: remove_weight_norm_Inr)
  with Cons.IH[OF r] ys show ?case by simp
qed

lemma remove_weight_norm_all_total:
  "\<forall>l\<in>set xs. weight_norm_hook l \<Longrightarrow> \<exists>ys. remove_weight_norm_all xs = Inr ys"
proof (induction xs)
  case Nil
  then show ?case by simp
next
  case (Cons x xs)
  then obtain r where "remove_weight_norm_all xs = Inr r" by auto
  with Cons.prems show ?case by (simp add: remove_weight_norm_def)
qed

lemma Generator_remove_weight_norm_Inr:
  assumes "Generator_remove_weight_norm G = Inr G'"
  shows "(\<forall>up\<in>set (ups G'). \<not> weight_norm_hook up)
    \<and> (\<forall>b\<in>set (resblocks G'). \<not> rb_weight_norm b)
    \<and> \<not> weight_norm_hook (conv_pre G') \<and> \<not> weight_norm_hook (conv_post G')
    \<and> noise_convs G' = noise_convs G \<and> training G' = training G
    \<and> m_source G' = m_source G
    \<and> length (ups G') = length (ups G) \<and> length (resblocks G') = length (resblocks G)"
proof -
  from assms obtain u where u: "remove_weight_norm_all (ups G) = Inr u"
    by (cases "remove_weight_norm_all (ups G)") (simp_all add: Generator_remove_weight_norm_def)
  from assms u obtain p where p: "remove_weight_norm (conv_pre G) = Inr p"
    by (cases "remove_weight_norm (conv_pre G)")
       (simp_all add: Generator_remove_weight_norm_def Let_def)
  from assms u p obtain q where q: "remove_weight_norm (conv_post G) = Inr q"
    by (cases "remove_weight_norm (conv_post G)")
       (simp_all add: Generator_remove_weight_norm_def Let_def)
  from assms u p q have G': "G' = G\<lparr>ups := u,
      resblocks := map ResBlock_remove_weight_norm (resblocks G), conv_pre := p, conv_post := q\<rparr>"
    by (simp add: Generator_remove_weight_norm_def Let_def)
  from remove_weight_norm_all_Inr[OF u] p q show ?thesis
    by (simp add: G' remove_weight_norm_Inr ResBlock_remove_weight_norm_def)
qed

lemma Generator_remove_weight_norm_total:
  assumes "\<forall>up\<in>set (ups G). weight_norm_hook up" "weight_norm_hook (conv_pre G)"
    "weight_norm_hook (conv_post G)"
  shows "\<exists>G'. Generator_remove_weight_norm G = Inr G'"
proof -
  from remove_weight_norm_all_total[OF assms(1)]
  obtain u where "remove_weight_norm_all (ups G) = Inr u" ..
  with assms(2,3) show ?thesis
    by (simp add: Generator_remove_weight_norm_def Let_def remove_weight_norm_def)
qed

lemma Conv1d_init_Inr:
  "Conv1d_init i_c o_c k st p = Inr l \<Longrightarrow> \<not> weight_norm_hook l"
  by (auto simp add: Conv1d_init_def split: if_splits)

lemma upsampling_layers_Inr:
  "upsampling_layers hp i stages = Inr (us, ncs) \<Longrightarrow>
     (\<forall>up\<in>set us. weight_norm_hook up) \<and> (\<forall>c\<in>set ncs. \<not> weight_norm_hook c)
     \<and> length us = length stages \<and> length ncs = length stages"
proof (induction hp i stages arbitrary: us ncs rule: upsampling_layers.induct)
  case (1 hp i)
  then show ?case by simp
next
  case (2 hp i u k rest)
  let ?uic = "upsample_initial_channel hp"
  let ?nc = "if i + 1 < length (upsample_rates hp)
             then (let stride_f0 = np_prod (drop (i + 1) (upsample_rates hp))
                   in Conv1d_init 1 (?uic div 2 ^ (i + 1)) (wrap_int64 (stride_f0 * 2)) stride_f0
                        (stride_f0 div 2))
             else Conv1d_init 1 (?uic div 2 ^ (i + 1)) 1 1 0"
  from "2.prems" obtain up where
    up: "ConvTranspose1d_init (?uic div 2 ^ i) (?uic div 2 ^ (i + 1)) k u ((k - u) div 2) = Inr up"
    by (cases "ConvTranspose1d_init (?uic div 2 ^ i) (?uic div 2 ^ (i + 1)) k u ((k - u) div 2)")
       (simp_all add: Let_def)
  from "2.prems" up obtain nc where nc: "?nc = Inr nc"
    by (cases ?nc) (simp_all add: Let_def cong: if_cong)
  from "2.prems" up nc obtain us' ncs' where
    r: "upsampling_layers hp (i + 1) rest = Inr (us', ncs')"
    by (cases "upsampling_layers hp (i + 1) rest") (auto simp add: Let_def cong: if_cong)
  from "2.prems" up nc r have eq: "us = weight_norm up # us'" "ncs = nc # ncs'"
    by (simp_all add: Let_def cong: if_cong)
  have h: "\<not> weight_norm_hook nc"
    using nc by (auto simp add: Let_def Conv1d_init_Inr split: if_splits)
  from "2.IH"[OF refl refl up nc r] h show ?case
    by (simp add: eq weight_norm_def)
qed

lemma Generator_init_hooks:
  assumes "Generator_init hp w0 b0 = Inr G"
  shows "(\<forall>up\<in>set (ups G). weight_norm_hook up)
    \<and> (\<forall>b\<in>set (resblocks G). rb_weight_norm b)
    \<and> weight_norm_hook (conv_pre G) \<and> weight_norm_hook (conv_post G)
    \<and> (\<forall>c\<in>set (noise_convs G). \<not> weight_norm_hook c)
    \<and> training G"
proof -
  let ?uic = "upsample_initial_channel hp"
  from assms obtain pre where pre: "Conv1d_init (num_mels hp) ?uic 7 1 3 = Inr pre"
    by (cases "Conv1d_init (num_mels hp) ?uic 7 1 3") (simp_all add: Generator_init_def Let_def)
  from assms pre obtain us ncs where
    st: "upsampling_layers hp 0 (zip (upsample_rates hp) (upsample_kernel_sizes hp)) = Inr (us, ncs)"
    by (cases "upsampling_layers hp 0 (zip (upsample_rates hp) (upsample_kernel_sizes hp))")
       (auto simp add: Generator_init_def Let_def)
  from assms pre st have ne: "us \<noteq> []"
    by (auto simp add: Generator_init_def Let_def split: if_splits)
  from assms pre st ne obtain post where post: "Conv1d_init (?uic div 2 ^ length us) 1 7 1 3 = Inr post"
    by (cases "Conv1d_init (?uic div 2 ^ length us) 1 7 1 3")
       (simp_all add: Generator_init_def Let_def)
  from assms pre st ne post have
    "ups G = us" "noise_convs G = ncs" "conv_pre G = weight_norm pre"
    "conv_post G = weight_norm post" "training G"
    "\<forall>b\<in>set (resblocks G). rb_weight_norm b"
    by (auto simp add: Generator_init_def Let_def ResBlock_init_def)
  with upsampling_layers_Inr[OF st] show ?thesis
    by (simp add: weight_norm_def)
qed

lemma load_state_dict_Inr:
  assumes "load_state_dict G sd = Inr G'"
  shows "ups G' = ups G \<and> resblocks G' = resblocks G \<and> conv_pre G' = conv_pre G
    \<and> conv_post G' = conv_post G \<and> noise_convs G' = noise_convs G \<and> training G' = training G"
  using assms by (auto simp add: load_state_dict_def Let_def split: if_splits)

lemma load_model_Inr:
  assumes "load_model e model_path dev = Inr (G, hp)"
  shows "\<exists>G0 cp sd G1.
        read_config e (path_join (fst (path_split model_path)) ''config.json'') = Inr hp
      \<and> Generator_init hp (init_weight e) (init_bias e) = Inr G0
      \<and> torch_load e model_path = Inr cp \<and> cp ''generator'' = Some sd
      \<and> load_state_dict G0 sd = Inr G1
      \<and> Generator_remove_weight_norm (eval_mode G1) = Inr G"
proof -
  let ?cf = "path_join (fst (path_split model_path)) ''config.json''"
  from assms obtain hp' where a: "read_config e ?cf = Inr hp'"
    by (cases "read_config e ?cf") (simp_all add: load_model_def Let_def)
  from assms a obtain G0 where b: "Generator_init hp' (init_weight e) (init_bias e) = Inr G0"
    by (cases "Generator_init hp' (init_weight e) (init_bias e)")
       (simp_all add: load_model_def Let_def)
  from assms a b obtain cp where c: "torch_load e model_path = Inr cp"
    by (cases "torch_load e model_path") (simp_all add: load_model_def Let_def)
  from assms a b c obtain sd where d: "cp ''generator'' = Some sd"
    by (cases "cp ''generator''") (simp_all add: load_model_def Let_def)
  from assms a b c d obtain G1 where f: "load_state_dict G0 sd = Inr G1"
    by (cases "load_state_dict G0 sd") (simp_all add: load_model_def Let_def)
  from assms a b c d f obtain G2 where g: "Generator_remove_weight_norm (eval_mode G1) = Inr G2"
    by (cases "Generator_remove_weight_norm (eval_mode G1)")
       (simp_all add: load_model_def Let_def)
  from assms a b c d f g have "G = G2" "hp = hp'"
    by (simp_all add: load_model_def Let_def)
  with a b c d f g show ?thesis by blast
qed

lemma load_model_no_hooks:
  assumes "load_model e model_path dev = Inr (G, hp)"
  shows "\<not> training G
     \<and> (\<forall>up\<in>set (ups G). \<not> weight_norm_hook up)
     \<and> (\<forall>b\<in>set (resblocks G). \<not> rb_weight_norm b)
     \<and> \<not> weight_norm_hook (conv_pre G) \<and> \<not> weight_norm_hook (conv_post G)
     \<and> (\<forall>c\<in>set (noise_convs G). \<not> weight_norm_hook c)"
proof -
  from load_model_Inr[OF assms] obtain G0 sd G1 where
    b: "Generator_init hp (init_weight e) (init_bias e) = Inr G0"
    and f: "load_state_dict G0 sd = Inr G1"
    and g: "Generator_remove_weight_norm (eval_mode G1) = Inr G"
    by blast
  note i = Generator_init_hooks[OF b]
  note l = load_state_dict_Inr[OF f]
  note r = Generator_remove_weight_norm_Inr[OF g]
  from i l r show ?thesis by (simp add: eval_mode_def)
qed

lemma export_calls:
  assumes "export e path w = (w', r)"
  shows "calls w' = calls w
     \<or> (\<exists>hps vocoder mel f0.
           NsfHiFiGAN_init e hps (Some (if cuda_is_available e then ''cuda'' else ''cpu''))
             = Inr vocoder
         \<and> calls w' = calls w @ [Torch_onnx_export (export_args vocoder mel f0 path)])"
proof (cases "set_hparams e (argv w)")
  case (Inl x)
  with assms show ?thesis by (auto simp add: export_def)
next
  case (Inr hps)
  note h = this
  let ?d = "if cuda_is_available e then ''cuda'' else ''cpu''"
  show ?thesis
  proof (cases "NsfHiFiGAN_init e hps (Some ?d)")
    case (Inl x)
    with assms h show ?thesis by (auto simp add: export_def Let_def)
  next
    case (Inr vocoder)
    let ?c = "export_args vocoder \<lparr>shape = [1, 10, 128], data = rand_mel e\<rparr>
                \<lparr>shape = [1, 10], data = rand_f0 e\<rparr> path"
    from assms h Inr have "calls w' = calls w @ [Torch_onnx_export ?c]"
      by (cases "torch_onnx_export e ?c") (auto simp add: export_def Let_def)
    with Inr show ?thesis by blast
  qed
qed

lemma NsfHiFiGAN_init_Inr:
  assumes "NsfHiFiGAN_init e hps d = Inr V"
  shows "\<exists>ckpt dev hp. load_model e ckpt dev = Inr (generator V, hp)"
proof -
  let ?dev = "case d of None \<Rightarrow> if cuda_is_available e then ''cuda'' else ''cpu'' | Some x \<Rightarrow> x"
  from assms obtain ckpt where k: "hps ''vocoder_ckpt'' = Some ckpt"
    by (cases "hps ''vocoder_ckpt''") (simp_all add: NsfHiFiGAN_init_def Let_def)
  from assms k obtain G hp where l: "load_model e ckpt ?dev = Inr (G, hp)"
    by (cases "load_model e ckpt ?dev") (auto simp add: NsfHiFiGAN_init_def Let_def)
  from assms k l have "generator V = G"
    by (auto simp add: NsfHiFiGAN_init_def Let_def)
  with l show ?thesis by blast
qed

text \<open>
  Claim C6. Whenever \<^verbatim>\<open>load_model\<close> returns a generator, it was built by
  \<^verbatim>\<open>Generator.__init__\<close> with the weight-norm hook on every upsampling layer, on
  \<^verbatim>\<open>conv_pre\<close> and on \<^verbatim>\<open>conv_post\<close>, then received the checkpoint's state dict, was
  switched to evaluation mode and went through \<^verbatim>\<open>Generator.remove_weight_norm\<close>; the
  returned generator is in evaluation mode and no upsampling layer, residual block,
  \<^verbatim>\<open>conv_pre\<close>, \<^verbatim>\<open>conv_post\<close> or noise convolution of it carries the reparameterization.
  The model that \<^verbatim>\<open>export\<close> hands to \<^verbatim>\<open>torch.onnx.export\<close> holds such a
  generator.
\<close>

theorem load_model_removes_weight_norm:
  "(\<forall>G hp. load_model e model_path dev = Inr (G, hp) \<longrightarrow>
      (\<exists>G0 cp sd G1.
          Generator_init hp (init_weight e) (init_bias e) = Inr G0
        \<and> (\<forall>up\<in>set (ups G0). weight_norm_hook up)
        \<and> (\<forall>b\<in>set (resblocks G0). rb_weight_norm b)
        \<and> weight_norm_hook (conv_pre G0) \<and> weight_norm_hook (conv_post G0)
        \<and> torch_load e model_path = Inr cp \<and> cp ''generator'' = Some sd
        \<and> load_state_dict G0 sd = Inr G1
        \<and> Generator_remove_weight_norm (eval_mode G1) = Inr G
        \<and> length (ups G) = length (ups G0)
        \<and> length (resblocks G) = length (resblocks G0))
    \<and> \<not> training G
    \<and> (\<forall>up\<in>set (ups G). \<not> weight_norm_hook up)
    \<and> (\<forall>b\<in>set (resblocks G). \<not> rb_weight_norm b)
    \<and> \<not> weight_norm_hook (conv_pre G) \<and> \<not> weight_norm_hook (conv_post G)
    \<and> (\<forall>c\<in>set (noise_convs G). \<not> weight_norm_hook c))
   \<and> (\<forall>path w w' r.
        export e path w = (w', r) \<longrightarrow>
          calls w' = calls w
        \<or> (\<exists>vocoder mel f0.
              calls w' = calls w @ [Torch_onnx_export (export_args vocoder mel f0 path)]
            \<and> (\<forall>up\<in>set (ups (generator vocoder)). \<not> weight_norm_hook up)
            \<and> (\<forall>b\<in>set (resblocks (generator vocoder)). \<not> rb_weight_norm b)
            \<and> \<not> weight_norm_hook (conv_pre (generator vocoder))
            \<and> \<not> weight_norm_hook (conv_post (generator vocoder))
            \<and> (\<forall>c\<in>set (noise_convs (generator vocoder)). \<not> weight_norm_hook c)))"
proof (intro conjI allI impI)
  fix G hp
  assume ret: "load_model e model_path dev = Inr (G, hp)"
  from load_model_Inr[OF ret] obtain G0 cp sd G1 where
    b: "Generator_init hp (init_weight e) (init_bias e) = Inr G0"
    and c: "torch_load e model_path = Inr cp" and d: "cp ''generator'' = Some sd"
    and f: "load_state_dict G0 sd = Inr G1"
    and g: "Generator_remove_weight_norm (eval_mode G1) = Inr G"
    by blast
  note i = Generator_init_hooks[OF b]
  note l = load_state_dict_Inr[OF f]
  note r = Generator_remove_weight_norm_Inr[OF g]
  have len: "length (ups G) = length (ups G0)" "length (resblocks G) = length (resblocks G0)"
    using l r by (simp_all add: eval_mode_def)
  show "\<exists>G0 cp sd G1.
          Generator_init hp (init_weight e) (init_bias e) = Inr G0
        \<and> (\<forall>up\<in>set (ups G0). weight_norm_hook up)
        \<and> (\<forall>b\<in>set (resblocks G0). rb_weight_norm b)
        \<and> weight_norm_hook (conv_pre G0) \<and> weight_norm_hook (conv_post G0)
        \<and> torch_load e model_path = Inr cp \<and> cp ''generator'' = Some sd
        \<and> load_state_dict G0 sd = Inr G1
        \<and> Generator_remove_weight_norm (eval_mode G1) = Inr G
        \<and> length (ups G) = length (ups G0)
        \<and> length (resblocks G) = length (resblocks G0)"
    apply (rule exI[of _ G0], rule exI[of _ cp], rule exI[of _ sd], rule exI[of _ G1])
    using b c d f g len i by simp
  note n = load_model_no_hooks[OF ret]
  from n show "\<not> training G" by simp
  from n show "\<forall>up\<in>set (ups G). \<not> weight_norm_hook up" by simp
  from n show "\<forall>b\<in>set (resblocks G). \<not> rb_weight_norm b" by simp
  from n show "\<not> weight_norm_hook (conv_pre G)" by simp
  from n show "\<not> weight_norm_hook (conv_post G)" by simp
  from n show "\<forall>c\<in>set (noise_convs G). \<not> weight_norm_hook c" by simp
next
  fix path w w' r
  assume ex: "export e path w = (w', r)"
  from export_calls[OF ex] consider "calls w' = calls w"
    | hps vocoder mel f0 where
      "NsfHiFiGAN_init e hps (Some (if cuda_is_available e then ''cuda'' else ''cpu'')) = Inr vocoder"
      "calls w' = calls w @ [Torch_onnx_export (export_args vocoder mel f0 path)]"
    by blast
  then show "calls w' = calls w
        \<or> (\<exists>vocoder mel f0.
              calls w' = calls w @ [Torch_onnx_export (export_args vocoder mel f0 path)]
            \<and> (\<forall>up\<in>set (ups (generator vocoder)). \<not> weight_norm_hook up)
            \<and> (\<forall>b\<in>set (resblocks (generator vocoder)). \<not> rb_weight_norm b)
            \<and> \<not> weight_norm_hook (conv_pre (generator vocoder))
            \<and> \<not> weight_norm_hook (conv_post (generator vocoder))
            \<and> (\<forall>c\<in>set (noise_convs (generator vocoder)). \<not> weight_norm_hook c))"
  proof cases
    case 1
    then show ?thesis by simp
  next
    case 2
    from NsfHiFiGAN_init_Inr[OF 2(1)] obtain ckpt d hp where
      "load_model e ckpt d = Inr (generator vocoder, hp)" by blast
    note n = load_model_no_hooks[OF this]
    have "\<exists>vocoder mel f0.
              calls w' = calls w @ [Torch_onnx_export (export_args vocoder mel f0 path)]
            \<and> (\<forall>up\<in>set (ups (generator vocoder)). \<not> weight_norm_hook up)
            \<and> (\<forall>b\<in>set (resblocks (generator vocoder)). \<not> rb_weight_norm b)
            \<and> \<not> weight_norm_hook (conv_pre (generator vocoder))
            \<and> \<not> weight_norm_hook (conv_post (generator vocoder))
            \<and> (\<forall>c\<in>set (noise_convs (generator vocoder)). \<not> weight_norm_hook c)"
      apply (rule exI[of _ vocoder], rule exI[of _ mel], rule exI[of _ f0])
      using 2(2) n by simp
    then show ?thesis ..
  qed
qed

text \<open>
  The theorem at a configuration with one upsampling stage and one residual block, read
  from \<^verbatim>\<open>ckpt/config.json\<close> beside the checkpoint.
\<close>

theorem load_model_removes_weight_norm_witness:
  "\<exists>G hp.
     load_model
       \<lparr>cuda_is_available = False,
        set_hparams = (\<lambda>a. Inr (\<lambda>k. if k = ''vocoder_ckpt'' then Some ''ckpt/model.ckpt'' else None)),
        read_config = (\<lambda>p. if p = ''ckpt/config.json''
           then Inr \<lparr>resblock = ''1'', resblock_kernel_sizes = [3],
                     resblock_dilation_sizes = [[1, 3, 5]], upsample_rates = [2],
                     upsample_kernel_sizes = [4], upsample_initial_channel = 4,
                     num_mels = 2, hp_sampling_rate = 4\<rparr>
           else Inl FileNotFoundError),
        torch_load = (\<lambda>p. Inr (\<lambda>k. if k = ''generator''
           then Some \<lparr>sd_l_linear_weight = None, sd_l_linear_bias = None\<rparr> else None)),
        init_weight = (\<lambda>i. 1), init_bias = (\<lambda>i. 0),
        rand_mel = (\<lambda>i. 0), rand_f0 = (\<lambda>i. 0),
        torch_onnx_export = (\<lambda>c. Inl RuntimeError),
        onnxsim_simplify = (\<lambda>m b. Inr (m, True)),
        onnx_save = (\<lambda>m p. Inr ())\<rparr>
       ''ckpt/model.ckpt'' ''cpu'' = Inr (G, hp)
   \<and> \<not> training G
   \<and> length (ups G) = 1 \<and> \<not> weight_norm_hook (ups G ! 0)
   \<and> length (resblocks G) = 1 \<and> \<not> rb_weight_norm (resblocks G ! 0)
   \<and> \<not> weight_norm_hook (conv_pre G) \<and> \<not> weight_norm_hook (conv_post G)"
proof -
  let ?hp = "\<lparr>resblock = ''1'', resblock_kernel_sizes = [3],
                     resblock_dilation_sizes = [[1, 3, 5]], upsample_rates = [2],
                     upsample_kernel_sizes = [4], upsample_initial_channel = 4,
                     num_mels = 2, hp_sampling_rate = 4\<rparr>"
  let ?sd = "\<lparr>sd_l_linear_weight = None, sd_l_linear_bias = None\<rparr>"
  let ?cp = "\<lambda>k. if k = ''generator'' then Some ?sd else None"
  let ?e = "\<lparr>cuda_is_available = False,
        set_hparams = (\<lambda>a. Inr (\<lambda>k. if k = ''vocoder_ckpt'' then Some ''ckpt/model.ckpt'' else None)),
        read_config = (\<lambda>p. if p = ''ckpt/config.json'' then Inr ?hp else Inl FileNotFoundError),
        torch_load = (\<lambda>p. Inr ?cp),
        init_weight = (\<lambda>i. 1), init_bias = (\<lambda>i. 0),
        rand_mel = (\<lambda>i. 0), rand_f0 = (\<lambda>i. 0),
        torch_onnx_export = (\<lambda>c. Inl RuntimeError),
        onnxsim_simplify = (\<lambda>m b. Inr (m, True)),
        onnx_save = (\<lambda>m p. Inr ())\<rparr>"
  note inst = load_model_removes_weight_norm[of ?e "''ckpt/model.ckpt''" "''cpu''"]
  have path: "path_join (fst (path_split ''ckpt/model.ckpt'')) ''config.json'' = ''ckpt/config.json''"
    by (simp add: path_join_def path_split_def Let_def)
  have G0: "\<exists>G0. Generator_init ?hp (\<lambda>i. 1) (\<lambda>i. 0) = Inr G0"
    by (simp add: Generator_init_eval)
  then obtain G0 where G0: "Generator_init ?hp (\<lambda>i. 1) (\<lambda>i. 0) = Inr G0" ..
  note h0 = Generator_init_hooks[OF G0]
  have G1: "load_state_dict G0 ?sd = Inr G0"
    by (simp add: load_state_dict_def Let_def)
  from Generator_remove_weight_norm_total[of "eval_mode G0"] h0
  obtain G where G2: "Generator_remove_weight_norm (eval_mode G0) = Inr G"
    by (auto simp add: eval_mode_def)
  have G: "load_model ?e ''ckpt/model.ckpt'' ''cpu'' = Inr (G, ?hp)"
    unfolding load_model_def path Let_def by (simp add: G0 G1 G2)
  note facts = inst[THEN conjunct1, rule_format, OF G]
  from facts G0 have len: "length (ups G) = length (ups G0)" "length (resblocks G) = length (resblocks G0)"
    by auto
  from G0 have "length (ups G0) = 1" "length (resblocks G0) = 1"
    by (auto simp add: Generator_init_eval)
  with len have l1: "length (ups G) = 1" "length (resblocks G) = 1" by simp_all
  then have mem: "ups G ! 0 \<in> set (ups G)" "resblocks G ! 0 \<in> set (resblocks G)"
    by simp_all
  from facts mem have "\<not> weight_norm_hook (ups G ! 0)" "\<not> rb_weight_norm (resblocks G ! 0)"
    "\<not> training G" "\<not> weight_norm_hook (conv_pre G)" "\<not> weight_norm_hook (conv_post G)"
    by blast+
  with G l1 show ?thesis by blast
qed

section \<open>The export script\<close>

lemma fix_output_Inr:
  "graph_input model = input0 # ins \<Longrightarrow> graph_output model = output0 # outs
   \<Longrightarrow> vi_shape input0 = d0 # ds \<Longrightarrow>
   fix_output model = Inr (model\<lparr>graph_output :=
       \<lparr>vi_name = vi_name output0, vi_elem_type = FLOAT,
        vi_shape = [Dim_value (dim_value d0), Dim_param ''n_samples'']\<rparr> # outs\<rparr>)"
  by (simp add: fix_output_def make_tensor_value_info_def Let_def)

lemma simplify_reached:
  assumes "files w src = Some model" "fix_output model = Inr model1"
    "onnxsim_simplify e model1 True = Inr (model2, check)"
  shows "simplify e src target w =
     (if \<not> check
      then (w\<lparr>calls := calls w @ [Onnx_load src, Onnxsim_simplify model1 True]\<rparr>,
            Inl (AssertionError ''Simplified ONNX model could not be validated''))
      else (case onnx_save e model2 target of
              Inl x \<Rightarrow>
                (w\<lparr>calls := calls w @ [Onnx_load src, Onnxsim_simplify model1 True,
                                       Onnx_save model2 target]\<rparr>, Inl x)
            | Inr u \<Rightarrow>
                (w\<lparr>files := (files w)(target \<mapsto> model2),
                   calls := calls w @ [Onnx_load src, Onnxsim_simplify model1 True,
                                       Onnx_save model2 target]\<rparr>, Inr ())))"
  using assms by (simp add: simplify_def Let_def split: sum.splits)

lemma simplify_cases:
  "(\<exists>model model1 model2 check.
       files w src = Some model \<and> fix_output model = Inr model1
     \<and> onnxsim_simplify e model1 True = Inr (model2, check))
   \<or> (\<exists>cs x. simplify e src target w = (w\<lparr>calls := calls w @ cs\<rparr>, Inl x)
          \<and> (\<forall>m p. Onnx_save m p \<notin> set cs)
          \<and> (\<forall>model. files w src = Some model \<longrightarrow>
                (\<forall>model1. fix_output model = Inr model1 \<longrightarrow>
                   onnxsim_simplify e model1 True = Inl x)))"
proof (cases "files w src")
  case None
  then have "simplify e src target w = (w\<lparr>calls := calls w @ [Onnx_load src]\<rparr>, Inl FileNotFoundError)"
    by (simp add: simplify_def Let_def)
  with None show ?thesis
    by (intro disjI2 exI[of _ "[Onnx_load src]"] exI[of _ FileNotFoundError]) simp
next
  case (Some model)
  note m = this
  show ?thesis
  proof (cases "fix_output model")
    case (Inl x)
    with m have "simplify e src target w = (w\<lparr>calls := calls w @ [Onnx_load src]\<rparr>, Inl x)"
      by (simp add: simplify_def Let_def)
    with m Inl show ?thesis
      by (intro disjI2 exI[of _ "[Onnx_load src]"] exI[of _ x]) simp
  next
    case (Inr model1)
    note f = this
    show ?thesis
    proof (cases "onnxsim_simplify e model1 True")
      case (Inl x)
      with m f have "simplify e src target w
          = (w\<lparr>calls := calls w @ [Onnx_load src, Onnxsim_simplify model1 True]\<rparr>, Inl x)"
        by (simp add: simplify_def Let_def)
      with m f Inl show ?thesis
        by (intro disjI2 exI[of _ "[Onnx_load src, Onnxsim_simplify model1 True]"] exI[of _ x])
           simp
    next
      case (Inr p)
      then obtain model2 check where "onnxsim_simplify e model1 True = Inr (model2, check)"
        by (cases p) simp
      with m f show ?thesis by blast
    qed
  qed
qed

lemma simplify_calls:
  "\<exists>rest. calls (fst (simplify e src target w)) = calls w @ Onnx_load src # rest
     \<and> (\<forall>c. Torch_onnx_export c \<notin> set rest)"
proof -
  from simplify_cases[of w src e target]
  consider model model1 model2 check where
      "files w src = Some model" "fix_output model = Inr model1"
      "onnxsim_simplify e model1 True = Inr (model2, check)"
    | "files w src = None"
    | model x where "files w src = Some model" "fix_output model = Inl x"
    | model model1 x where "files w src = Some model" "fix_output model = Inr model1"
      "onnxsim_simplify e model1 True = Inl x"
    by (cases "files w src"; cases "fix_output (the (files w src))";
        cases "onnxsim_simplify e (projr (fix_output (the (files w src)))) True") auto
  then show ?thesis
  proof cases
    case 1
    from simplify_reached[OF 1, of target] show ?thesis
      by (cases check; cases "onnx_save e model2 target") simp_all
  next
    case 2
    then show ?thesis by (simp add: simplify_def Let_def)
  next
    case 3
    then show ?thesis by (simp add: simplify_def Let_def)
  next
    case 4
    then show ?thesis by (simp add: simplify_def Let_def)
  qed
qed

lemma simplify_Inr:
  assumes "simplify e src target w = (w', Inr u)"
  shows "\<exists>m m1 m2. files w src = Some m \<and> fix_output m = Inr m1
     \<and> onnxsim_simplify e m1 True = Inr (m2, True)
     \<and> onnx_save e m2 target = Inr ()
     \<and> w' = w\<lparr>files := (files w)(target \<mapsto> m2),
              calls := calls w @ [Onnx_load src, Onnxsim_simplify m1 True,
                                  Onnx_save m2 target]\<rparr>"
proof -
  from simplify_cases[of w src e target]
  consider model model1 model2 check where
      "files w src = Some model" "fix_output model = Inr model1"
      "onnxsim_simplify e model1 True = Inr (model2, check)"
    | cs x where "simplify e src target w = (w\<lparr>calls := calls w @ cs\<rparr>, Inl x)"
    by blast
  then show ?thesis
  proof cases
    case 1
    from simplify_reached[OF 1, of target] assms 1 show ?thesis
      by (cases check; cases "onnx_save e model2 target") auto
  next
    case 2
    with assms show ?thesis by simp
  qed
qed

lemma export_cases:
  fixes e path w
  defines "dv \<equiv> (if cuda_is_available e then ''cuda'' else ''cpu'')"
  shows "(\<exists>x. export e path w = (w, Inl x))
   \<or> (\<exists>hps vocoder.
         set_hparams e (argv w) = Inr hps \<and> NsfHiFiGAN_init e hps (Some dv) = Inr vocoder
       \<and> (let c = export_args vocoder \<lparr>shape = [1, 10, 128], data = rand_mel e\<rparr>
                     \<lparr>shape = [1, 10], data = rand_f0 e\<rparr> path
          in (\<exists>x. torch_onnx_export e c = Inl x
                \<and> export e path w = (w\<lparr>calls := calls w @ [Torch_onnx_export c]\<rparr>, Inl x))
           \<or> (\<exists>m. torch_onnx_export e c = Inr m
                \<and> export e path w
                    = (w\<lparr>files := (files w)(path \<mapsto> m),
                         calls := calls w @ [Torch_onnx_export c]\<rparr>, Inr ()))))"
proof (cases "set_hparams e (argv w)")
  case (Inl x)
  then show ?thesis by (simp add: export_def)
next
  case (Inr hps)
  note h = this
  show ?thesis
  proof (cases "NsfHiFiGAN_init e hps (Some dv)")
    case (Inl x)
    with h show ?thesis by (simp add: export_def dv_def Let_def)
  next
    case (Inr vocoder)
    let ?c = "export_args vocoder \<lparr>shape = [1, 10, 128], data = rand_mel e\<rparr>
                     \<lparr>shape = [1, 10], data = rand_f0 e\<rparr> path"
    show ?thesis
    proof (cases "torch_onnx_export e ?c")
      case (Inl x)
      with h Inr have "export e path w = (w\<lparr>calls := calls w @ [Torch_onnx_export ?c]\<rparr>, Inl x)"
        by (simp add: export_def dv_def Let_def)
      with h Inr Inl show ?thesis by (simp add: Let_def)
    next
      case (Inr m)
      with h \<open>NsfHiFiGAN_init e hps (Some dv) = Inr vocoder\<close>
      have "export e path w = (w\<lparr>files := (files w)(path \<mapsto> m),
                         calls := calls w @ [Torch_onnx_export ?c]\<rparr>, Inr ())"
        by (simp add: export_def dv_def Let_def)
      with h \<open>NsfHiFiGAN_init e hps (Some dv) = Inr vocoder\<close> Inr show ?thesis
        by (simp add: Let_def)
    qed
  qed
qed

lemma main_unfold:
  "main e w = (case export e ''onnx/assets/nsf_hifigan.onnx''
                      (w\<lparr>argv := [''inference/svs/ds_e2e.py'', ''--config'',
                                   ''configs/midi/cascade/opencs/test.yaml'']\<rparr>) of
                 (w1, Inl x) \<Rightarrow> (w1, Inl x)
               | (w1, Inr u) \<Rightarrow>
                   simplify e ''onnx/assets/nsf_hifigan.onnx'' ''onnx/assets/nsf_hifigan.onnx'' w1)"
  unfolding main_def Let_def ..

lemma main_cases:
  "(\<exists>x. main e w = (w\<lparr>argv := [''inference/svs/ds_e2e.py'', ''--config'',
                                   ''configs/midi/cascade/opencs/test.yaml'']\<rparr>, Inl x))
   \<or> (\<exists>vocoder mel f0. shape mel = [1, 10, 128] \<and> shape f0 = [1, 10]
        \<and> ((\<exists>x. torch_onnx_export e (export_args vocoder mel f0 ''onnx/assets/nsf_hifigan.onnx'') = Inl x
               \<and> main e w = (w\<lparr>argv := [''inference/svs/ds_e2e.py'', ''--config'',
                                   ''configs/midi/cascade/opencs/test.yaml''],
                      calls := calls w @ [Torch_onnx_export
                         (export_args vocoder mel f0 ''onnx/assets/nsf_hifigan.onnx'')]\<rparr>, Inl x))
           \<or> (\<exists>m. torch_onnx_export e (export_args vocoder mel f0 ''onnx/assets/nsf_hifigan.onnx'') = Inr m
               \<and> main e w = simplify e ''onnx/assets/nsf_hifigan.onnx'' ''onnx/assets/nsf_hifigan.onnx''
                    (w\<lparr>argv := [''inference/svs/ds_e2e.py'', ''--config'',
                                   ''configs/midi/cascade/opencs/test.yaml''],
                       files := (files w)(''onnx/assets/nsf_hifigan.onnx'' \<mapsto> m),
                       calls := calls w @ [Torch_onnx_export
                         (export_args vocoder mel f0 ''onnx/assets/nsf_hifigan.onnx'')]\<rparr>))))"
proof -
  let ?p = "''onnx/assets/nsf_hifigan.onnx''"
  let ?w0 = "w\<lparr>argv := [''inference/svs/ds_e2e.py'', ''--config'',
                                   ''configs/midi/cascade/opencs/test.yaml'']\<rparr>"
  let ?mel = "\<lparr>shape = [1, 10, 128], data = rand_mel e\<rparr>"
  let ?f0 = "\<lparr>shape = [1, 10], data = rand_f0 e\<rparr>"
  note m = main_unfold[of e w]
  from export_cases[of e ?p ?w0]
  consider x where "export e ?p ?w0 = (?w0, Inl x)"
    | vocoder x where "torch_onnx_export e (export_args vocoder ?mel ?f0 ?p) = Inl x"
        "export e ?p ?w0 = (?w0\<lparr>calls := calls ?w0 @ [Torch_onnx_export (export_args vocoder ?mel ?f0 ?p)]\<rparr>, Inl x)"
    | vocoder m where "torch_onnx_export e (export_args vocoder ?mel ?f0 ?p) = Inr m"
        "export e ?p ?w0 = (?w0\<lparr>files := (files ?w0)(?p \<mapsto> m),
             calls := calls ?w0 @ [Torch_onnx_export (export_args vocoder ?mel ?f0 ?p)]\<rparr>, Inr ())"
    unfolding Let_def by blast
  then show ?thesis
  proof cases
    case 1
    then have "main e w = (?w0, Inl x)" unfolding m by simp
    then show ?thesis by blast
  next
    case 2
    have "main e w = (?w0\<lparr>calls := calls w @ [Torch_onnx_export (export_args vocoder ?mel ?f0 ?p)]\<rparr>, Inl x)"
      unfolding m 2(2) by simp
    with 2(1) have "shape ?mel = [1, 10, 128] \<and> shape ?f0 = [1, 10]
        \<and> (\<exists>x. torch_onnx_export e (export_args vocoder ?mel ?f0 ?p) = Inl x
               \<and> main e w = (?w0\<lparr>calls := calls w @ [Torch_onnx_export (export_args vocoder ?mel ?f0 ?p)]\<rparr>, Inl x))"
      by simp
    then show ?thesis by blast
  next
    case 3
    have "main e w = simplify e ?p ?p (?w0\<lparr>files := (files w)(?p \<mapsto> m),
             calls := calls w @ [Torch_onnx_export (export_args vocoder ?mel ?f0 ?p)]\<rparr>)"
      unfolding m 3(2) by simp
    with 3(1) have "shape ?mel = [1, 10, 128] \<and> shape ?f0 = [1, 10]
        \<and> (\<exists>m. torch_onnx_export e (export_args vocoder ?mel ?f0 ?p) = Inr m
               \<and> main e w = simplify e ?p ?p
                    (?w0\<lparr>files := (files w)(?p \<mapsto> m),
                        calls := calls w @ [Torch_onnx_export (export_args vocoder ?mel ?f0 ?p)]\<rparr>))"
      by simp
    then show ?thesis by blast
  qed
qed

text \<open>
  Claim C7. \<^verbatim>\<open>simplify\<close> replaces the first output of the loaded graph by a value info of
  the same name, of element type FLOAT and of shape (first dimension value of the first
  input, \<^verbatim>\<open>'n_samples'\<close>), and runs the simplifier on the result with
  \<^verbatim>\<open>include_subgraph=True\<close>. When the check of the simplifier fails, \<^verbatim>\<open>simplify\<close> raises an
  assertion failure with the message \<^verbatim>\<open>Simplified ONNX model could not be validated\<close>,
  \<^verbatim>\<open>onnx.save\<close> is not called and the files are unchanged; when it succeeds, \<^verbatim>\<open>onnx.save\<close>
  is called on the simplified model and the target, and the target holds that model
  unless the save itself raises. For every outcome of \<^verbatim>\<open>simplify\<close>: a save to the target
  is among its calls exactly when the simplifier was reached and its check succeeded; it
  returns normally exactly when, moreover, the save succeeded, and then the target holds
  the simplified model; otherwise no file is written.
\<close>

theorem simplify_validates:
  "(\<forall>model input0 ins output0 outs d0 ds.
       graph_input model = input0 # ins \<and> graph_output model = output0 # outs
     \<and> vi_shape input0 = d0 # ds \<longrightarrow>
       fix_output model = Inr (model\<lparr>graph_output :=
         \<lparr>vi_name = vi_name output0, vi_elem_type = FLOAT,
          vi_shape = [Dim_value (dim_value d0), Dim_param ''n_samples'']\<rparr> # outs\<rparr>))
   \<and> (\<forall>model model1 model2 check.
       files w src = Some model \<and> fix_output model = Inr model1
     \<and> onnxsim_simplify e model1 True = Inr (model2, check) \<longrightarrow>
         (\<not> check \<longrightarrow>
            snd (simplify e src target w)
              = Inl (AssertionError ''Simplified ONNX model could not be validated'')
          \<and> files (fst (simplify e src target w)) = files w
          \<and> calls (fst (simplify e src target w))
              = calls w @ [Onnx_load src, Onnxsim_simplify model1 True])
       \<and> (check \<longrightarrow>
            calls (fst (simplify e src target w))
              = calls w @ [Onnx_load src, Onnxsim_simplify model1 True,
                           Onnx_save model2 target]
          \<and> (onnx_save e model2 target = Inr () \<longrightarrow>
                snd (simplify e src target w) = Inr ()
              \<and> files (fst (simplify e src target w)) = (files w)(target \<mapsto> model2))
          \<and> (\<forall>x. onnx_save e model2 target = Inl x \<longrightarrow>
                snd (simplify e src target w) = Inl x
              \<and> files (fst (simplify e src target w)) = files w)))
   \<and> (\<forall>w' r. simplify e src target w = (w', r) \<longrightarrow>
         ((\<exists>m. Onnx_save m target \<in> set (drop (length (calls w)) (calls w')))
            \<longleftrightarrow> (\<exists>model model1 model2.
                files w src = Some model \<and> fix_output model = Inr model1
              \<and> onnxsim_simplify e model1 True = Inr (model2, True)))
       \<and> (r = Inr () \<longleftrightarrow>
            (\<exists>model model1 model2.
                files w src = Some model \<and> fix_output model = Inr model1
              \<and> onnxsim_simplify e model1 True = Inr (model2, True)
              \<and> onnx_save e model2 target = Inr ()
              \<and> files w' = (files w)(target \<mapsto> model2)))
       \<and> (r \<noteq> Inr () \<longrightarrow> files w' = files w))"
proof (intro conjI allI impI)
  fix model :: onnx_model and input0 ins and output0 :: value_info and outs d0 ds
  assume "graph_input model = input0 # ins \<and> graph_output model = output0 # outs
     \<and> vi_shape input0 = d0 # ds"
  then show "fix_output model = Inr (model\<lparr>graph_output :=
         \<lparr>vi_name = vi_name output0, vi_elem_type = FLOAT,
          vi_shape = [Dim_value (dim_value d0), Dim_param ''n_samples'']\<rparr> # outs\<rparr>)"
    using fix_output_Inr by blast
next
  fix model model1 model2 :: onnx_model and check
  assume a: "files w src = Some model \<and> fix_output model = Inr model1
     \<and> onnxsim_simplify e model1 True = Inr (model2, check)"
  then have s: "simplify e src target w =
     (if \<not> check
      then (w\<lparr>calls := calls w @ [Onnx_load src, Onnxsim_simplify model1 True]\<rparr>,
            Inl (AssertionError ''Simplified ONNX model could not be validated''))
      else (case onnx_save e model2 target of
              Inl x \<Rightarrow>
                (w\<lparr>calls := calls w @ [Onnx_load src, Onnxsim_simplify model1 True,
                                       Onnx_save model2 target]\<rparr>, Inl x)
            | Inr u \<Rightarrow>
                (w\<lparr>files := (files w)(target \<mapsto> model2),
                   calls := calls w @ [Onnx_load src, Onnxsim_simplify model1 True,
                                       Onnx_save model2 target]\<rparr>, Inr ())))"
    using simplify_reached by blast
  { assume "\<not> check"
    with s show "snd (simplify e src target w)
              = Inl (AssertionError ''Simplified ONNX model could not be validated'')"
      and "files (fst (simplify e src target w)) = files w"
      and "calls (fst (simplify e src target w))
              = calls w @ [Onnx_load src, Onnxsim_simplify model1 True]"
      by simp_all }
  { assume c: "check"
    with s show "calls (fst (simplify e src target w))
              = calls w @ [Onnx_load src, Onnxsim_simplify model1 True,
                           Onnx_save model2 target]"
      by (simp split: sum.splits)
    { assume "onnx_save e model2 target = Inr ()"
      with s c show "snd (simplify e src target w) = Inr ()"
        and "files (fst (simplify e src target w)) = (files w)(target \<mapsto> model2)"
        by simp_all }
    { fix x assume "onnx_save e model2 target = Inl x"
      with s c show "snd (simplify e src target w) = Inl x"
        and "files (fst (simplify e src target w)) = files w"
        by simp_all } }
next
  fix w' r
  assume ret: "simplify e src target w = (w', r)"
  have all: "((\<exists>m. Onnx_save m target \<in> set (drop (length (calls w)) (calls w')))
            \<longleftrightarrow> (\<exists>model model1 model2.
                files w src = Some model \<and> fix_output model = Inr model1
              \<and> onnxsim_simplify e model1 True = Inr (model2, True)))
       \<and> (r = Inr () \<longleftrightarrow>
            (\<exists>model model1 model2.
                files w src = Some model \<and> fix_output model = Inr model1
              \<and> onnxsim_simplify e model1 True = Inr (model2, True)
              \<and> onnx_save e model2 target = Inr ()
              \<and> files w' = (files w)(target \<mapsto> model2)))
       \<and> (r \<noteq> Inr () \<longrightarrow> files w' = files w)"
  proof -
    from simplify_cases[of w src e target]
    consider model model1 model2 check where
        "files w src = Some model" "fix_output model = Inr model1"
        "onnxsim_simplify e model1 True = Inr (model2, check)"
      | cs x where "simplify e src target w = (w\<lparr>calls := calls w @ cs\<rparr>, Inl x)"
        "\<forall>m p. Onnx_save m p \<notin> set cs"
        "\<forall>model. files w src = Some model \<longrightarrow>
                (\<forall>model1. fix_output model = Inr model1 \<longrightarrow>
                   onnxsim_simplify e model1 True = Inl x)"
      by blast
    then show ?thesis
    proof cases
      case 1
      note s = simplify_reached[OF 1, of target]
      show ?thesis
      proof (cases check)
        case False
        with s ret 1 show ?thesis by auto
      next
        case True
        note c = this
        show ?thesis
        proof (cases "onnx_save e model2 target")
          case (Inl x)
          with s ret 1 c show ?thesis by auto
        next
          case (Inr u)
          with s ret 1 c show ?thesis by auto
        qed
      qed
    next
      case 2
      with ret have "r = Inl x" "w' = w\<lparr>calls := calls w @ cs\<rparr>" by simp_all
      with 2(2,3) show ?thesis by auto
    qed
  qed
  from all show "(\<exists>m. Onnx_save m target \<in> set (drop (length (calls w)) (calls w')))
            \<longleftrightarrow> (\<exists>model model1 model2.
                files w src = Some model \<and> fix_output model = Inr model1
              \<and> onnxsim_simplify e model1 True = Inr (model2, True))" by blast
  from all show "r = Inr () \<longleftrightarrow>
            (\<exists>model model1 model2.
                files w src = Some model \<and> fix_output model = Inr model1
              \<and> onnxsim_simplify e model1 True = Inr (model2, True)
              \<and> onnx_save e model2 target = Inr ()
              \<and> files w' = (files w)(target \<mapsto> model2))" by blast
  from all show "r \<noteq> Inr () \<Longrightarrow> files w' = files w" by blast
qed

text \<open>
  The theorem at a graph with one input and one output: with a simplifier whose check
  fails the assertion is raised and the target does not exist afterwards; with one whose
  check succeeds the target holds the graph with the rewritten output.
\<close>

theorem simplify_validates_witness:
  "snd (simplify
     \<lparr>cuda_is_available = False, set_hparams = (\<lambda>a. Inl KeyError),
      read_config = (\<lambda>p. Inl FileNotFoundError), torch_load = (\<lambda>p. Inl FileNotFoundError),
      init_weight = (\<lambda>i. 0), init_bias = (\<lambda>i. 0), rand_mel = (\<lambda>i. 0), rand_f0 = (\<lambda>i. 0),
      torch_onnx_export = (\<lambda>c. Inl RuntimeError),
      onnxsim_simplify = (\<lambda>m b. Inr (m, False)),
      onnx_save = (\<lambda>m p. Inr ())\<rparr>
     ''a.onnx'' ''b.onnx''
     \<lparr>argv = [],
      files = [''a.onnx'' \<mapsto>
        \<lparr>graph_input = [\<lparr>vi_name = ''mel'', vi_elem_type = 1,
                          vi_shape = [Dim_value 1, Dim_param ''n_frames'', Dim_value 128]\<rparr>],
         graph_output = [\<lparr>vi_name = ''waveform'', vi_elem_type = 1,
                           vi_shape = [Dim_unset, Dim_unset]\<rparr>],
         graph_node = [], opset = 11\<rparr>],
      calls = []\<rparr>)
     = Inl (AssertionError ''Simplified ONNX model could not be validated'')
   \<and> files (fst (simplify
     \<lparr>cuda_is_available = False, set_hparams = (\<lambda>a. Inl KeyError),
      read_config = (\<lambda>p. Inl FileNotFoundError), torch_load = (\<lambda>p. Inl FileNotFoundError),
      init_weight = (\<lambda>i. 0), init_bias = (\<lambda>i. 0), rand_mel = (\<lambda>i. 0), rand_f0 = (\<lambda>i. 0),
      torch_onnx_export = (\<lambda>c. Inl RuntimeError),
      onnxsim_simplify = (\<lambda>m b. Inr (m, False)),
      onnx_save = (\<lambda>m p. Inr ())\<rparr>
     ''a.onnx'' ''b.onnx''
     \<lparr>argv = [],
      files = [''a.onnx'' \<mapsto>
        \<lparr>graph_input = [\<lparr>vi_name = ''mel'', vi_elem_type = 1,
                          vi_shape = [Dim_value 1, Dim_param ''n_frames'', Dim_value 128]\<rparr>],
         graph_output = [\<lparr>vi_name = ''waveform'', vi_elem_type = 1,
                           vi_shape = [Dim_unset, Dim_unset]\<rparr>],
         graph_node = [], opset = 11\<rparr>],
      calls = []\<rparr>)) ''b.onnx'' = None
   \<and> snd (simplify
     \<lparr>cuda_is_available = False, set_hparams = (\<lambda>a. Inl KeyError),
      read_config = (\<lambda>p. Inl FileNotFoundError), torch_load = (\<lambda>p. Inl FileNotFoundError),
      init_weight = (\<lambda>i. 0), init_bias = (\<lambda>i. 0), rand_mel = (\<lambda>i. 0), rand_f0 = (\<lambda>i. 0),
      torch_onnx_export = (\<lambda>c. Inl RuntimeError),
      onnxsim_simplify = (\<lambda>m b. Inr (m, True)),
      onnx_save = (\<lambda>m p. Inr ())\<rparr>
     ''a.onnx'' ''b.onnx''
     \<lparr>argv = [],
      files = [''a.onnx'' \<mapsto>
        \<lparr>graph_input = [\<lparr>vi_name = ''mel'', vi_elem_type = 1,
                          vi_shape = [Dim_value 1, Dim_param ''n_frames'', Dim_value 128]\<rparr>],
         graph_output = [\<lparr>vi_name = ''waveform'', vi_elem_type = 1,
                           vi_shape = [Dim_unset, Dim_unset]\<rparr>],
         graph_node = [], opset = 11\<rparr>],
      calls = []\<rparr>) = Inr ()
   \<and> files (fst (simplify
     \<lparr>cuda_is_available = False, set_hparams = (\<lambda>a. Inl KeyError),
      read_config = (\<lambda>p. Inl FileNotFoundError), torch_load = (\<lambda>p. Inl FileNotFoundError),
      init_weight = (\<lambda>i. 0), init_bias = (\<lambda>i. 0), rand_mel = (\<lambda>i. 0), rand_f0 = (\<lambda>i. 0),
      torch_onnx_export = (\<lambda>c. Inl RuntimeError),
      onnxsim_simplify = (\<lambda>m b. Inr (m, True)),
      onnx_save = (\<lambda>m p. Inr ())\<rparr>
     ''a.onnx'' ''b.onnx''
     \<lparr>argv = [],
      files = [''a.onnx'' \<mapsto>
        \<lparr>graph_input = [\<lparr>vi_name = ''mel'', vi_elem_type = 1,
                          vi_shape = [Dim_value 1, Dim_param ''n_frames'', Dim_value 128]\<rparr>],
         graph_output = [\<lparr>vi_name = ''waveform'', vi_elem_type = 1,
                           vi_shape = [Dim_unset, Dim_unset]\<rparr>],
         graph_node = [], opset = 11\<rparr>],
      calls = []\<rparr>)) ''b.onnx''
      = Some \<lparr>graph_input = [\<lparr>vi_name = ''mel'', vi_elem_type = 1,
                          vi_shape = [Dim_value 1, Dim_param ''n_frames'', Dim_value 128]\<rparr>],
         graph_output = [\<lparr>vi_name = ''waveform'', vi_elem_type = 1,
                           vi_shape = [Dim_value 1, Dim_param ''n_samples'']\<rparr>],
         graph_node = [], opset = 11\<rparr>"
proof -
  let ?e = "\<lambda>chk. \<lparr>cuda_is_available = False, set_hparams = (\<lambda>a. Inl KeyError),
      read_config = (\<lambda>p. Inl FileNotFoundError), torch_load = (\<lambda>p. Inl FileNotFoundError),
      init_weight = (\<lambda>i. 0), init_bias = (\<lambda>i. 0), rand_mel = (\<lambda>i. 0), rand_f0 = (\<lambda>i. 0),
      torch_onnx_export = (\<lambda>c. Inl RuntimeError),
      onnxsim_simplify = (\<lambda>m b. Inr (m, chk)),
      onnx_save = (\<lambda>m p. Inr ())\<rparr>"
  let ?i = "\<lparr>vi_name = ''mel'', vi_elem_type = 1,
                          vi_shape = [Dim_value 1, Dim_param ''n_frames'', Dim_value 128]\<rparr>"
  let ?o = "\<lparr>vi_name = ''waveform'', vi_elem_type = 1, vi_shape = [Dim_unset, Dim_unset]\<rparr>"
  let ?m = "\<lparr>graph_input = [?i], graph_output = [?o], graph_node = [], opset = 11\<rparr>"
  let ?m1 = "?m\<lparr>graph_output := [\<lparr>vi_name = vi_name ?o, vi_elem_type = FLOAT,
          vi_shape = [Dim_value (dim_value (Dim_value 1)), Dim_param ''n_samples'']\<rparr>]\<rparr>"
  let ?w = "\<lparr>argv = [], files = [''a.onnx'' \<mapsto> ?m], calls = []\<rparr>"
  note inst = simplify_validates[where w = ?w and src = "''a.onnx''" and target = "''b.onnx''"]
  have "graph_input ?m = [?i] \<and> graph_output ?m = [?o]
     \<and> vi_shape ?i = [Dim_value 1, Dim_param ''n_frames'', Dim_value 128]"
    by simp
  from inst[THEN conjunct1, rule_format, OF this]
  have fo: "fix_output ?m = Inr ?m1" .
  have "files ?w ''a.onnx'' = Some ?m \<and> fix_output ?m = Inr ?m1
     \<and> onnxsim_simplify (?e False) ?m1 True = Inr (?m1, False)"
    using fo by simp
  from inst[where e = "?e False", THEN conjunct2, THEN conjunct1, rule_format, OF this,
      THEN conjunct1]
  have 1: "snd (simplify (?e False) ''a.onnx'' ''b.onnx'' ?w)
              = Inl (AssertionError ''Simplified ONNX model could not be validated'')"
    and 2: "files (fst (simplify (?e False) ''a.onnx'' ''b.onnx'' ?w)) ''b.onnx'' = None"
    by simp_all
  have "files ?w ''a.onnx'' = Some ?m \<and> fix_output ?m = Inr ?m1
     \<and> onnxsim_simplify (?e True) ?m1 True = Inr (?m1, True)"
    using fo by simp
  from inst[where e = "?e True", THEN conjunct2, THEN conjunct1, rule_format, OF this,
      THEN conjunct2]
  have "onnx_save (?e True) ?m1 ''b.onnx'' = Inr () \<longrightarrow>
                snd (simplify (?e True) ''a.onnx'' ''b.onnx'' ?w) = Inr ()
              \<and> files (fst (simplify (?e True) ''a.onnx'' ''b.onnx'' ?w))
                  = (files ?w)(''b.onnx'' \<mapsto> ?m1)"
    by simp
  then have 3: "snd (simplify (?e True) ''a.onnx'' ''b.onnx'' ?w) = Inr ()"
    and 4: "files (fst (simplify (?e True) ''a.onnx'' ''b.onnx'' ?w)) ''b.onnx'' = Some ?m1"
    by simp_all
  from 4 have 5: "files (fst (simplify (?e True) ''a.onnx'' ''b.onnx'' ?w)) ''b.onnx''
      = Some \<lparr>graph_input = [?i],
         graph_output = [\<lparr>vi_name = ''waveform'', vi_elem_type = 1,
                           vi_shape = [Dim_value 1, Dim_param ''n_samples'']\<rparr>],
         graph_node = [], opset = 11\<rparr>"
    by (simp add: FLOAT_def dim_value_def)
  from 1 2 3 5 show ?thesis by simp
qed

text \<open>
  Claim C8. The call of \<^verbatim>\<open>torch.onnx.export\<close> names the vocoder, the pair \<^verbatim>\<open>(mel, f0)\<close>, the
  path, opset version 11, the input names \<^verbatim>\<open>mel\<close> and \<^verbatim>\<open>f0\<close>, each with the dynamic axis
  \<^verbatim>\<open>n_frames\<close> on dimension 1, and the output name \<^verbatim>\<open>waveform\<close>. Every run of the script
  entry point either raises before any tool is called, or calls the exporter first, on
  the path \<^verbatim>\<open>onnx/assets/nsf_hifigan.onnx\<close> and on inputs of shapes (1, 10, 128) and
  (1, 10); when the exporter raises, nothing else is called; otherwise the run continues
  as \<^verbatim>\<open>simplify\<close> with source and target both that path, on the files that hold the exported
  graph there, and every later call comes after the export and is not an export. A run
  that returns normally made exactly four calls, export, load, simplify, save, and left
  the simplified graph at the path of the exported one.
\<close>

theorem main_export_then_simplify:
  "(ex_model (export_args vocoder mel f0 path) = vocoder
    \<and> ex_args (export_args vocoder mel f0 path) = (mel, f0)
    \<and> ex_f (export_args vocoder mel f0 path) = path
    \<and> ex_opset_version (export_args vocoder mel f0 path) = 11
    \<and> ex_input_names (export_args vocoder mel f0 path) = [''mel'', ''f0'']
    \<and> ex_output_names (export_args vocoder mel f0 path) = [''waveform'']
    \<and> ex_dynamic_axes (export_args vocoder mel f0 path)
         = [(''mel'', [(1, ''n_frames'')]), (''f0'', [(1, ''n_frames'')])])
   \<and> (\<forall>w' r. main e w = (w', r) \<longrightarrow>
        (calls w' = calls w \<and> files w' = files w \<and> (\<exists>x. r = Inl x))
      \<or> (\<exists>vocoder mel f0. shape mel = [1, 10, 128] \<and> shape f0 = [1, 10]
           \<and> ((\<exists>x. torch_onnx_export e
                        (export_args vocoder mel f0 ''onnx/assets/nsf_hifigan.onnx'') = Inl x
                  \<and> r = Inl x \<and> files w' = files w
                  \<and> calls w' = calls w @ [Torch_onnx_export
                        (export_args vocoder mel f0 ''onnx/assets/nsf_hifigan.onnx'')])
              \<or> (\<exists>m rest. torch_onnx_export e
                        (export_args vocoder mel f0 ''onnx/assets/nsf_hifigan.onnx'') = Inr m
                  \<and> (w', r) = simplify e ''onnx/assets/nsf_hifigan.onnx''
                        ''onnx/assets/nsf_hifigan.onnx''
                        (w\<lparr>argv := [''inference/svs/ds_e2e.py'', ''--config'',
                                     ''configs/midi/cascade/opencs/test.yaml''],
                           files := (files w)(''onnx/assets/nsf_hifigan.onnx'' \<mapsto> m),
                           calls := calls w @ [Torch_onnx_export
                             (export_args vocoder mel f0 ''onnx/assets/nsf_hifigan.onnx'')]\<rparr>)
                  \<and> calls w' = calls w
                       @ Torch_onnx_export
                           (export_args vocoder mel f0 ''onnx/assets/nsf_hifigan.onnx'')
                       # Onnx_load ''onnx/assets/nsf_hifigan.onnx'' # rest
                  \<and> (\<forall>c. Torch_onnx_export c \<notin> set rest)))))
   \<and> (\<forall>w'. main e w = (w', Inr ()) \<longrightarrow>
        (\<exists>vocoder mel f0 m m1 m2.
            torch_onnx_export e (export_args vocoder mel f0 ''onnx/assets/nsf_hifigan.onnx'')
              = Inr m
          \<and> fix_output m = Inr m1 \<and> onnxsim_simplify e m1 True = Inr (m2, True)
          \<and> calls w' = calls w
               @ [Torch_onnx_export (export_args vocoder mel f0 ''onnx/assets/nsf_hifigan.onnx''),
                  Onnx_load ''onnx/assets/nsf_hifigan.onnx'',
                  Onnxsim_simplify m1 True,
                  Onnx_save m2 ''onnx/assets/nsf_hifigan.onnx'']
          \<and> files w' = (files w)(''onnx/assets/nsf_hifigan.onnx'' \<mapsto> m2)))"
proof (intro conjI allI impI)
  fix w' r
  assume ret: "main e w = (w', r)"
  let ?p = "''onnx/assets/nsf_hifigan.onnx''"
  let ?a = "[''inference/svs/ds_e2e.py'', ''--config'', ''configs/midi/cascade/opencs/test.yaml'']"
  from main_cases[of e w]
  consider x where "main e w = (w\<lparr>argv := ?a\<rparr>, Inl x)"
    | vocoder mel f0 x where "shape mel = [1, 10, 128]" "shape f0 = [1, 10]"
        "torch_onnx_export e (export_args vocoder mel f0 ?p) = Inl x"
        "main e w = (w\<lparr>argv := ?a,
            calls := calls w @ [Torch_onnx_export (export_args vocoder mel f0 ?p)]\<rparr>, Inl x)"
    | vocoder mel f0 m where "shape mel = [1, 10, 128]" "shape f0 = [1, 10]"
        "torch_onnx_export e (export_args vocoder mel f0 ?p) = Inr m"
        "main e w = simplify e ?p ?p (w\<lparr>argv := ?a, files := (files w)(?p \<mapsto> m),
            calls := calls w @ [Torch_onnx_export (export_args vocoder mel f0 ?p)]\<rparr>)"
    by blast
  then show "(calls w' = calls w \<and> files w' = files w \<and> (\<exists>x. r = Inl x))
      \<or> (\<exists>vocoder mel f0. shape mel = [1, 10, 128] \<and> shape f0 = [1, 10]
           \<and> ((\<exists>x. torch_onnx_export e (export_args vocoder mel f0 ?p) = Inl x
                  \<and> r = Inl x \<and> files w' = files w
                  \<and> calls w' = calls w @ [Torch_onnx_export (export_args vocoder mel f0 ?p)])
              \<or> (\<exists>m rest. torch_onnx_export e (export_args vocoder mel f0 ?p) = Inr m
                  \<and> (w', r) = simplify e ?p ?p
                        (w\<lparr>argv := ?a, files := (files w)(?p \<mapsto> m),
                           calls := calls w @ [Torch_onnx_export (export_args vocoder mel f0 ?p)]\<rparr>)
                  \<and> calls w' = calls w @ Torch_onnx_export (export_args vocoder mel f0 ?p)
                       # Onnx_load ?p # rest
                  \<and> (\<forall>c. Torch_onnx_export c \<notin> set rest))))"
  proof cases
    case 1
    with ret have "calls w' = calls w \<and> files w' = files w \<and> (\<exists>x. r = Inl x)" by auto
    then show ?thesis ..
  next
    case 2
    with ret have "w' = w\<lparr>argv := ?a,
            calls := calls w @ [Torch_onnx_export (export_args vocoder mel f0 ?p)]\<rparr>" "r = Inl x"
      by simp_all
    then have "\<exists>x. torch_onnx_export e (export_args vocoder mel f0 ?p) = Inl x
                  \<and> r = Inl x \<and> files w' = files w
                  \<and> calls w' = calls w @ [Torch_onnx_export (export_args vocoder mel f0 ?p)]"
      using 2(3) by simp
    with 2(1,2) show ?thesis by blast
  next
    case 3
    let ?w1 = "w\<lparr>argv := ?a, files := (files w)(?p \<mapsto> m),
            calls := calls w @ [Torch_onnx_export (export_args vocoder mel f0 ?p)]\<rparr>"
    from 3(4) ret have s: "(w', r) = simplify e ?p ?p ?w1" by simp
    from simplify_calls[of e ?p ?p ?w1] obtain rest where
      "calls (fst (simplify e ?p ?p ?w1)) = calls ?w1 @ Onnx_load ?p # rest"
      "\<forall>c. Torch_onnx_export c \<notin> set rest" by blast
    with s[symmetric] have "calls w' = calls w @ Torch_onnx_export (export_args vocoder mel f0 ?p)
                       # Onnx_load ?p # rest" by simp
    with s 3(3) \<open>\<forall>c. Torch_onnx_export c \<notin> set rest\<close>
    have "\<exists>m rest. torch_onnx_export e (export_args vocoder mel f0 ?p) = Inr m
                  \<and> (w', r) = simplify e ?p ?p
                        (w\<lparr>argv := ?a, files := (files w)(?p \<mapsto> m),
                           calls := calls w @ [Torch_onnx_export (export_args vocoder mel f0 ?p)]\<rparr>)
                  \<and> calls w' = calls w @ Torch_onnx_export (export_args vocoder mel f0 ?p)
                       # Onnx_load ?p # rest
                  \<and> (\<forall>c. Torch_onnx_export c \<notin> set rest)"
      by blast
    with 3(1,2) show ?thesis by blast
  qed
next
  fix w'
  assume ret: "main e w = (w', Inr ())"
  let ?p = "''onnx/assets/nsf_hifigan.onnx''"
  let ?a = "[''inference/svs/ds_e2e.py'', ''--config'', ''configs/midi/cascade/opencs/test.yaml'']"
  from main_cases[of e w] ret
  obtain vocoder mel f0 m where 3:
        "torch_onnx_export e (export_args vocoder mel f0 ?p) = Inr m"
        "main e w = simplify e ?p ?p (w\<lparr>argv := ?a, files := (files w)(?p \<mapsto> m),
            calls := calls w @ [Torch_onnx_export (export_args vocoder mel f0 ?p)]\<rparr>)"
    by auto
  let ?w1 = "w\<lparr>argv := ?a, files := (files w)(?p \<mapsto> m),
            calls := calls w @ [Torch_onnx_export (export_args vocoder mel f0 ?p)]\<rparr>"
  from 3(2) ret have "simplify e ?p ?p ?w1 = (w', Inr ())" by simp
  from simplify_Inr[OF this] obtain m0 m1 m2 where
    k: "files ?w1 ?p = Some m0" "fix_output m0 = Inr m1"
       "onnxsim_simplify e m1 True = Inr (m2, True)"
       "onnx_save e m2 ?p = Inr ()"
       "w' = ?w1\<lparr>files := (files ?w1)(?p \<mapsto> m2),
              calls := calls ?w1 @ [Onnx_load ?p, Onnxsim_simplify m1 True, Onnx_save m2 ?p]\<rparr>"
    by blast
  from k(1) have m0: "m0 = m" by simp
  show "\<exists>vocoder mel f0 m m1 m2.
            torch_onnx_export e (export_args vocoder mel f0 ?p) = Inr m
          \<and> fix_output m = Inr m1 \<and> onnxsim_simplify e m1 True = Inr (m2, True)
          \<and> calls w' = calls w
               @ [Torch_onnx_export (export_args vocoder mel f0 ?p), Onnx_load ?p,
                  Onnxsim_simplify m1 True, Onnx_save m2 ?p]
          \<and> files w' = (files w)(?p \<mapsto> m2)"
    apply (rule exI[of _ vocoder], rule exI[of _ mel], rule exI[of _ f0], rule exI[of _ m],
        rule exI[of _ m1], rule exI[of _ m2])
    using 3(1) k(2,3) unfolding k(5) m0 by simp
qed (simp_all add: export_args_def)

text \<open>
  The theorem at a configuration with one upsampling stage, an exporter that returns a
  graph with one input and one output, and a simplifier that accepts: the script returns
  normally and the file at the path holds the graph with the rewritten output.
\<close>

theorem main_export_then_simplify_witness:
  "\<exists>w' vocoder mel f0 m1 m2.
     main
       \<lparr>cuda_is_available = False,
        set_hparams = (\<lambda>a. Inr (\<lambda>k. if k = ''vocoder_ckpt'' then Some ''ckpt/model.ckpt'' else None)),
        read_config = (\<lambda>p. if p = ''ckpt/config.json''
           then Inr \<lparr>resblock = ''1'', resblock_kernel_sizes = [3],
                     resblock_dilation_sizes = [[1, 3, 5]], upsample_rates = [2],
                     upsample_kernel_sizes = [4], upsample_initial_channel = 4,
                     num_mels = 2, hp_sampling_rate = 4\<rparr>
           else Inl FileNotFoundError),
        torch_load = (\<lambda>p. Inr (\<lambda>k. if k = ''generator''
           then Some \<lparr>sd_l_linear_weight = None, sd_l_linear_bias = None\<rparr> else None)),
        init_weight = (\<lambda>i. 1), init_bias = (\<lambda>i. 0),
        rand_mel = (\<lambda>i. 0), rand_f0 = (\<lambda>i. 0),
        torch_onnx_export = (\<lambda>c. Inr
           \<lparr>graph_input = [\<lparr>vi_name = ''mel'', vi_elem_type = 1,
                             vi_shape = [Dim_value 1, Dim_param ''n_frames'', Dim_value 128]\<rparr>],
            graph_output = [\<lparr>vi_name = ''waveform'', vi_elem_type = 1,
                              vi_shape = [Dim_unset, Dim_unset]\<rparr>],
            graph_node = [], opset = ex_opset_version c\<rparr>),
        onnxsim_simplify = (\<lambda>m b. Inr (m, True)),
        onnx_save = (\<lambda>m p. Inr ())\<rparr>
       \<lparr>argv = [], files = Map.empty, calls = []\<rparr> = (w', Inr ())
   \<and> calls w' = [Torch_onnx_export (export_args vocoder mel f0 ''onnx/assets/nsf_hifigan.onnx''),
                 Onnx_load ''onnx/assets/nsf_hifigan.onnx'',
                 Onnxsim_simplify m1 True,
                 Onnx_save m2 ''onnx/assets/nsf_hifigan.onnx'']
   \<and> files w' ''onnx/assets/nsf_hifigan.onnx'' = Some m2
   \<and> opset m2 = 11
   \<and> graph_output m2 = [\<lparr>vi_name = ''waveform'', vi_elem_type = 1,
                           vi_shape = [Dim_value 1, Dim_param ''n_samples'']\<rparr>]"
proof -
  let ?hp = "\<lparr>resblock = ''1'', resblock_kernel_sizes = [3],
                     resblock_dilation_sizes = [[1, 3, 5]], upsample_rates = [2],
                     upsample_kernel_sizes = [4], upsample_initial_channel = 4,
                     num_mels = 2, hp_sampling_rate = 4\<rparr>"
  let ?sd = "\<lparr>sd_l_linear_weight = None, sd_l_linear_bias = None\<rparr>"
  let ?cp = "\<lambda>k. if k = ''generator'' then Some ?sd else None"
  let ?hps = "\<lambda>k. if k = ''vocoder_ckpt'' then Some ''ckpt/model.ckpt'' else None"
  let ?i = "\<lparr>vi_name = ''mel'', vi_elem_type = 1,
                          vi_shape = [Dim_value 1, Dim_param ''n_frames'', Dim_value 128]\<rparr>"
  let ?o = "\<lparr>vi_name = ''waveform'', vi_elem_type = 1, vi_shape = [Dim_unset, Dim_unset]\<rparr>"
  let ?M = "\<lambda>c. \<lparr>graph_input = [?i], graph_output = [?o], graph_node = [],
                  opset = ex_opset_version c\<rparr>"
  let ?e = "\<lparr>cuda_is_available = False,
        set_hparams = (\<lambda>a. Inr ?hps),
        read_config = (\<lambda>p. if p = ''ckpt/config.json'' then Inr ?hp else Inl FileNotFoundError),
        torch_load = (\<lambda>p. Inr ?cp),
        init_weight = (\<lambda>i. 1), init_bias = (\<lambda>i. 0),
        rand_mel = (\<lambda>i. 0), rand_f0 = (\<lambda>i. 0),
        torch_onnx_export = (\<lambda>c. Inr (?M c)),
        onnxsim_simplify = (\<lambda>m b. Inr (m, True)),
        onnx_save = (\<lambda>m p. Inr ())\<rparr>"
  let ?w = "\<lparr>argv = [], files = Map.empty, calls = []\<rparr>"
  let ?p = "''onnx/assets/nsf_hifigan.onnx''"
  let ?a = "[''inference/svs/ds_e2e.py'', ''--config'', ''configs/midi/cascade/opencs/test.yaml'']"
  note inst = main_export_then_simplify[where e = ?e and w = ?w]
  have path: "path_join (fst (path_split ''ckpt/model.ckpt'')) ''config.json'' = ''ckpt/config.json''"
    by (simp add: path_join_def path_split_def Let_def)
  have "\<exists>G0. Generator_init ?hp (\<lambda>i. 1) (\<lambda>i. 0) = Inr G0"
    by (simp add: Generator_init_eval)
  then obtain G0 where G0: "Generator_init ?hp (\<lambda>i. 1) (\<lambda>i. 0) = Inr G0" ..
  note h0 = Generator_init_hooks[OF G0]
  have G1: "load_state_dict G0 ?sd = Inr G0"
    by (simp add: load_state_dict_def Let_def)
  from Generator_remove_weight_norm_total[of "eval_mode G0"] h0
  obtain G where G2: "Generator_remove_weight_norm (eval_mode G0) = Inr G"
    by (auto simp add: eval_mode_def)
  have lm: "load_model ?e ''ckpt/model.ckpt'' ''cpu'' = Inr (G, ?hp)"
    using G0 G1 G2 unfolding load_model_def path Let_def by simp
  let ?V = "\<lparr>device = ''cpu'', generator = G, nsf_hparams = ?hp\<rparr>"
  have V: "NsfHiFiGAN_init ?e ?hps (Some ''cpu'') = Inr ?V"
    using lm unfolding NsfHiFiGAN_init_def Let_def by simp
  let ?c = "export_args ?V \<lparr>shape = [1, 10, 128], data = (\<lambda>i. 0)\<rparr>
              \<lparr>shape = [1, 10], data = (\<lambda>i. 0)\<rparr> ?p"
  let ?w1 = "?w\<lparr>argv := ?a, files := (files ?w)(?p \<mapsto> ?M ?c),
                calls := calls ?w @ [Torch_onnx_export ?c]\<rparr>"
  have ex: "export ?e ?p (?w\<lparr>argv := ?a\<rparr>) = (?w1, Inr ())"
    using V unfolding export_def Let_def by simp
  let ?m1 = "(?M ?c)\<lparr>graph_output := [\<lparr>vi_name = ''waveform'', vi_elem_type = FLOAT,
          vi_shape = [Dim_value 1, Dim_param ''n_samples'']\<rparr>]\<rparr>"
  have fo: "fix_output (?M ?c) = Inr ?m1"
    by (simp add: fix_output_def make_tensor_value_info_def Let_def dim_value_def)
  have "files ?w1 ?p = Some (?M ?c)" by simp
  from simplify_reached[OF this fo, of ?e ?m1 True ?p]
  have "\<exists>w'. simplify ?e ?p ?p ?w1 = (w', Inr ())" by simp
  then obtain w' where s: "simplify ?e ?p ?p ?w1 = (w', Inr ())" ..
  have m: "main ?e ?w = (w', Inr ())"
    unfolding main_unfold ex using s by simp
  from inst[THEN conjunct2, THEN conjunct2, rule_format, OF m]
  obtain vocoder mel f0 m0 m1 m2 where r:
    "torch_onnx_export ?e (export_args vocoder mel f0 ?p) = Inr m0
     \<and> fix_output m0 = Inr m1 \<and> onnxsim_simplify ?e m1 True = Inr (m2, True)
     \<and> calls w' = calls ?w
          @ [Torch_onnx_export (export_args vocoder mel f0 ?p), Onnx_load ?p,
             Onnxsim_simplify m1 True, Onnx_save m2 ?p]
     \<and> files w' = (files ?w)(?p \<mapsto> m2)"
    by (elim exE) (rule that)
  note r1 = r[THEN conjunct1]
  note r2 = r[THEN conjunct2, THEN conjunct1]
  note r3 = r[THEN conjunct2, THEN conjunct2, THEN conjunct1]
  note r4 = r[THEN conjunct2, THEN conjunct2, THEN conjunct2, THEN conjunct1]
  note r5 = r[THEN conjunct2, THEN conjunct2, THEN conjunct2, THEN conjunct2]
  from r1 have m0: "m0 = ?M (export_args vocoder mel f0 ?p)" by simp
  from r2 have m1: "m1 = m0\<lparr>graph_output := [\<lparr>vi_name = ''waveform'', vi_elem_type = FLOAT,
          vi_shape = [Dim_value 1, Dim_param ''n_samples'']\<rparr>]\<rparr>"
    unfolding m0 by (simp add: fix_output_def make_tensor_value_info_def Let_def dim_value_def)
  from r3 have m2: "m2 = m1" by simp
  have o: "opset m2 = 11" "graph_output m2 = [\<lparr>vi_name = ''waveform'', vi_elem_type = 1,
                           vi_shape = [Dim_value 1, Dim_param ''n_samples'']\<rparr>]"
    unfolding m2 m1 m0 by (simp_all add: FLOAT_def export_args_def)
  have c: "calls w' = [Torch_onnx_export (export_args vocoder mel f0 ?p), Onnx_load ?p,
             Onnxsim_simplify m1 True, Onnx_save m2 ?p]"
    using r4 by simp
  have f: "files w' ?p = Some m2" using r5 by simp
  show ?thesis
    apply (rule exI[of _ w'], rule exI[of _ vocoder], rule exI[of _ mel], rule exI[of _ f0],
        rule exI[of _ m1], rule exI[of _ m2])
    apply (intro conjI)
    apply (rule m c f o)+
    done
qed

end
